theory Spec2Isabelle
  imports Complex_Main "HOL-Library.Word"
begin

section \<open>JavaScript values\<close>

text \<open>
  A \<open>number\<close> is a finite JavaScript \<^verbatim>\<open>Number\<close>, given by its real value. The copy
  strategy and the balance verification of the execution client compare and combine
  such values exactly. In the PnL calculator, the two price readers and the dry run of
  the execution client every operation is rounded to a double by \<open>rd\<close> below, and a
  decimal literal \<^verbatim>\<open>c\<close> of the source is the double \<open>rd c\<close>. An optional
  field read with \<^verbatim>\<open>??\<close>, \<^verbatim>\<open>||\<close> or \<^verbatim>\<open>?.\<close>, which treat \<^verbatim>\<open>null\<close> and \<^verbatim>\<open>undefined\<close> alike,
  is an \<open>option\<close>; a field read by a destructuring default, which replaces \<^verbatim>\<open>undefined\<close>
  only, is a \<open>jsval\<close>.
\<close>

type_synonym number = real

text \<open>The truthiness test \<^verbatim>\<open>!x\<close> on an optional number: absent or zero.\<close>

definition falsy :: "number option \<Rightarrow> bool" where
  "falsy x = (case x of None \<Rightarrow> True | Some v \<Rightarrow> v = 0)"

text \<open>\<^verbatim>\<open>x ?? d\<close> or \<^verbatim>\<open>x || d\<close> on an optional value that is not falsy when present.\<close>

definition orDefault :: "'a option \<Rightarrow> 'a \<Rightarrow> 'a" where
  "orDefault x d = (case x of None \<Rightarrow> d | Some v \<Rightarrow> v)"

text \<open>
  The decimal string \<^verbatim>\<open>x.toFixed(d)\<close> of a number below \<open>10^21\<close> in magnitude, as the number
  it denotes: the decimal with \<open>d\<close> fraction digits nearest to the exact value of \<open>x\<close>, ties
  taking the larger magnitude; the sign is handled apart, as \<^verbatim>\<open>toFixed\<close> does.
\<close>

definition toFixed :: "nat \<Rightarrow> number \<Rightarrow> number" where
  "toFixed d x =
     (if x < 0 then - (of_int \<lfloor>(- x) * 10 ^ d + 1 / 2\<rfloor> / 10 ^ d)
      else of_int \<lfloor>x * 10 ^ d + 1 / 2\<rfloor> / 10 ^ d)"

text \<open>A field of an object: missing, \<^verbatim>\<open>null\<close>, or a value.\<close>

datatype 'a jsval = Undefined | Null | Val 'a

text \<open>A destructuring default \<^verbatim>\<open>{ f = d } = obj\<close>: the default replaces \<^verbatim>\<open>undefined\<close> only.\<close>

definition withDefault :: "'a jsval \<Rightarrow> 'a \<Rightarrow> 'a jsval" where
  "withDefault v d = (case v of Undefined \<Rightarrow> Val d | _ \<Rightarrow> v)"

text \<open>The nullish coalescing \<^verbatim>\<open>v ?? d\<close>.\<close>

definition nullish :: "'a jsval \<Rightarrow> 'a \<Rightarrow> 'a" where
  "nullish v d = (case v of Val x \<Rightarrow> x | _ \<Rightarrow> d)"

section \<open>Double-precision arithmetic\<close>

text \<open>The number of binary digits of a natural number.\<close>

fun bitLength :: "nat \<Rightarrow> nat" where
  "bitLength n = (if n = 0 then 0 else Suc (bitLength (n div 2)))"

declare bitLength.simps [simp del]

text \<open>The power of two with an integer exponent.\<close>

definition pow2 :: "int \<Rightarrow> real" where
  "pow2 e = (if 0 \<le> e then 2 ^ nat e else 1 / 2 ^ nat (- e))"

text \<open>Rounding to the nearest integer, a tie going to the even one.\<close>

definition rne :: "real \<Rightarrow> int" where
  "rne x =
     (let f = \<lfloor>x\<rfloor>; d = x - of_int f in
      if d < 1 / 2 then f else if d > 1 / 2 then f + 1 else if even f then f else f + 1)"

text \<open>
  The exponent of the last binary place of the double next to \<open>x\<close>: 52 places below the
  leading bit of \<open>x\<close>, and \<open>-1074\<close> in the subnormal range.
\<close>

definition ulpExp :: "real \<Rightarrow> int" where
  "ulpExp x = max (int (bitLength (nat \<lfloor>\<bar>x\<bar> * pow2 1074\<rfloor>)) - 1127) (- 1074)"

text \<open>
  Rounding to double precision (53 significant bits, nearest, ties to even, gradual
  underflow), with no bound on the exponent above.
\<close>

definition rd :: "real \<Rightarrow> real" where
  "rd x = of_int (rne (x / pow2 (ulpExp x))) * pow2 (ulpExp x)"

text \<open>
  A JavaScript \<^verbatim>\<open>Number\<close> with its infinities and \<^verbatim>\<open>NaN\<close>. The two zeros are one value,
  as they are for \<^verbatim>\<open>===\<close>; none of the quotients below has a divisor that can be \<open>-0\<close>.
\<close>

datatype jsnum = Num real | PosInf | NegInf | NaN




definition js_le :: "jsnum \<Rightarrow> number \<Rightarrow> bool" where
  "js_le x y = (case x of Num v \<Rightarrow> v \<le> y | PosInf \<Rightarrow> False | NegInf \<Rightarrow> True | NaN \<Rightarrow> False)"

definition js_gt :: "jsnum \<Rightarrow> number \<Rightarrow> bool" where
  "js_gt x y = (case x of Num v \<Rightarrow> v > y | PosInf \<Rightarrow> True | NegInf \<Rightarrow> False | NaN \<Rightarrow> False)"

text \<open>
  The double that an exact result rounds to: an infinity once the rounded magnitude
  reaches \<open>2^1024\<close>.
\<close>

definition fl :: "real \<Rightarrow> jsnum" where
  "fl x = (if pow2 1024 \<le> \<bar>rd x\<bar> then (if 0 < x then PosInf else NegInf) else Num (rd x))"

text \<open>The double that a decimal literal of the source denotes.\<close>

definition dbl :: "real \<Rightarrow> jsnum" where
  "dbl x = Num (rd x)"

definition f_neg :: "jsnum \<Rightarrow> jsnum" where
  "f_neg a = (case a of Num x \<Rightarrow> Num (- x) | PosInf \<Rightarrow> NegInf | NegInf \<Rightarrow> PosInf | NaN \<Rightarrow> NaN)"

text \<open>\<^verbatim>\<open>Math.abs\<close>.\<close>

definition f_abs :: "jsnum \<Rightarrow> jsnum" where
  "f_abs a = (case a of Num x \<Rightarrow> Num \<bar>x\<bar> | PosInf \<Rightarrow> PosInf | NegInf \<Rightarrow> PosInf | NaN \<Rightarrow> NaN)"

text \<open>The operators \<^verbatim>\<open>+\<close>, \<^verbatim>\<open>-\<close>, \<^verbatim>\<open>*\<close> and \<^verbatim>\<open>/\<close> on numbers.\<close>

fun f_add :: "jsnum \<Rightarrow> jsnum \<Rightarrow> jsnum" where
  "f_add (Num x) (Num y) = fl (x + y)"
| "f_add NaN b = NaN"
| "f_add a NaN = NaN"
| "f_add PosInf NegInf = NaN"
| "f_add NegInf PosInf = NaN"
| "f_add PosInf b = PosInf"
| "f_add a PosInf = PosInf"
| "f_add NegInf b = NegInf"
| "f_add a NegInf = NegInf"

definition f_sub :: "jsnum \<Rightarrow> jsnum \<Rightarrow> jsnum" where
  "f_sub a b = f_add a (f_neg b)"

definition signed :: "bool \<Rightarrow> jsnum" where
  "signed positive = (if positive then PosInf else NegInf)"

fun f_mul :: "jsnum \<Rightarrow> jsnum \<Rightarrow> jsnum" where
  "f_mul (Num x) (Num y) = fl (x * y)"
| "f_mul NaN b = NaN"
| "f_mul a NaN = NaN"
| "f_mul (Num x) b = (if x = 0 then NaN else signed ((0 < x) = (b = PosInf)))"
| "f_mul a (Num y) = (if y = 0 then NaN else signed ((0 < y) = (a = PosInf)))"
| "f_mul a b = signed (a = b)"

fun f_div :: "jsnum \<Rightarrow> jsnum \<Rightarrow> jsnum" where
  "f_div (Num x) (Num y) =
     (if y \<noteq> 0 then fl (x / y) else if x = 0 then NaN else signed (0 < x))"
| "f_div NaN b = NaN"
| "f_div a NaN = NaN"
| "f_div (Num x) b = Num 0"
| "f_div a (Num y) = signed ((0 \<le> y) = (a = PosInf))"
| "f_div a b = NaN"

text \<open>
  \<^verbatim>\<open>Number(x.toFixed(d))\<close>: the double next to the decimal string; from \<open>10^21\<close> on, and for
  an infinity or \<^verbatim>\<open>NaN\<close>, the string is the number's own.
\<close>

definition toFixedN :: "nat \<Rightarrow> jsnum \<Rightarrow> jsnum" where
  "toFixedN d a =
     (case a of
        Num x \<Rightarrow> if 10 ^ 21 \<le> \<bar>x\<bar> then Num x else fl (toFixed d x)
      | _ \<Rightarrow> a)"

text \<open>\<^verbatim>\<open>ToNumber\<close> on a field that holds a number when it holds a value.\<close>

definition toNumber :: "jsnum jsval \<Rightarrow> jsnum" where
  "toNumber v = (case v of Undefined \<Rightarrow> NaN | Null \<Rightarrow> Num 0 | Val x \<Rightarrow> x)"

text \<open>The truthiness test \<^verbatim>\<open>!x\<close> on such a field: missing, \<^verbatim>\<open>null\<close>, zero or \<^verbatim>\<open>NaN\<close>.\<close>

definition falsyVal :: "jsnum jsval \<Rightarrow> bool" where
  "falsyVal v =
     (case v of
        Val (Num x) \<Rightarrow> x = 0
      | Val NaN \<Rightarrow> True
      | Val _ \<Rightarrow> False
      | _ \<Rightarrow> True)"

section \<open>PnL accounting (pnlCalculator.js)\<close>

subsection \<open>The improved variant\<close>

text \<open>
  The fields of the trade are numbers when present, and the executor a string. The
  function throws \<^verbatim>\<open>Error\<close> for a missing or non-positive required field, and a
  \<^verbatim>\<open>TypeError\<close> at \<^verbatim>\<open>networkFee.toFixed(6)\<close> when the network fee is \<^verbatim>\<open>null\<close>.
\<close>

record trade =
  entryPrice :: "jsnum jsval"
  exitPrice :: "jsnum jsval"
  tokenAmount :: "jsnum jsval"
  solSpent :: "jsnum jsval"
  executor :: "string jsval"
  slippage :: "jsnum jsval"
  networkFee :: "jsnum jsval"
  priorityFee :: "jsnum jsval"

datatype pnl_error = MissingFields | NotPositive | TypeError

record pnl_result =
  pnlSOL :: jsnum
  pnlPercent :: jsnum
  priceChangePercent :: jsnum
  netReceived :: jsnum
  totalFeeAmount :: jsnum
  feeImpactPercent :: jsnum
  bd_buyFeePercent :: jsnum
  bd_buyFeeAmount :: jsnum
  bd_grossValue :: jsnum
  bd_sellFeeAmount :: jsnum
  bd_sellFeePercent :: jsnum
  bd_valueAfterSellFee :: jsnum
  bd_slippageAmount :: jsnum
  bd_slippagePercent :: "jsnum jsval"
  bd_valueAfterSlippage :: jsnum
  bd_networkFee :: jsnum
  bd_priorityFee :: "jsnum jsval"
  bd_totalNetworkFee :: jsnum
  bd_netReceived :: jsnum
  bd_executor :: "string jsval"

text \<open>The pair (buyFeeTotal, sellFeeTotal) chosen by \<^verbatim>\<open>executor === ...\<close>.\<close>

definition feeTotals :: "string jsval \<Rightarrow> jsnum \<times> jsnum" where
  "feeTotals ex =
     (if ex = Val ''pumpportal'' then (dbl 0.0175, dbl 0.0175)
      else if ex = Val ''jupiter'' then (dbl 0.003, dbl 0.003)
      else (dbl 0.01, dbl 0.01))"

definition calculatePnL :: "trade \<Rightarrow> pnl_error + pnl_result" where
  "calculatePnL t =
     (let ex = withDefault (executor t) ''pumpportal'';
          sl = withDefault (slippage t) (Num 0);
          nf = withDefault (networkFee t) (dbl 0.000005);
          pf = withDefault (priorityFee t) (Num 0)
      in
      if falsyVal (entryPrice t) \<or> falsyVal (exitPrice t) \<or> falsyVal (tokenAmount t) \<or>
         falsyVal (solSpent t)
      then Inl MissingFields
      else
        let ep = toNumber (entryPrice t);
            xp = toNumber (exitPrice t);
            ta = toNumber (tokenAmount t);
            ss = toNumber (solSpent t)
        in
        if js_le ta 0 \<or> js_le ss 0 \<or> js_le ep 0 \<or> js_le xp 0 then Inl NotPositive
        else
          let buyFeeTotal = fst (feeTotals ex);
              sellFeeTotal = snd (feeTotals ex);
              grossValue = f_mul ta xp;
              sellFeeAmount = f_mul grossValue sellFeeTotal;
              valueAfterSellFee = f_sub grossValue sellFeeAmount;
              valueAfterSlippage =
                (if js_gt (f_abs (toNumber sl)) (rd 0.0001)
                 then f_sub valueAfterSellFee (f_mul valueAfterSellFee (f_abs (toNumber sl)))
                 else valueAfterSellFee);
              totalNetworkFee = f_add (toNumber nf) (toNumber pf);
              netRecv = f_sub valueAfterSlippage totalNetworkFee
          in
          if nf = Null then Inl TypeError
          else
            let pnl = f_sub netRecv ss;
                pct = f_mul (f_div pnl ss) (Num 100);
                pcp = f_mul (f_div (f_sub xp ep) ep) (Num 100);
                tfa = f_add (f_add (f_mul ss buyFeeTotal) sellFeeAmount) totalNetworkFee;
                fip = f_mul (f_div tfa ss) (Num 100)
            in Inr \<lparr> pnlSOL = toFixedN 6 pnl,
                     pnlPercent = toFixedN 2 pct,
                     priceChangePercent = toFixedN 2 pcp,
                     netReceived = toFixedN 6 netRecv,
                     totalFeeAmount = toFixedN 6 tfa,
                     feeImpactPercent = toFixedN 2 fip,
                     bd_buyFeePercent = buyFeeTotal,
                     bd_buyFeeAmount = f_mul ss buyFeeTotal,
                     bd_grossValue = grossValue,
                     bd_sellFeeAmount = sellFeeAmount,
                     bd_sellFeePercent = sellFeeTotal,
                     bd_valueAfterSellFee = valueAfterSellFee,
                     bd_slippageAmount = f_sub valueAfterSellFee valueAfterSlippage,
                     bd_slippagePercent = sl,
                     bd_valueAfterSlippage = valueAfterSlippage,
                     bd_networkFee = toNumber nf,
                     bd_priorityFee = pf,
                     bd_totalNetworkFee = totalNetworkFee,
                     bd_netReceived = netRecv,
                     bd_executor = ex \<rparr>)"

subsection \<open>The basic variant (src/pnlCalculator.js)\<close>

text \<open>
  The other \<^verbatim>\<open>calculatePnL\<close> of the repository reads the four required fields of the
  trade and its \<^verbatim>\<open>fees\<close> object, here the second argument (\<^verbatim>\<open>fees.buyFee ?? 0.01\<close>,
  \<^verbatim>\<open>fees.sellFee ?? 0.01\<close>; reading a fee of \<^verbatim>\<open>null\<close> throws). It has no slippage and no
  network-fee step, checks no sign and rounds nothing.
\<close>

record fees =
  buyFee :: "jsnum jsval"
  sellFee :: "jsnum jsval"

record basic_pnl_result =
  b_pnlSOL :: jsnum
  b_pnlPercent :: jsnum
  b_priceChangePercent :: jsnum
  b_solBeforeSellFee :: jsnum
  b_sellFeeAmount :: jsnum
  b_solAfterSellFee :: jsnum
  b_buyFeePercent :: jsnum
  b_sellFeePercent :: jsnum

definition calculatePnL_basic :: "trade \<Rightarrow> fees jsval \<Rightarrow> pnl_error + basic_pnl_result" where
  "calculatePnL_basic t fs =
     (if falsyVal (entryPrice t) \<or> falsyVal (exitPrice t) \<or> falsyVal (tokenAmount t) \<or>
         falsyVal (solSpent t)
      then Inl MissingFields
      else if fs = Null then Inl TypeError
      else
        let f = nullish fs \<lparr> buyFee = Undefined, sellFee = Undefined \<rparr>;
            ep = toNumber (entryPrice t);
            xp = toNumber (exitPrice t);
            ta = toNumber (tokenAmount t);
            ss = toNumber (solSpent t);
            buyFeePercent = nullish (buyFee f) (dbl 0.01);
            sellFeePercent = nullish (sellFee f) (dbl 0.01);
            solBeforeSellFee = f_mul ta xp;
            solAfterSellFee = f_mul solBeforeSellFee (f_sub (Num 1) sellFeePercent);
            pnl = f_sub solAfterSellFee ss;
            pct = f_mul (f_div pnl ss) (Num 100);
            pcp = f_mul (f_div (f_sub xp ep) ep) (Num 100)
        in Inr \<lparr> b_pnlSOL = pnl, b_pnlPercent = pct, b_priceChangePercent = pcp,
                 b_solBeforeSellFee = solBeforeSellFee,
                 b_sellFeeAmount = f_mul solBeforeSellFee sellFeePercent,
                 b_solAfterSellFee = solAfterSellFee,
                 b_buyFeePercent = buyFeePercent, b_sellFeePercent = sellFeePercent \<rparr>)"

subsection \<open>The fee order of the specification\<close>

text \<open>
  The fee order as the specification words it, in exact arithmetic, for comparison with
  the code: the venue's sell-side fee, then slippage, then the network and priority
  fees, each taken off the proceeds of the step before.
\<close>

definition spec_netReceived ::
  "number \<Rightarrow> number \<Rightarrow> number \<Rightarrow> number \<Rightarrow> number \<Rightarrow> number \<Rightarrow> number" where
  "spec_netReceived quantity exitP venueFee slip netFee prioFee =
     (let gross = quantity * exitP;
          afterFee = gross - gross * venueFee;
          afterSlip = afterFee - afterFee * \<bar>slip\<bar>
      in afterSlip - (netFee + prioFee))"

text \<open>The round-trip example of the specification; the network fee is left at its default.\<close>

definition exampleTrade :: trade where
  "exampleTrade =
     \<lparr> entryPrice = Val (dbl 0.0001), exitPrice = Val (dbl 0.00015),
       tokenAmount = Val (Num 1000000), solSpent = Val (Num 100),
       executor = Val ''pumpportal'', slippage = Val (Num 0),
       networkFee = Undefined, priorityFee = Val (Num 0) \<rparr>"


section \<open>The position store (Redis)\<close>

text \<open>
  Every store command either returns or throws; the outcome of each command the strategy
  issues is a field of \<open>store\<close>. Trade history lists are addressed by the number of days
  before today (0 is \<^verbatim>\<open>trades:<today>\<close>). An element of a history list is a JSON
  string: \<open>BadJson\<close> is one that \<^verbatim>\<open>JSON.parse\<close> rejects or that is not an object.
\<close>

datatype redis_error = RedisError string

record closed_trade =
  ct_mint :: "string option"
  ct_walletSource :: "string option"
  ct_closedAt :: "int option"

datatype json_entry = BadJson | TradeJson closed_trade

record store =
  sismember_open_positions :: "string \<Rightarrow> redis_error + bool"
  hgetall_position :: "string \<Rightarrow> redis_error + (string \<rightharpoonup> string)"
  lrange_trades :: "nat \<Rightarrow> redis_error + json_entry list"
  get_copy_cooldown :: "string \<Rightarrow> redis_error + string option"
  scard_open_positions :: "redis_error + nat"
  smembers_sellers :: "string \<Rightarrow> redis_error + string list"

section \<open>Copy strategy (copyStrategy.js)\<close>

record strategy_config =
  minWalletsToBuy :: int
  minWalletsToSell :: int
  takeProfitEnabled :: bool
  takeProfitPercent :: number
  trailingStopEnabled :: bool
  trailingStopPercent :: number
  stopLossEnabled :: bool
  stopLoss :: number
  maxHoldEnabled :: bool
  maxHoldSeconds :: int
  cooldownSeconds :: int
  blockRebuys :: bool
  rebuyWindow :: int

text \<open>The values the constructor takes when no environment variable is set.\<close>

definition defaultConfig :: strategy_config where
  "defaultConfig =
     \<lparr> minWalletsToBuy = 1, minWalletsToSell = 1,
       takeProfitEnabled = True, takeProfitPercent = 25,
       trailingStopEnabled = True, trailingStopPercent = 12,
       stopLossEnabled = True, stopLoss = 15,
       maxHoldEnabled = False, maxHoldSeconds = 240,
       cooldownSeconds = 60, blockRebuys = True, rebuyWindow = 300 \<rparr>"

subsection \<open>Anti-rebuy guard\<close>

text \<open>
  The loop over one history list: the first parsed record of the same mint and wallet
  closed less than \<open>rebuyWindow\<close> seconds before \<open>now\<close> ends the search with true; a
  record that does not parse is skipped. \<^verbatim>\<open>parseInt(trade.closedAt) || 0\<close> is 0 when the
  field does not parse.
\<close>

definition isRecentMatch :: "strategy_config \<Rightarrow> int \<Rightarrow> string \<Rightarrow> string \<Rightarrow> closed_trade \<Rightarrow> bool" where
  "isRecentMatch cfg now mint walletAddress t =
     (ct_mint t = Some mint \<and> ct_walletSource t = Some walletAddress \<and>
      now - orDefault (ct_closedAt t) 0 < rebuyWindow cfg * 1000)"

fun scanTrades :: "strategy_config \<Rightarrow> int \<Rightarrow> string \<Rightarrow> string \<Rightarrow> json_entry list \<Rightarrow> bool" where
  "scanTrades cfg now mint w [] = False"
| "scanTrades cfg now mint w (BadJson # es) = scanTrades cfg now mint w es"
| "scanTrades cfg now mint w (TradeJson t # es) =
     (if isRecentMatch cfg now mint w t then True else scanTrades cfg now mint w es)"

text \<open>The loop \<^verbatim>\<open>for (let i = 1; i <= 7; i++)\<close> over the lists of the days before today.\<close>

fun scanDays ::
  "store \<Rightarrow> strategy_config \<Rightarrow> int \<Rightarrow> string \<Rightarrow> string \<Rightarrow> nat list \<Rightarrow> redis_error + bool" where
  "scanDays st cfg now mint w [] = Inr False"
| "scanDays st cfg now mint w (i # days) =
     (case lrange_trades st i of
        Inl e \<Rightarrow> Inl e
      | Inr trades \<Rightarrow>
          if scanTrades cfg now mint w trades then Inr True
          else scanDays st cfg now mint w days)"

text \<open>Method 1: an open position in this mint whose \<^verbatim>\<open>walletSource\<close> is the wallet.\<close>

definition openFromWallet :: "store \<Rightarrow> string \<Rightarrow> string \<Rightarrow> redis_error + bool" where
  "openFromWallet st mint w =
     (case sismember_open_positions st mint of
        Inl e \<Rightarrow> Inl e
      | Inr hasOpenPosition \<Rightarrow>
          if hasOpenPosition then
            (case hgetall_position st mint of
               Inl e \<Rightarrow> Inl e
             | Inr position \<Rightarrow> Inr (position ''walletSource'' = Some w))
          else Inr False)"

text \<open>The body of the \<^verbatim>\<open>try\<close> block of \<^verbatim>\<open>isRebuySignal\<close>; \<open>Inl\<close> is an exception thrown in it.\<close>

definition isRebuySignal_try ::
  "store \<Rightarrow> strategy_config \<Rightarrow> int \<Rightarrow> string \<Rightarrow> string option \<Rightarrow> redis_error + bool" where
  "isRebuySignal_try st cfg now mint walletAddress =
     (case walletAddress of
        None \<Rightarrow> Inr False
      | Some w \<Rightarrow>
          if w = [] then Inr False
          else
            (case openFromWallet st mint w of
               Inl e \<Rightarrow> Inl e
             | Inr True \<Rightarrow> Inr True
             | Inr False \<Rightarrow>
                 (case lrange_trades st 0 of
                    Inl e \<Rightarrow> Inl e
                  | Inr todayTrades \<Rightarrow>
                      if scanTrades cfg now mint w todayTrades then Inr True
                      else scanDays st cfg now mint w [1, 2, 3, 4, 5, 6, 7])))"

text \<open>\<^verbatim>\<open>isRebuySignal\<close>: the \<^verbatim>\<open>catch\<close> turns every exception into false.\<close>

definition isRebuySignal ::
  "store \<Rightarrow> strategy_config \<Rightarrow> int \<Rightarrow> string \<Rightarrow> string option \<Rightarrow> bool" where
  "isRebuySignal st cfg now mint walletAddress =
     (case isRebuySignal_try st cfg now mint walletAddress of
        Inl e \<Rightarrow> False
      | Inr b \<Rightarrow> b)"

subsection \<open>Entry decision\<close>

record copy_signal =
  s_mint :: string
  s_copyAmount :: number
  s_upvotes :: int
  s_buyers :: "string list"
  s_walletAddress :: "string option"

text \<open>\<^verbatim>\<open>process.env.DRY_RUN !== 'false'\<close> and \<^verbatim>\<open>parseInt(process.env.MAX_POSITIONS || '2')\<close>.\<close>

record process_env =
  dryRun :: bool
  maxPositions :: int

datatype copy_reason =
  low_upvotes int int | rebuy_blocked | cooldown | duplicate_position | max_positions | error

record copy_decision =
  copy :: bool
  reason :: "copy_reason option"
  amount :: "number option"
  confidence :: "nat option"
  mode :: "string option"

definition calculateConfidence :: "int \<Rightarrow> nat" where
  "calculateConfidence upvotes =
     (if upvotes = 1 then 30 else if upvotes = 2 then 70 else if upvotes \<ge> 3 then 95 else 50)"

definition reject :: "copy_reason \<Rightarrow> copy_decision" where
  "reject r = \<lparr> copy = False, reason = Some r, amount = None, confidence = None, mode = None \<rparr>"

text \<open>
  \<^verbatim>\<open>shouldCopy\<close>: the checks in the order of the source. An exception thrown by a store
  command ends in the \<^verbatim>\<open>catch\<close>, which rejects with the reason \<^verbatim>\<open>error\<close>.
\<close>

definition shouldCopy ::
  "store \<Rightarrow> strategy_config \<Rightarrow> process_env \<Rightarrow> int \<Rightarrow> copy_signal \<Rightarrow> copy_decision" where
  "shouldCopy st cfg env now sig =
     (if \<not> dryRun env \<and> s_upvotes sig < minWalletsToBuy cfg
      then reject (low_upvotes (s_upvotes sig) (minWalletsToBuy cfg))
      else if blockRebuys cfg \<and> isRebuySignal st cfg now (s_mint sig) (s_walletAddress sig)
      then reject rebuy_blocked
      else
        (case get_copy_cooldown st (s_mint sig) of
           Inl e \<Rightarrow> reject error
         | Inr cd \<Rightarrow>
             if cd \<noteq> None \<and> cd \<noteq> Some [] then reject cooldown
             else
               (case sismember_open_positions st (s_mint sig) of
                  Inl e \<Rightarrow> reject error
                | Inr hasPosition \<Rightarrow>
                    if hasPosition then reject duplicate_position
                    else
                      (case scard_open_positions st of
                         Inl e \<Rightarrow> reject error
                       | Inr openPositions \<Rightarrow>
                           if int openPositions \<ge> maxPositions env then reject max_positions
                           else \<lparr> copy = True, reason = None,
                                  amount = Some (s_copyAmount sig),
                                  confidence = Some (calculateConfidence (s_upvotes sig)),
                                  mode = Some (if dryRun env then ''paper'' else ''live'') \<rparr>))))"

subsection \<open>Exit decision\<close>

text \<open>
  A position as \<^verbatim>\<open>shouldExit\<close> reads it: the fields after \<^verbatim>\<open>parseFloat\<close>/\<^verbatim>\<open>parseInt\<close>,
  \<open>p_maxPrice\<close> being \<open>None\<close> when the stored hash has no (or an empty) \<^verbatim>\<open>maxPrice\<close>.
\<close>

record position =
  p_mint :: string
  p_entryPrice :: number
  p_maxPrice :: "number option"
  p_entryTime :: int

datatype exit_reason = take_profit | trailing_stop | stop_loss | traders_sold | max_hold_time

record exit_decision =
  exit :: bool
  exitReason :: "exit_reason option"
  pnl :: jsnum
  priority :: "nat option"
  exitType :: "string option"
  sellCount :: "nat option"
  maxPnl :: "jsnum option"
  holdTime :: "number option"




section \<open>Bonding-curve account (pumpPriceReaderRaw.js, priceService.js)\<close>

type_synonym byte = "8 word"

datatype read_error =
  RangeError | RpcError string | InvalidDiscriminator | InvalidReserves | InvalidPrice

text \<open>A little-endian unsigned integer, as \<^verbatim>\<open>Buffer.readBigUInt64LE\<close> assembles it.\<close>

fun le_nat :: "byte list \<Rightarrow> nat" where
  "le_nat [] = 0"
| "le_nat (b # bs) = unat b + 256 * le_nat bs"

text \<open>Both reads throw a \<^verbatim>\<open>RangeError\<close> when the buffer is too short.\<close>

definition readBigUInt64LE :: "byte list \<Rightarrow> nat \<Rightarrow> read_error + nat" where
  "readBigUInt64LE data off =
     (if off + 8 \<le> length data then Inr (le_nat (take 8 (drop off data))) else Inl RangeError)"

definition readUInt8 :: "byte list \<Rightarrow> nat \<Rightarrow> read_error + nat" where
  "readUInt8 data off = (if off < length data then Inr (unat (data ! off)) else Inl RangeError)"

text \<open>Sequencing of steps that may throw.\<close>

definition andThen :: "'e + 'a \<Rightarrow> ('a \<Rightarrow> 'e + 'b) \<Rightarrow> 'e + 'b" where
  "andThen r f = (case r of Inl e \<Rightarrow> Inl e | Inr v \<Rightarrow> f v)"

definition BONDING_CURVE_DISCRIMINATOR :: "byte list" where
  "BONDING_CURVE_DISCRIMINATOR = [23, 183, 248, 55, 96, 216, 172, 96]"

text \<open>The offsets of the account layout: 0x08, 0x10, 0x18, 0x20, 0x28 and 0x30.\<close>

definition OFF_VIRTUAL_TOKEN_RESERVES :: nat where "OFF_VIRTUAL_TOKEN_RESERVES = 8"
definition OFF_VIRTUAL_SOL_RESERVES :: nat where "OFF_VIRTUAL_SOL_RESERVES = 16"
definition OFF_REAL_TOKEN_RESERVES :: nat where "OFF_REAL_TOKEN_RESERVES = 24"
definition OFF_REAL_SOL_RESERVES :: nat where "OFF_REAL_SOL_RESERVES = 32"
definition OFF_TOKEN_TOTAL_SUPPLY :: nat where "OFF_TOKEN_TOTAL_SUPPLY = 40"
definition OFF_COMPLETE :: nat where "OFF_COMPLETE = 48"

definition SOL_DECIMALS :: nat where "SOL_DECIMALS = 1000000000"
definition TOKEN_DECIMALS :: nat where "TOKEN_DECIMALS = 1000000"
definition INITIAL_REAL_TOKEN_RESERVES :: nat where
  "INITIAL_REAL_TOKEN_RESERVES = 793100000000000"

record curve_fields =
  virtualTokenReserves :: nat
  virtualSolReserves :: nat
  realTokenReserves :: nat
  realSolReserves :: nat
  tokenTotalSupply :: nat
  complete :: bool

definition readCurve :: "byte list \<Rightarrow> read_error + curve_fields" where
  "readCurve data =
     andThen (readBigUInt64LE data OFF_VIRTUAL_TOKEN_RESERVES) (\<lambda>vtr.
     andThen (readBigUInt64LE data OFF_VIRTUAL_SOL_RESERVES) (\<lambda>vsr.
     andThen (readBigUInt64LE data OFF_REAL_TOKEN_RESERVES) (\<lambda>rtr.
     andThen (readBigUInt64LE data OFF_REAL_SOL_RESERVES) (\<lambda>rsr.
     andThen (readBigUInt64LE data OFF_TOKEN_TOTAL_SUPPLY) (\<lambda>tts.
     andThen (readUInt8 data OFF_COMPLETE) (\<lambda>c.
       Inr \<lparr> virtualTokenReserves = vtr, virtualSolReserves = vsr,
             realTokenReserves = rtr, realSolReserves = rsr,
             tokenTotalSupply = tts, complete = (c \<noteq> 0) \<rparr>))))))"

text \<open>
  The bonding progress; the quotient of the two \<^verbatim>\<open>BigInt\<close>s truncates, and the division
  by 10000 and the subtraction from 1 are those of doubles.
\<close>

definition bondingProgressOf :: "nat \<Rightarrow> number" where
  "bondingProgressOf rtr =
     (if rtr < INITIAL_REAL_TOKEN_RESERVES
      then rd (1 - rd (real ((rtr * 10000) div INITIAL_REAL_TOKEN_RESERVES) / 10000))
      else 0)"

record curve_price =
  cp_price :: "number option"
  cp_bondingProgress :: number
  cp_graduated :: bool
  cp_reserves :: curve_fields

text \<open>
  \<^verbatim>\<open>PumpPriceReaderRaw.getPrice\<close>, from the outcome of \<^verbatim>\<open>getAccountInfo\<close> on (\<open>Inl\<close>: the
  call throws; \<open>Inr None\<close>: no account). The function returns \<^verbatim>\<open>null\<close> for every
  exception thrown in its body. The two products are those of \<^verbatim>\<open>BigInt\<close>s;
  \<^verbatim>\<open>Number(n)\<close> is the double next to \<open>n\<close>, and the quotient of the two doubles is
  rounded again. With reserves below \<open>2^64\<close> the quotient is finite.
\<close>

definition rawGetPrice_try :: "read_error + byte list option \<Rightarrow> read_error + curve_price option" where
  "rawGetPrice_try accountInfo =
     andThen accountInfo (\<lambda>info.
       case info of
         None \<Rightarrow> Inr None
       | Some data \<Rightarrow>
           if take 8 data \<noteq> BONDING_CURVE_DISCRIMINATOR then Inl InvalidDiscriminator
           else
             andThen (readCurve data) (\<lambda>c.
               if complete c
               then Inr (Some \<lparr> cp_price = None, cp_bondingProgress = 1,
                                cp_graduated = True, cp_reserves = c \<rparr>)
               else if virtualTokenReserves c \<le> 0 \<or> virtualSolReserves c \<le> 0
               then Inl InvalidReserves
               else
                 let numerator = virtualSolReserves c * TOKEN_DECIMALS;
                     denominator = virtualTokenReserves c * SOL_DECIMALS;
                     price = rd (rd (real numerator) / rd (real denominator))
                 in if price \<le> 0 then Inl InvalidPrice
                    else Inr (Some \<lparr> cp_price = Some price,
                                     cp_bondingProgress = bondingProgressOf (realTokenReserves c),
                                     cp_graduated = False, cp_reserves = c \<rparr>)))"

definition rawGetPrice :: "read_error + byte list option \<Rightarrow> curve_price option" where
  "rawGetPrice accountInfo =
     (case rawGetPrice_try accountInfo of Inl e \<Rightarrow> None | Inr r \<Rightarrow> r)"

text \<open>
  \<^verbatim>\<open>PriceService.getPumpFunPrice\<close>: a discriminator mismatch is only logged, and the
  price is computed for a completed curve as well. Each reserve is converted to a double
  and divided by \<^verbatim>\<open>LAMPORTS_PER_SOL\<close> or \<^verbatim>\<open>10 ** 6\<close> in double arithmetic, and the price
  is the rounded quotient of the two rounded quotients.
\<close>

definition getPumpFunPrice_try :: "read_error + byte list option \<Rightarrow> read_error + curve_price option" where
  "getPumpFunPrice_try accountInfo =
     andThen accountInfo (\<lambda>info.
       case info of
         None \<Rightarrow> Inr None
       | Some data \<Rightarrow>
           andThen (readCurve data) (\<lambda>c.
             if virtualTokenReserves c \<le> 0 \<or> virtualSolReserves c \<le> 0
             then Inl InvalidReserves
             else
               let virtualSol = rd (rd (real (virtualSolReserves c)) / 1000000000);
                   virtualTokens = rd (rd (real (virtualTokenReserves c)) / 10 ^ 6);
                   price = rd (virtualSol / virtualTokens)
               in Inr (Some \<lparr> cp_price = Some price,
                                cp_bondingProgress = bondingProgressOf (realTokenReserves c),
                                cp_graduated = complete c, cp_reserves = c \<rparr>)))"

definition getPumpFunPrice :: "read_error + byte list option \<Rightarrow> curve_price option" where
  "getPumpFunPrice accountInfo =
     (case getPumpFunPrice_try accountInfo of Inl e \<Rightarrow> None | Inr r \<Rightarrow> r)"

section \<open>Price service (priceService.js)\<close>

record quote =
  q_mint :: string
  q_price :: "number option"
  q_source :: string
  q_bondingProgress :: "number option"
  q_graduated :: "bool option"
  q_ts :: int
  q_error :: "string option"
  q_stale :: bool

record failed_entry =
  count :: nat
  lastAttempt :: int

record price_service =
  priceCache :: "string \<rightharpoonup> quote"
  failedAttempts :: "string \<rightharpoonup> failed_entry"

definition cacheMs :: int where "cacheMs = 5000"
definition maxFailedAttempts :: nat where "maxFailedAttempts = 3"
definition failedAttemptsResetMs :: int where "failedAttemptsResetMs = 60000"

definition newPriceService :: price_service where
  "newPriceService = \<lparr> priceCache = Map.empty, failedAttempts = Map.empty \<rparr>"

text \<open>What a later source answers: a price (or \<^verbatim>\<open>null\<close>) and a source name.\<close>

record source_reply =
  sr_price :: "number option"
  sr_source :: "string option"

text \<open>
  \<^verbatim>\<open>getPriceForGraduated\<close>, from the outcome of \<^verbatim>\<open>jupiter.getPrice(mint, true)\<close>.
\<close>

definition getPriceForGraduated :: "read_error + source_reply option \<Rightarrow> source_reply" where
  "getPriceForGraduated jupOutcome =
     (case jupOutcome of
        Inl e \<Rightarrow> \<lparr> sr_price = None, sr_source = Some ''jupiter'' \<rparr>
      | Inr None \<Rightarrow> \<lparr> sr_price = None, sr_source = Some ''jupiter'' \<rparr>
      | Inr (Some jup) \<Rightarrow>
          if \<not> falsy (sr_price jup)
          then \<lparr> sr_price = sr_price jup,
                 sr_source = Some (if sr_source jup = None \<or> sr_source jup = Some []
                                   then ''jupiter'' else orDefault (sr_source jup) []) \<rparr>
          else \<lparr> sr_price = None, sr_source = Some ''jupiter'' \<rparr>)"

text \<open>
  The DexScreener answer: the fetch fails, the status is not ok, or the body lists
  pairs. \<open>dp_price\<close> is \<^verbatim>\<open>Number(best.priceNative || best.priceUsd || 0)\<close>, \<open>None\<close> when
  that is not a finite number.
\<close>

record dex_pair =
  dp_liquidityUsd :: "number option"
  dp_price :: "number option"

datatype dex_response = FetchFails | HttpNotOk nat | DexBody "dex_pair list option"

text \<open>The first element of the stable sort by decreasing liquidity.\<close>

fun bestPair :: "dex_pair \<Rightarrow> dex_pair list \<Rightarrow> dex_pair" where
  "bestPair b [] = b"
| "bestPair b (p # ps) =
     (if orDefault (dp_liquidityUsd p) 0 > orDefault (dp_liquidityUsd b) 0
      then bestPair p ps else bestPair b ps)"

definition getPriceFromDexScreener :: "dex_response \<Rightarrow> source_reply" where
  "getPriceFromDexScreener res =
     (case res of
        FetchFails \<Rightarrow> \<lparr> sr_price = None, sr_source = None \<rparr>
      | HttpNotOk code \<Rightarrow> \<lparr> sr_price = None, sr_source = None \<rparr>
      | DexBody None \<Rightarrow> \<lparr> sr_price = None, sr_source = None \<rparr>
      | DexBody (Some []) \<Rightarrow> \<lparr> sr_price = None, sr_source = None \<rparr>
      | DexBody (Some (p # ps)) \<Rightarrow>
          (let best = bestPair p ps in
           if falsy (dp_price best) then \<lparr> sr_price = None, sr_source = None \<rparr>
           else \<lparr> sr_price = dp_price best, sr_source = Some ''dexscreener'' \<rparr>))"

text \<open>
  The network as one call of \<^verbatim>\<open>getPrice\<close> meets it, and the clock read by
  \<^verbatim>\<open>recordFailedAttempt\<close>. A call returns its quote, the new state of the service and
  the network calls it made, in order.
\<close>

record network =
  getAccountInfo :: "read_error + byte list option"
  jupiter_getPrice :: "read_error + source_reply option"
  dexscreener_fetch :: dex_response
  clock_at_failure :: int

datatype netcall = RpcGetAccountInfo | JupiterQuote | DexScreenerTokens

definition recordFailedAttempt :: "price_service \<Rightarrow> string \<Rightarrow> int \<Rightarrow> price_service" where
  "recordFailedAttempt ps mintStr now =
     (let current = orDefault (failedAttempts ps mintStr) \<lparr> count = 0, lastAttempt = 0 \<rparr>
      in ps \<lparr> failedAttempts :=
                (failedAttempts ps)(mintStr \<mapsto> \<lparr> count = count current + 1, lastAttempt = now \<rparr>) \<rparr>)"

definition resetFailedAttempts :: "price_service \<Rightarrow> string \<Rightarrow> price_service" where
  "resetFailedAttempts ps mintStr = ps \<lparr> failedAttempts := (failedAttempts ps)(mintStr := None) \<rparr>"

text \<open>A successful resolution: the quote overwrites the cache and the failures are reset.\<close>

definition succeed ::
  "price_service \<Rightarrow> string \<Rightarrow> quote \<Rightarrow> netcall list \<Rightarrow> quote \<times> price_service \<times> netcall list" where
  "succeed ps cacheKey result calls =
     (result,
      resetFailedAttempts (ps \<lparr> priceCache := (priceCache ps)(cacheKey \<mapsto> result) \<rparr>) cacheKey,
      calls)"

definition skippedQuote :: "string \<Rightarrow> int \<Rightarrow> quote" where
  "skippedQuote cacheKey now =
     \<lparr> q_mint = cacheKey, q_price = None, q_source = ''skipped'', q_bondingProgress = None,
       q_graduated = None, q_ts = now, q_error = Some ''Too many failed attempts'',
       q_stale = False \<rparr>"

definition noneQuote :: "string \<Rightarrow> int \<Rightarrow> quote" where
  "noneQuote cacheKey now =
     \<lparr> q_mint = cacheKey, q_price = None, q_source = ''none'', q_bondingProgress = None,
       q_graduated = Some False, q_ts = now, q_error = Some ''No price source available'',
       q_stale = False \<rparr>"

text \<open>Steps 1 to 3 of \<^verbatim>\<open>getPrice\<close> and the path taken when every source has failed.\<close>

definition querySources ::
  "price_service \<Rightarrow> network \<Rightarrow> string \<Rightarrow> int \<Rightarrow> quote \<times> price_service \<times> netcall list" where
  "querySources ps net cacheKey now =
     (let pump = getPumpFunPrice (getAccountInfo net) in
      case (case pump of
              None \<Rightarrow> None
            | Some p \<Rightarrow> if \<not> falsy (cp_price p) \<and> \<not> cp_graduated p then Some p else None) of
        Some p \<Rightarrow>
          succeed ps cacheKey
            \<lparr> q_mint = cacheKey, q_price = cp_price p, q_source = ''pump.fun'',
              q_bondingProgress = Some (cp_bondingProgress p), q_graduated = Some False,
              q_ts = now, q_error = None, q_stale = False \<rparr>
            [RpcGetAccountInfo]
      | None \<Rightarrow>
          let jup = getPriceForGraduated (jupiter_getPrice net) in
          if \<not> falsy (sr_price jup)
          then succeed ps cacheKey
                 \<lparr> q_mint = cacheKey, q_price = sr_price jup,
                   q_source = (if sr_source jup = None \<or> sr_source jup = Some []
                               then ''jupiter'' else orDefault (sr_source jup) []),
                   q_bondingProgress = None, q_graduated = Some True,
                   q_ts = now, q_error = None, q_stale = False \<rparr>
                 [RpcGetAccountInfo, JupiterQuote]
          else
            let dex = getPriceFromDexScreener (dexscreener_fetch net) in
            if \<not> falsy (sr_price dex)
            then succeed ps cacheKey
                   \<lparr> q_mint = cacheKey, q_price = sr_price dex, q_source = ''dexscreener'',
                     q_bondingProgress = None, q_graduated = Some True,
                     q_ts = now, q_error = None, q_stale = False \<rparr>
                   [RpcGetAccountInfo, JupiterQuote, DexScreenerTokens]
            else
              let ps' = recordFailedAttempt ps cacheKey (clock_at_failure net) in
              (case priceCache ps' cacheKey of
                 Some cached \<Rightarrow> cached \<lparr> q_stale := True \<rparr>
               | None \<Rightarrow> noneQuote cacheKey now,
               ps', [RpcGetAccountInfo, JupiterQuote, DexScreenerTokens]))"

text \<open>
  \<^verbatim>\<open>getPrice(mintStr, { forceFresh })\<close> at clock value \<open>now\<close>: the failure-backoff check,
  the cache, then the sources.
\<close>

definition getPrice ::
  "price_service \<Rightarrow> network \<Rightarrow> string \<Rightarrow> bool \<Rightarrow> int \<Rightarrow> quote \<times> price_service \<times> netcall list" where
  "getPrice ps net cacheKey forceFresh now =
     (let check =
            (if \<not> forceFresh then
               (case failedAttempts ps cacheKey of
                  None \<Rightarrow> (ps, None)
                | Some failed \<Rightarrow>
                    if now - lastAttempt failed > failedAttemptsResetMs
                    then (resetFailedAttempts ps cacheKey, None)
                    else if count failed \<ge> maxFailedAttempts
                    then (case priceCache ps cacheKey of
                            Some cached \<Rightarrow> (ps, Some cached)
                          | None \<Rightarrow> (ps, Some (skippedQuote cacheKey now)))
                    else (ps, None))
             else (ps, None))
      in case snd check of
           Some early \<Rightarrow> (early, fst check, [])
         | None \<Rightarrow>
             let ps1 = fst check in
             (case (if \<not> forceFresh
                    then (case priceCache ps1 cacheKey of
                            Some cached \<Rightarrow> if now - q_ts cached < cacheMs then Some cached else None
                          | None \<Rightarrow> None)
                    else None) of
                Some cached \<Rightarrow> (cached, ps1, [])
              | None \<Rightarrow> querySources ps1 net cacheKey now))"

section \<open>Execution client (pumpPortalExecutor.js)\<close>

record token_balance =
  accountIndex :: nat
  uiAmount :: "number option"

record tx_meta =
  err :: "string option"
  preTokenBalances :: "token_balance list option"
  postTokenBalances :: "token_balance list option"
  preBalances :: "nat list option"
  postBalances :: "nat list option"

record transaction =
  meta :: "tx_meta option"
  staticAccountKeys :: "string list option"
  accountKeys :: "string list option"

text \<open>The amount to sell: a number, or a string that ends with a percent sign.\<close>

datatype sell_amount = Tokens number | Percent string

record execution_result =
  success :: bool
  simulated :: bool
  action :: string
  er_mint :: string
  er_error :: "string option"
  signature :: "string option"
  er_solSpent :: "number option"
  tokensReceived :: "number option"
  requestedTokens :: "sell_amount option"
  tokensSold :: "sell_amount option"
  solReceived :: "number option"
  timestamp :: "int option"

definition failure :: "string \<Rightarrow> string \<Rightarrow> string \<Rightarrow> execution_result" where
  "failure act mint msg =
     \<lparr> success = False, simulated = False, action = act, er_mint = mint, er_error = Some msg,
       signature = None, er_solSpent = None, tokensReceived = None, requestedTokens = None,
       tokensSold = None, solReceived = None, timestamp = None \<rparr>"

text \<open>
  One answer of \<^verbatim>\<open>getSignatureStatus\<close>: the call throws, the value is \<^verbatim>\<open>null\<close>, or a
  status with its \<^verbatim>\<open>err\<close> (set or not) and its \<^verbatim>\<open>confirmationStatus\<close>.
\<close>

datatype poll = PollThrows | NoStatus | Status bool string

text \<open>
  The polling loop of at most 30 attempts. Local variant: the exception raised for a
  status with \<^verbatim>\<open>err\<close> is caught by the \<^verbatim>\<open>catch\<close> of the same iteration, so the loop
  goes on. The Lightning variant does not look at \<^verbatim>\<open>err\<close>.
\<close>

definition confirmedLocal :: "poll \<Rightarrow> bool" where
  "confirmedLocal p =
     (case p of
        Status hasErr st \<Rightarrow> \<not> hasErr \<and> (st = ''confirmed'' \<or> st = ''finalized'')
      | _ \<Rightarrow> False)"

definition confirmedLightning :: "poll \<Rightarrow> bool" where
  "confirmedLightning p =
     (case p of
        Status hasErr st \<Rightarrow> st = ''confirmed'' \<or> st = ''finalized''
      | _ \<Rightarrow> False)"

primrec waitForConfirmation :: "(poll \<Rightarrow> bool) \<Rightarrow> (nat \<Rightarrow> poll) \<Rightarrow> nat \<Rightarrow> nat \<Rightarrow> bool" where
  "waitForConfirmation isConfirmed polls i 0 = False"
| "waitForConfirmation isConfirmed polls i (Suc n) =
     (if isConfirmed (polls i) then True
      else waitForConfirmation isConfirmed polls (Suc i) n)"

subsection \<open>Dry run\<close>

text \<open>
  \<^verbatim>\<open>fakeSignature\<close> draws 88 characters with \<^verbatim>\<open>Math.random()\<close>; \<open>rnd i\<close> is the value of
  the \<open>i\<close>-th draw, a double that is at least 0 and less than 1. The amounts of the
  simulations are computed in double arithmetic with the literal \<^verbatim>\<open>0.000001\<close>; the
  quotient of a buy is finite as long as the amount stays below \<open>10^300\<close> in magnitude,
  and only such amounts are considered.
\<close>

definition hexChars :: string where
  "hexChars = ''abcdef0123456789''"

definition pickChar :: "number \<Rightarrow> string" where
  "pickChar r =
     (let i = \<lfloor>rd (r * 16)\<rfloor> in
      if 0 \<le> i \<and> i < 16 then [hexChars ! nat i] else ''undefined'')"

primrec fakeSigLoop :: "nat \<Rightarrow> (nat \<Rightarrow> number) \<Rightarrow> string" where
  "fakeSigLoop 0 rnd = []"
| "fakeSigLoop (Suc n) rnd = fakeSigLoop n rnd @ pickChar (rnd n)"

definition fakeSignature :: "(nat \<Rightarrow> number) \<Rightarrow> string" where
  "fakeSignature rnd = fakeSigLoop 88 rnd"

definition simulateBuy :: "(nat \<Rightarrow> number) \<Rightarrow> int \<Rightarrow> string \<Rightarrow> number \<Rightarrow> execution_result" where
  "simulateBuy rnd clock mint solAmount =
     (let avgPrice = rd 0.000001; tokens = rd (solAmount / avgPrice) in
      \<lparr> success = True, simulated = True, action = ''buy'', er_mint = mint, er_error = None,
        signature = Some (fakeSignature rnd), er_solSpent = Some solAmount,
        tokensReceived = Some tokens, requestedTokens = None, tokensSold = None,
        solReceived = None, timestamp = Some clock \<rparr>)"

definition simulateSell :: "(nat \<Rightarrow> number) \<Rightarrow> int \<Rightarrow> string \<Rightarrow> sell_amount \<Rightarrow> execution_result" where
  "simulateSell rnd clock mint amountTokens =
     (case amountTokens of
        Percent p \<Rightarrow>
          \<lparr> success = True, simulated = True, action = ''sell'', er_mint = mint, er_error = None,
            signature = Some (fakeSignature rnd), er_solSpent = None, tokensReceived = None,
            requestedTokens = None, tokensSold = Some (Percent p), solReceived = Some 0,
            timestamp = Some clock \<rparr>
      | Tokens n \<Rightarrow>
          (let avgPrice = rd 0.000001; sol = rd (n * avgPrice) in
           \<lparr> success = True, simulated = True, action = ''sell'', er_mint = mint, er_error = None,
             signature = Some (fakeSignature rnd), er_solSpent = None, tokensReceived = None,
             requestedTokens = None, tokensSold = Some (Tokens n), solReceived = Some sol,
             timestamp = Some clock \<rparr>))"

subsection \<open>Local API variant: balance verification\<close>

record tx_details =
  failed :: bool
  td_error :: "string option"
  td_tokensReceived :: "number option"
  td_tokensSold :: "number option"
  td_solReceived :: "number option"

definition failedDetails :: "string \<Rightarrow> tx_details" where
  "failedDetails msg =
     \<lparr> failed = True, td_error = Some msg, td_tokensReceived = None, td_tokensSold = None,
       td_solReceived = None \<rparr>"

text \<open>\<^verbatim>\<open>bal?.uiTokenAmount?.uiAmount || 0\<close>.\<close>

definition amountOf :: "token_balance option \<Rightarrow> number" where
  "amountOf b = (case b of None \<Rightarrow> 0 | Some x \<Rightarrow> orDefault (uiAmount x) 0)"

text \<open>The loop over \<^verbatim>\<open>postTokenBalances\<close>, which adds up the changes of all accounts.\<close>

fun sumTokenDeltas :: "token_balance list \<Rightarrow> number \<Rightarrow> token_balance list \<Rightarrow> number" where
  "sumTokenDeltas pre tokensDelta [] = tokensDelta"
| "sumTokenDeltas pre tokensDelta (postBal # rest) =
     sumTokenDeltas pre
       (tokensDelta +
          (amountOf (Some postBal) -
           amountOf (find (\<lambda>p. accountIndex p = accountIndex postBal) pre)))
       rest"

fun findIndex :: "('a \<Rightarrow> bool) \<Rightarrow> 'a list \<Rightarrow> nat option" where
  "findIndex P [] = None"
| "findIndex P (x # xs) = (if P x then Some 0 else map_option Suc (findIndex P xs))"

text \<open>\<^verbatim>\<open>balances[i] || 0\<close>: an index out of range reads as 0.\<close>

definition balanceAt :: "nat list \<Rightarrow> nat \<Rightarrow> nat" where
  "balanceAt balances i = (if i < length balances then balances ! i else 0)"

definition walletIndexOf :: "string \<Rightarrow> transaction \<Rightarrow> nat option" where
  "walletIndexOf walletPubkey tx =
     (case (case staticAccountKeys tx of
              Some ks \<Rightarrow> if ks \<noteq> [] then findIndex (\<lambda>k. k = walletPubkey) ks else None
            | None \<Rightarrow> None) of
        Some i \<Rightarrow> Some i
      | None \<Rightarrow>
          (case accountKeys tx of
             Some ks \<Rightarrow> findIndex (\<lambda>k. k = walletPubkey) ks
           | None \<Rightarrow> None))"

definition parseTx :: "string \<Rightarrow> transaction \<Rightarrow> tx_details" where
  "parseTx walletPubkey tx =
     (case meta tx of
        None \<Rightarrow> failedDetails ''No meta in transaction''
      | Some m \<Rightarrow>
          (case err m of
             Some e \<Rightarrow> failedDetails e
           | None \<Rightarrow>
               let tokensDelta =
                     (case (postTokenBalances m, preTokenBalances m) of
                        (Some post, Some pre) \<Rightarrow> sumTokenDeltas pre 0 post
                      | _ \<Rightarrow> 0);
                   solDelta =
                     (case (postBalances m, preBalances m) of
                        (Some post, Some pre) \<Rightarrow>
                          (case walletIndexOf walletPubkey tx of
                             Some walletIndex \<Rightarrow>
                               real (balanceAt post walletIndex) / 1000000000 -
                               real (balanceAt pre walletIndex) / 1000000000
                           | None \<Rightarrow> 0)
                      | _ \<Rightarrow> 0);
                   tokensRecv = \<bar>tokensDelta\<bar>;
                   tokensOut = (if tokensDelta < 0 then \<bar>tokensDelta\<bar> else 0);
                   solRecv = (if solDelta > 0 then solDelta else 0)
               in
               if tokensRecv = 0 \<and> tokensOut = 0 \<and> (solRecv = 0 \<or> \<bar>solRecv\<bar> < 1 / 10 ^ 9)
               then failedDetails ''No token/SOL movement detected for wallet (likely failed tx)''
               else \<lparr> failed = False, td_error = None, td_tokensReceived = Some tokensRecv,
                      td_tokensSold = Some tokensOut, td_solReceived = Some solRecv \<rparr>))"

text \<open>\<^verbatim>\<open>getTxDetails\<close>, from the outcome of \<^verbatim>\<open>getTransaction\<close>.\<close>

definition getTxDetails :: "string \<Rightarrow> string + transaction option \<Rightarrow> tx_details" where
  "getTxDetails walletPubkey outcome =
     (case outcome of
        Inl msg \<Rightarrow> failedDetails msg
      | Inr None \<Rightarrow> failedDetails ''Transaction not found''
      | Inr (Some tx) \<Rightarrow>
          (case meta tx of
             Some m \<Rightarrow>
               (case err m of
                  Some e \<Rightarrow> failedDetails e
                | None \<Rightarrow> parseTx walletPubkey tx)
           | None \<Rightarrow> parseTx walletPubkey tx))"

text \<open>
  What one live call meets: the answer of the trade endpoint, whether the returned bytes
  deserialize, and the answers of the RPC node.
\<close>

record http_reply =
  status :: nat
  hasData :: bool
  dataSignature :: "string option"

record exec_network =
  post_trade :: "string + http_reply"
  deserializes :: bool
  sendTransaction :: "string + string"
  signatureStatus :: "nat \<Rightarrow> poll"
  getTransaction :: "string + transaction option"
  clock :: int

definition buyToken ::
  "bool \<Rightarrow> string \<Rightarrow> (nat \<Rightarrow> number) \<Rightarrow> exec_network \<Rightarrow> string \<Rightarrow> number \<Rightarrow> execution_result" where
  "buyToken dry walletPubkey rnd net mint solAmount =
     (if dry then simulateBuy rnd (clock net) mint solAmount
      else
        case
          andThen (post_trade net) (\<lambda>response.
            if status response \<noteq> 200 \<or> \<not> hasData response then Inl ''API Error (BUY)''
            else if \<not> deserializes net then Inl ''deserialize failed''
            else
              andThen (sendTransaction net) (\<lambda>sig.
                let confirmed = waitForConfirmation confirmedLocal (signatureStatus net) 0 30;
                    txDetails = getTxDetails walletPubkey (getTransaction net)
                in
                if failed txDetails
                then Inl (''On-chain BUY failed: '' @
                          (if td_error txDetails = None \<or> td_error txDetails = Some []
                           then ''unknown on-chain error''
                           else orDefault (td_error txDetails) []))
                else
                  let tokensRecv = orDefault (td_tokensReceived txDetails) 0 in
                  if tokensRecv = 0 \<or> tokensRecv \<le> 0
                  then Inl ''On-chain BUY has zero tokensReceived. Treating as failed.''
                  else Inr \<lparr> success = True, simulated = False, action = ''buy'',
                             er_mint = mint, er_error = None, signature = Some sig,
                             er_solSpent = Some solAmount, tokensReceived = Some tokensRecv,
                             requestedTokens = None, tokensSold = None, solReceived = None,
                             timestamp = Some (clock net) \<rparr>))
        of Inl msg \<Rightarrow> failure ''buy'' mint msg
         | Inr result \<Rightarrow> result)"

definition sellToken ::
  "bool \<Rightarrow> string \<Rightarrow> (nat \<Rightarrow> number) \<Rightarrow> exec_network \<Rightarrow> string \<Rightarrow> sell_amount \<Rightarrow> execution_result" where
  "sellToken dry walletPubkey rnd net mint amountTokens =
     (if dry then simulateSell rnd (clock net) mint amountTokens
      else
        case
          andThen (post_trade net) (\<lambda>response.
            if status response \<noteq> 200 \<or> \<not> hasData response then Inl ''API Error (SELL)''
            else if \<not> deserializes net then Inl ''deserialize failed''
            else
              andThen (sendTransaction net) (\<lambda>sig.
                let confirmed = waitForConfirmation confirmedLocal (signatureStatus net) 0 30;
                    txDetails = getTxDetails walletPubkey (getTransaction net)
                in
                if failed txDetails
                then Inl (''On-chain SELL failed: '' @
                          (if td_error txDetails = None \<or> td_error txDetails = Some []
                           then ''unknown on-chain error''
                           else orDefault (td_error txDetails) []))
                else
                  let sold = (case td_tokensSold txDetails of
                                Some v \<Rightarrow> v
                              | None \<Rightarrow> orDefault (td_tokensReceived txDetails) 0);
                      solRecv = orDefault (td_solReceived txDetails) 0
                  in
                  if sold = 0 \<or> sold \<le> 0
                  then Inl ''On-chain SELL has zero tokensSold. Treating as failed.''
                  else if solRecv = 0 \<or> solRecv \<le> 0
                  then Inl ''On-chain SELL has zero solReceived. Treating as failed.''
                  else Inr \<lparr> success = True, simulated = False, action = ''sell'',
                             er_mint = mint, er_error = None, signature = Some sig,
                             er_solSpent = None, tokensReceived = None,
                             requestedTokens = Some amountTokens,
                             tokensSold = Some (Tokens sold), solReceived = Some solRecv,
                             timestamp = Some (clock net) \<rparr>))
        of Inl msg \<Rightarrow> failure ''sell'' mint msg
         | Inr result \<Rightarrow> result)"

subsection \<open>The requests of a call\<close>

text \<open>
  The requests that \<^verbatim>\<open>buyToken\<close> and \<^verbatim>\<open>sellToken\<close> of the Local API variant issue, in
  order. The dry run returns before the first of them. The live path posts the trade,
  sends the signed transaction, asks for the signature status until it is confirmed (at
  most 30 times) and fetches the transaction once; an exception ends it.
\<close>

datatype exec_call = PostTrade | SendTransaction | GetSignatureStatus | GetTransaction

primrec pollsMade :: "(poll \<Rightarrow> bool) \<Rightarrow> (nat \<Rightarrow> poll) \<Rightarrow> nat \<Rightarrow> nat \<Rightarrow> nat" where
  "pollsMade isConfirmed polls i 0 = 0"
| "pollsMade isConfirmed polls i (Suc n) =
     (if isConfirmed (polls i) then 1
      else Suc (pollsMade isConfirmed polls (Suc i) n))"

definition liveCalls :: "exec_network \<Rightarrow> exec_call list" where
  "liveCalls net =
     PostTrade #
     (case post_trade net of
        Inl msg \<Rightarrow> []
      | Inr response \<Rightarrow>
          if status response \<noteq> 200 \<or> \<not> hasData response \<or> \<not> deserializes net then []
          else
            SendTransaction #
            (case sendTransaction net of
               Inl msg \<Rightarrow> []
             | Inr sig \<Rightarrow>
                 replicate (pollsMade confirmedLocal (signatureStatus net) 0 30)
                   GetSignatureStatus @ [GetTransaction]))"

text \<open>A call with the requests it issues.\<close>

definition buyToken_run ::
  "bool \<Rightarrow> string \<Rightarrow> (nat \<Rightarrow> number) \<Rightarrow> exec_network \<Rightarrow> string \<Rightarrow> number \<Rightarrow>
     execution_result \<times> exec_call list" where
  "buyToken_run dry walletPubkey rnd net mint solAmount =
     (if dry then (simulateBuy rnd (clock net) mint solAmount, [])
      else (buyToken False walletPubkey rnd net mint solAmount, liveCalls net))"

definition sellToken_run ::
  "bool \<Rightarrow> string \<Rightarrow> (nat \<Rightarrow> number) \<Rightarrow> exec_network \<Rightarrow> string \<Rightarrow> sell_amount \<Rightarrow>
     execution_result \<times> exec_call list" where
  "sellToken_run dry walletPubkey rnd net mint amountTokens =
     (if dry then (simulateSell rnd (clock net) mint amountTokens, [])
      else (sellToken False walletPubkey rnd net mint amountTokens, liveCalls net))"

subsection \<open>Lightning API variant\<close>

text \<open>
  The second \<^verbatim>\<open>pumpPortalExecutor.js\<close> of the repository. Its \<^verbatim>\<open>parseTx\<close> returns an
  empty object for a missing transaction, reads the first token balance only and throws
  when the message has no \<^verbatim>\<open>accountKeys\<close>; a balance read out of range gives \<^verbatim>\<open>NaN\<close>,
  here \<open>None\<close>.
\<close>

record lightning_details =
  lt_tokensReceived :: "number option"
  lt_solReceived :: "number option"

text \<open>\<^verbatim>\<open>balances[0]?.uiTokenAmount?.uiAmount ?? 0\<close>.\<close>

definition firstAmount :: "token_balance list \<Rightarrow> number" where
  "firstAmount bs = (case bs of [] \<Rightarrow> 0 | b # rest \<Rightarrow> orDefault (uiAmount b) 0)"

definition parseTx_lightning ::
  "string \<Rightarrow> transaction option \<Rightarrow> string + lightning_details" where
  "parseTx_lightning walletPubkey txo =
     (case txo of
        None \<Rightarrow> Inr \<lparr> lt_tokensReceived = None, lt_solReceived = None \<rparr>
      | Some tx \<Rightarrow>
          let m = meta tx;
              tokensRecv =
                (case (case m of None \<Rightarrow> None | Some mm \<Rightarrow> postTokenBalances mm,
                       case m of None \<Rightarrow> None | Some mm \<Rightarrow> preTokenBalances mm) of
                   (Some post, Some pre) \<Rightarrow> firstAmount post - firstAmount pre
                 | _ \<Rightarrow> 0)
          in
          (case (case m of None \<Rightarrow> None | Some mm \<Rightarrow> postBalances mm,
                 case m of None \<Rightarrow> None | Some mm \<Rightarrow> preBalances mm) of
             (Some post, Some pre) \<Rightarrow>
               (case accountKeys tx of
                  None \<Rightarrow> Inl ''TypeError''
                | Some ks \<Rightarrow>
                    (case findIndex (\<lambda>k. k = walletPubkey) ks of
                       Some walletIndex \<Rightarrow>
                         Inr \<lparr> lt_tokensReceived = Some tokensRecv,
                               lt_solReceived =
                                 (if walletIndex < length post \<and> walletIndex < length pre
                                  then Some (real (post ! walletIndex) / 1000000000 -
                                             real (pre ! walletIndex) / 1000000000)
                                  else None) \<rparr>
                     | None \<Rightarrow>
                         Inr \<lparr> lt_tokensReceived = Some tokensRecv, lt_solReceived = Some 0 \<rparr>))
           | _ \<Rightarrow> Inr \<lparr> lt_tokensReceived = Some tokensRecv, lt_solReceived = Some 0 \<rparr>))"

definition getTxDetails_lightning ::
  "string \<Rightarrow> string + transaction option \<Rightarrow> lightning_details option" where
  "getTxDetails_lightning walletPubkey outcome =
     (case outcome of
        Inl msg \<Rightarrow> None
      | Inr txo \<Rightarrow>
          (case parseTx_lightning walletPubkey txo of
             Inl msg \<Rightarrow> None
           | Inr d \<Rightarrow> Some d))"

text \<open>\<^verbatim>\<open>tx?.field || 0\<close>.\<close>

definition orZero :: "number option \<Rightarrow> number" where
  "orZero x = orDefault x 0"

text \<open>
  The live path of the Lightning \<^verbatim>\<open>buyToken\<close> and \<^verbatim>\<open>sellToken\<close> (\<^verbatim>\<open>dryRun\<close> false): the
  endpoint signs and sends, and the answer carries the signature.
\<close>

definition buyToken_lightning ::
  "string \<Rightarrow> exec_network \<Rightarrow> string \<Rightarrow> number \<Rightarrow> execution_result" where
  "buyToken_lightning walletPubkey net mint solAmount =
     (case
        andThen (post_trade net) (\<lambda>response.
          if status response \<noteq> 200 \<or> \<not> hasData response then Inl ''API Error''
          else
            (case dataSignature response of
               None \<Rightarrow> Inl ''TypeError''
             | Some sig \<Rightarrow>
                 let confirmed = waitForConfirmation confirmedLightning (signatureStatus net) 0 30;
                     tx = getTxDetails_lightning walletPubkey (getTransaction net)
                 in Inr \<lparr> success = True, simulated = False, action = ''buy'',
                          er_mint = mint, er_error = None, signature = Some sig,
                          er_solSpent = Some solAmount,
                          tokensReceived =
                            Some (orZero (case tx of None \<Rightarrow> None
                                          | Some d \<Rightarrow> lt_tokensReceived d)),
                          requestedTokens = None, tokensSold = None, solReceived = None,
                          timestamp = Some (clock net) \<rparr>))
      of Inl msg \<Rightarrow> failure ''buy'' mint msg
       | Inr result \<Rightarrow> result)"

definition sellToken_lightning ::
  "string \<Rightarrow> exec_network \<Rightarrow> string \<Rightarrow> sell_amount \<Rightarrow> execution_result" where
  "sellToken_lightning walletPubkey net mint amountTokens =
     (case
        andThen (post_trade net) (\<lambda>response.
          if status response \<noteq> 200 \<or> \<not> hasData response then Inl ''API Error''
          else
            (case dataSignature response of
               None \<Rightarrow> Inl ''TypeError''
             | Some sig \<Rightarrow>
                 let confirmed = waitForConfirmation confirmedLightning (signatureStatus net) 0 30;
                     tx = getTxDetails_lightning walletPubkey (getTransaction net)
                 in Inr \<lparr> success = True, simulated = False, action = ''sell'',
                          er_mint = mint, er_error = None, signature = Some sig,
                          er_solSpent = None, tokensReceived = None,
                          requestedTokens = None, tokensSold = Some amountTokens,
                          solReceived =
                            Some (orZero (case tx of None \<Rightarrow> None
                                          | Some d \<Rightarrow> lt_solReceived d)),
                          timestamp = Some (clock net) \<rparr>))
      of Inl msg \<Rightarrow> failure ''sell'' mint msg
       | Inr result \<Rightarrow> result)"

section \<open>The exit triggers of the specification\<close>






section \<open>Concrete inputs\<close>

text \<open>
  A bonding-curve account with the discriminator, virtual token reserves
  1000000000000, virtual SOL reserves 30000000000 lamports, real token reserves
  500000000000000 and the completion flag clear; and the same account with the flag set.
\<close>

definition liveCurveAccount :: "byte list" where
  "liveCurveAccount =
     [23, 183, 248, 55, 96, 216, 172, 96,
      0, 16, 165, 212, 232, 0, 0, 0,
      0, 172, 35, 252, 6, 0, 0, 0,
      0, 64, 99, 82, 191, 198, 1, 0,
      0, 242, 5, 42, 1, 0, 0, 0,
      0, 128, 198, 164, 126, 141, 3, 0,
      0]"


text \<open>
  A live account with virtual token reserves 1072000000000000 and virtual SOL reserves
  30000000007 lamports.
\<close>

definition driftCurveAccount :: "byte list" where
  "driftCurveAccount =
     [23, 183, 248, 55, 96, 216, 172, 96,
      0, 0, 51, 115, 250, 206, 3, 0,
      7, 172, 35, 252, 6, 0, 0, 0,
      0, 120, 197, 251, 81, 209, 2, 0,
      1, 0, 0, 0, 0, 0, 0, 0,
      0, 128, 198, 164, 126, 141, 3, 0,
      0]"

text \<open>Networks: every source misses; only the bonding curve answers (live, completed).\<close>

definition deadNetwork :: "int \<Rightarrow> network" where
  "deadNetwork t =
     \<lparr> getAccountInfo = Inr None,
       jupiter_getPrice = Inr (Some \<lparr> sr_price = None, sr_source = None \<rparr>),
       dexscreener_fetch = HttpNotOk 404, clock_at_failure = t \<rparr>"

definition liveCurveNetwork :: "int \<Rightarrow> network" where
  "liveCurveNetwork t = (deadNetwork t) \<lparr> getAccountInfo := Inr (Some liveCurveAccount) \<rparr>"

definition driftCurveNetwork :: "int \<Rightarrow> network" where
  "driftCurveNetwork t = (deadNetwork t) \<lparr> getAccountInfo := Inr (Some driftCurveAccount) \<rparr>"




text \<open>A store without positions or history, whose commands all succeed.\<close>

definition emptyStore :: store where
  "emptyStore =
     \<lparr> sismember_open_positions = (\<lambda>m. Inr False),
       hgetall_position = (\<lambda>m. Inr Map.empty),
       lrange_trades = (\<lambda>d. Inr []),
       get_copy_cooldown = (\<lambda>m. Inr None),
       scard_open_positions = Inr 0,
       smembers_sellers = (\<lambda>m. Inr []) \<rparr>"

text \<open>A store whose every command throws.\<close>

definition brokenStore :: store where
  "brokenStore =
     \<lparr> sismember_open_positions = (\<lambda>m. Inl (RedisError ''ECONNREFUSED'')),
       hgetall_position = (\<lambda>m. Inl (RedisError ''ECONNREFUSED'')),
       lrange_trades = (\<lambda>d. Inl (RedisError ''ECONNREFUSED'')),
       get_copy_cooldown = (\<lambda>m. Inl (RedisError ''ECONNREFUSED'')),
       scard_open_positions = Inl (RedisError ''ECONNREFUSED''),
       smembers_sellers = (\<lambda>m. Inl (RedisError ''ECONNREFUSED'')) \<rparr>"



text \<open>A close record of mint \<open>X\<close> and wallet \<open>W\<close>, and a signal for the same pair.\<close>

definition closeRecord :: "int \<Rightarrow> json_entry" where
  "closeRecord closedAt =
     TradeJson \<lparr> ct_mint = Some ''X'', ct_walletSource = Some ''W'',
                 ct_closedAt = Some closedAt \<rparr>"

definition signalXW :: copy_signal where
  "signalXW =
     \<lparr> s_mint = ''X'', s_copyAmount = 0.1, s_upvotes = 1, s_buyers = [''W''],
       s_walletAddress = Some ''W'' \<rparr>"

definition paperEnv :: process_env where
  "paperEnv = \<lparr> dryRun = True, maxPositions = 2 \<rparr>"

text \<open>
  A confirmed transaction in which neither the token balance nor the lamport balance of
  the signer \<open>W\<close> moves, and the answers of a live call that returns it.
\<close>

definition idleTransaction :: transaction where
  "idleTransaction =
     \<lparr> meta = Some \<lparr> err = None,
                      preTokenBalances = Some [\<lparr> accountIndex = 1, uiAmount = Some 5 \<rparr>],
                      postTokenBalances = Some [\<lparr> accountIndex = 1, uiAmount = Some 5 \<rparr>],
                      preBalances = Some [1000000000, 0],
                      postBalances = Some [1000000000, 0] \<rparr>,
       staticAccountKeys = Some [''W'', ''T''],
       accountKeys = Some [''W'', ''T''] \<rparr>"

definition idleNetwork :: exec_network where
  "idleNetwork =
     \<lparr> post_trade = Inr \<lparr> status = 200, hasData = True, dataSignature = Some ''sig'' \<rparr>,
       deserializes = True,
       sendTransaction = Inr ''sig'',
       signatureStatus = (\<lambda>i. Status False ''confirmed''),
       getTransaction = Inr (Some idleTransaction),
       clock = 0 \<rparr>"

text \<open>
  The store answers every lookup of the rebuy check for \<open>mint\<close>: membership in the open
  set is \<open>b\<close>, the position hash (read when \<open>b\<close>) is \<open>h\<close>, and the history list of
  each of the days 0 to 7 before today is \<open>hist d\<close>.
\<close>

definition storeAnswers ::
  "store \<Rightarrow> string \<Rightarrow> bool \<Rightarrow> (string \<rightharpoonup> string) \<Rightarrow> (nat \<Rightarrow> json_entry list) \<Rightarrow> bool" where
  "storeAnswers st mint b h hist =
     (sismember_open_positions st mint = Inr b \<and>
      (b \<longrightarrow> hgetall_position st mint = Inr h) \<and>
      (\<forall>d \<le> 7. lrange_trades st d = Inr (hist d)))"

text \<open>Stores with one close record of the pair in today's list, closed at the given time.\<close>

definition historyWithClose :: "int \<Rightarrow> nat \<Rightarrow> json_entry list" where
  "historyWithClose closedAt d = (if d = 0 then [BadJson, closeRecord closedAt] else [])"

definition storeWithClose :: "int \<Rightarrow> store" where
  "storeWithClose closedAt =
     emptyStore \<lparr> lrange_trades := (\<lambda>d. Inr (historyWithClose closedAt d)) \<rparr>"

text \<open>A store whose history lookup of the third day before today throws.\<close>

definition flakyStore :: store where
  "flakyStore =
     emptyStore \<lparr> lrange_trades :=
       (\<lambda>d. if d = 3 then Inl (RedisError ''timeout'') else Inr []) \<rparr>"

text \<open>
  Scenarios of the price service for the mint \<open>M\<close>: the state after one resolution from
  the live bonding curve at time 0, and the state reached from \<open>ps\<close> by three
  resolutions at the given times during which every source misses.
\<close>

definition afterSuccess :: price_service where
  "afterSuccess = fst (snd (getPrice newPriceService (liveCurveNetwork 0) ''M'' False 0))"

definition afterThreeMisses :: "price_service \<Rightarrow> int \<Rightarrow> int \<Rightarrow> int \<Rightarrow> price_service" where
  "afterThreeMisses ps t1 t2 t3 =
     (let ps1 = fst (snd (getPrice ps (deadNetwork t1) ''M'' False t1));
          ps2 = fst (snd (getPrice ps1 (deadNetwork t2) ''M'' False t2))
      in fst (snd (getPrice ps2 (deadNetwork t3) ''M'' False t3)))"

text \<open>Two runs of \<^verbatim>\<open>Math.random()\<close>: every draw 0, and every draw 0.5.\<close>

definition drawsLow :: "nat \<Rightarrow> number" where
  "drawsLow i = 0"

definition drawsMid :: "nat \<Rightarrow> number" where
  "drawsMid i = 1 / 2"

section \<open>Properties of double rounding\<close>

text \<open>
  The exponent chosen by \<open>ulpExp\<close> is the one of the binade of its argument, so \<open>rd\<close> can be
  evaluated at a given exponent; \<open>rd\<close> is monotone, fixes the doubles and commutes with
  the sign.
\<close>

lemma bitLength_0: "bitLength 0 = 0" by (subst bitLength.simps) simp

lemma bitLength_pos: "0 < n \<Longrightarrow> bitLength n = Suc (bitLength (n div 2))"
  by (subst bitLength.simps) simp

lemma pow2_powr: "pow2 e = 2 powr (real_of_int e)"
  by (simp add: pow2_def powr_real_of_int inverse_eq_divide)

lemma pow2_pos: "0 < pow2 e" by (simp add: pow2_powr)

lemma pow2_add: "pow2 (a + b) = pow2 a * pow2 b" by (simp add: pow2_powr powr_add)

lemma pow2_mono: "a \<le> b \<Longrightarrow> pow2 a \<le> pow2 b" by (simp add: pow2_powr)

lemma pow2_nat: "pow2 (int n) = 2 ^ n" by (simp add: pow2_def)

lemma pow2_0: "pow2 0 = 1" by (simp add: pow2_def)

lemma pow2_Suc: "pow2 (e + 1) = 2 * pow2 e" by (simp add: pow2_powr powr_add)

lemma bitLength_bounds: "0 < n \<Longrightarrow> 2 ^ (bitLength n - 1) \<le> n \<and> n < 2 ^ bitLength n"
proof (induction n rule: bitLength.induct)
  case (1 n)
  show ?case
  proof (cases "n div 2 = 0")
    case True
    with 1(2) have "n = 1" by (simp add: div_eq_0_iff)
    then show ?thesis by (simp add: bitLength_pos bitLength_0)
  next
    case False
    then have "0 < n div 2" by simp
    with 1 have ih: "2 ^ (bitLength (n div 2) - 1) \<le> n div 2" "n div 2 < 2 ^ bitLength (n div 2)"
      by auto
    have b: "bitLength n = Suc (bitLength (n div 2))" using 1(2) by (rule bitLength_pos)
    have p: "0 < bitLength (n div 2)" using False by (simp add: bitLength_pos)
    from ih(1) have "2 * 2 ^ (bitLength (n div 2) - 1) \<le> n" by linarith
    moreover have "2 * 2 ^ (bitLength (n div 2) - 1) = (2::nat) ^ bitLength (n div 2)"
      using p by (cases "bitLength (n div 2)") simp_all
    moreover from ih(2) have "n < 2 * 2 ^ bitLength (n div 2)" by linarith
    ultimately show ?thesis using b by simp
  qed
qed

lemma bitLength_eq: "2 ^ N \<le> n \<Longrightarrow> n < 2 ^ Suc N \<Longrightarrow> bitLength n = Suc N"
proof -
  assume a: "2 ^ N \<le> n" "n < 2 ^ Suc N"
  have "0 < (2::nat) ^ N" by simp
  with a(1) have "0 < n" by linarith
  from bitLength_bounds [OF this] have b: "2 ^ (bitLength n - 1) \<le> n" "n < 2 ^ bitLength n"
    by auto
  from a(1) b(2) have "(2::nat) ^ N < 2 ^ bitLength n" by linarith
  then have 1: "N < bitLength n" by (rule power_less_imp_less_exp [rotated]) simp
  from a(2) b(1) have "(2::nat) ^ (bitLength n - 1) < 2 ^ Suc N" by linarith
  then have "bitLength n - 1 < Suc N" by (rule power_less_imp_less_exp [rotated]) simp
  with 1 show ?thesis by linarith
qed

lemma bitLength_le: "n < 2 ^ k \<Longrightarrow> bitLength n \<le> k"
proof (cases "n = 0")
  case True then show ?thesis by (simp add: bitLength_0)
next
  case False
  assume a: "n < 2 ^ k"
  from False have "0 < n" by simp
  from bitLength_bounds [OF this] have "2 ^ (bitLength n - 1) \<le> n" by simp
  with a have "(2::nat) ^ (bitLength n - 1) < 2 ^ k" by linarith
  then have "bitLength n - 1 < k" by (rule power_less_imp_less_exp [rotated]) simp
  then show ?thesis by linarith
qed

lemma rne_int: "rne (of_int m) = m" by (simp add: rne_def)

lemma rne_bounds: "\<lfloor>x\<rfloor> \<le> rne x" "rne x \<le> \<lfloor>x\<rfloor> + 1"
  by (simp_all add: rne_def Let_def)

lemma rne_le: "x \<le> of_int N \<Longrightarrow> rne x \<le> N"
proof -
  assume a: "x \<le> of_int N"
  show ?thesis
  proof (cases "x = of_int N")
    case True then show ?thesis by (simp add: rne_int)
  next
    case False
    with a have "x < of_int N" by simp
    then have "\<lfloor>x\<rfloor> < N" by (simp add: floor_less_iff)
    with rne_bounds(2) [of x] show ?thesis by linarith
  qed
qed

lemma rne_ge: "of_int N \<le> x \<Longrightarrow> N \<le> rne x"
proof -
  assume "of_int N \<le> x"
  then have "N \<le> \<lfloor>x\<rfloor>" by (simp add: le_floor_iff)
  with rne_bounds(1) [of x] show ?thesis by linarith
qed

lemma rne_mono: "x \<le> y \<Longrightarrow> rne x \<le> rne y"
proof -
  assume a: "x \<le> y"
  then have f: "\<lfloor>x\<rfloor> \<le> \<lfloor>y\<rfloor>" by (rule floor_mono)
  show ?thesis
  proof (cases "\<lfloor>x\<rfloor> = \<lfloor>y\<rfloor>")
    case True
    with a have "x - of_int \<lfloor>x\<rfloor> \<le> y - of_int \<lfloor>y\<rfloor>" by simp
    with True show ?thesis by (auto simp add: rne_def Let_def)
  next
    case False
    with f have "\<lfloor>x\<rfloor> + 1 \<le> \<lfloor>y\<rfloor>" by simp
    with rne_bounds(2) [of x] rne_bounds(1) [of y] show ?thesis by linarith
  qed
qed

lemma rne_minus: "rne (- x) = - rne x"
proof (cases "x = of_int \<lfloor>x\<rfloor>")
  case True
  then obtain m where "x = of_int m" by blast
  then show ?thesis using rne_int [of "- m"] rne_int [of m] by simp
next
  case False
  then have c: "\<lfloor>- x\<rfloor> = - \<lfloor>x\<rfloor> - 1"
    by (intro floor_unique) (auto simp add: less_le, linarith+)
  have d: "- x - of_int (- \<lfloor>x\<rfloor> - 1) = 1 - (x - of_int \<lfloor>x\<rfloor>)" by simp
  show ?thesis
    unfolding rne_def Let_def c d
    by (auto simp add: even_add) 
qed

lemma pow2_53: "pow2 53 = of_int (2 ^ 53)" by (simp add: pow2_def)

lemma pow2_52: "pow2 52 = of_int (2 ^ 52)" by (simp add: pow2_def)

lemma pow2_cancel: "a * pow2 k < pow2 j \<longleftrightarrow> a < pow2 (j - k)"
  "pow2 j \<le> a * pow2 k \<longleftrightarrow> pow2 (j - k) \<le> a"
proof -
  have e: "pow2 j = pow2 (j - k) * pow2 k" using pow2_add [of "j - k" k] by simp
  show "a * pow2 k < pow2 j \<longleftrightarrow> a < pow2 (j - k)"
    unfolding e using pow2_pos [of k] by simp
  show "pow2 j \<le> a * pow2 k \<longleftrightarrow> pow2 (j - k) \<le> a"
    unfolding e using pow2_pos [of k] by simp
qed

lemma ulpExp_ge: "- 1074 \<le> ulpExp x" by (simp add: ulpExp_def)

lemma bitLength_lt: "n < 2 ^ bitLength n"
proof (cases "n = 0")
  case True then show ?thesis by simp
next
  case False then show ?thesis using bitLength_bounds [of n] by simp
qed

lemma scaled_floor:
  assumes "0 \<le> y"
  shows "real (nat \<lfloor>y\<rfloor>) \<le> y" "y < real (nat \<lfloor>y\<rfloor>) + 1"
  using assms by linarith+

lemma ulpExp_upper: "\<bar>x\<bar> < pow2 (ulpExp x + 53)"
proof -
  define y where "y = \<bar>x\<bar> * pow2 1074"
  define n where "n = nat \<lfloor>y\<rfloor>"
  define b where "b = bitLength n"
  have y0: "0 \<le> y" using pow2_pos [of 1074] by (simp add: y_def)
  have "Suc n \<le> 2 ^ b" using bitLength_lt [of n] by (simp add: b_def)
  then have "real (Suc n) \<le> real (2 ^ b)" by (rule of_nat_mono)
  then have "real n + 1 \<le> pow2 (int b)" by (simp add: pow2_nat)
  with scaled_floor(2) [OF y0] have "y < pow2 (int b)" unfolding n_def by linarith
  then have 1: "\<bar>x\<bar> < pow2 (int b - 1074)" unfolding y_def by (simp only: pow2_cancel)
  have "int b - 1074 \<le> ulpExp x + 53" by (simp add: ulpExp_def b_def n_def y_def)
  then have "pow2 (int b - 1074) \<le> pow2 (ulpExp x + 53)" by (rule pow2_mono)
  with 1 show ?thesis by linarith
qed

lemma ulpExp_lower:
  assumes "- 1074 < ulpExp x"
  shows "pow2 (ulpExp x + 52) \<le> \<bar>x\<bar>"
proof -
  define y where "y = \<bar>x\<bar> * pow2 1074"
  define n where "n = nat \<lfloor>y\<rfloor>"
  define b where "b = bitLength n"
  have y0: "0 \<le> y" using pow2_pos [of 1074] by (simp add: y_def)
  from assms have u: "ulpExp x = int b - 1127"
    by (simp add: ulpExp_def b_def n_def y_def max_def split: if_splits)
  with assms have b: "1 \<le> b" by linarith
  have "n \<noteq> 0"
  proof
    assume "n = 0"
    then have "b = 0" by (simp add: b_def bitLength_0)
    with b show False by simp
  qed
  then have "2 ^ (b - 1) \<le> n" using bitLength_bounds [of n] by (simp add: b_def)
  then have "real (2 ^ (b - 1)) \<le> real n" by (rule of_nat_mono)
  then have "pow2 (int (b - 1)) \<le> real n" by (simp add: pow2_nat)
  with scaled_floor(1) [OF y0] have "pow2 (int (b - 1)) \<le> y" unfolding n_def by linarith
  then have "pow2 (int (b - 1) - 1074) \<le> \<bar>x\<bar>" unfolding y_def by (simp only: pow2_cancel)
  moreover have "int (b - 1) - 1074 = ulpExp x + 52" using b u by simp
  ultimately show ?thesis by (simp only:)
qed

lemma ulpExp_le:
  assumes "- 1074 \<le> e" "\<bar>x\<bar> < pow2 (e + 53)"
  shows "ulpExp x \<le> e"
proof (rule ccontr)
  assume "\<not> ulpExp x \<le> e"
  then have g: "e + 53 \<le> ulpExp x + 52" by simp
  with assms(1) have "- 1074 < ulpExp x" by simp
  from ulpExp_lower [OF this] have "pow2 (ulpExp x + 52) \<le> \<bar>x\<bar>" .
  with pow2_mono [OF g] assms(2) show False by linarith
qed

lemma ulpExp_eq:
  assumes "- 1074 \<le> e" "\<bar>x\<bar> < pow2 (e + 53)" "e = - 1074 \<or> pow2 (e + 52) \<le> \<bar>x\<bar>"
  shows "ulpExp x = e"
proof (rule antisym)
  show "ulpExp x \<le> e" using assms(1,2) by (rule ulpExp_le)
  show "e \<le> ulpExp x"
  proof (cases "e = - 1074")
    case True then show ?thesis using ulpExp_ge [of x] by simp
  next
    case False
    with assms(3) have l: "pow2 (e + 52) \<le> \<bar>x\<bar>" by simp
    show ?thesis
    proof (rule ccontr)
      assume "\<not> e \<le> ulpExp x"
      then have "ulpExp x + 53 \<le> e + 52" by simp
      then have "pow2 (ulpExp x + 53) \<le> pow2 (e + 52)" by (rule pow2_mono)
      with ulpExp_upper [of x] l show False by linarith
    qed
  qed
qed

lemma ulpExp_mono:
  assumes "\<bar>x\<bar> \<le> \<bar>y\<bar>"
  shows "ulpExp x \<le> ulpExp y"
proof -
  have "\<bar>x\<bar> < pow2 (ulpExp y + 53)" using ulpExp_upper [of y] assms by simp
  with ulpExp_ge [of y] show ?thesis by (rule ulpExp_le)
qed

lemma ulpExp_minus: "ulpExp (- x) = ulpExp x" by (simp add: ulpExp_def)

lemma rd_eval:
  assumes "- 1074 \<le> e" "\<bar>x\<bar> < pow2 (e + 53)" "e = - 1074 \<or> pow2 (e + 52) \<le> \<bar>x\<bar>"
  shows "rd x = of_int (rne (x / pow2 e)) * pow2 e"
  using ulpExp_eq [OF assms] by (simp add: rd_def)

lemma rd_0: "rd 0 = 0" using rne_int [of 0] by (simp add: rd_def)

lemma rd_minus: "rd (- x) = - rd x" by (simp add: rd_def ulpExp_minus rne_minus)

lemma rd_int_grid:
  assumes "ulpExp (of_int m * pow2 e) \<le> e"
  shows "rd (of_int m * pow2 e) = of_int m * pow2 e"
proof -
  let ?x = "of_int m * pow2 e :: real"
  define k where "k = nat (e - ulpExp ?x)"
  have "pow2 e = pow2 (int k) * pow2 (ulpExp ?x)"
    using assms pow2_add [of "int k" "ulpExp ?x"] by (simp add: k_def)
  then have e: "pow2 e = 2 ^ k * pow2 (ulpExp ?x)" by (simp add: pow2_nat)
  have "?x / pow2 (ulpExp ?x) = of_int m * 2 ^ k * pow2 (ulpExp ?x) / pow2 (ulpExp ?x)"
    by (subst e) simp
  also have "\<dots> = of_int (m * 2 ^ k)" using pow2_pos [of "ulpExp ?x"] by simp
  finally have "rd ?x = of_int (m * 2 ^ k) * pow2 (ulpExp ?x)"
    unfolding rd_def using rne_int [of "m * 2 ^ k"] by simp
  also have "\<dots> = of_int m * (2 ^ k * pow2 (ulpExp ?x))" by simp
  finally show ?thesis using e by simp
qed

lemma rd_repr:
  assumes "\<bar>m\<bar> \<le> 2 ^ 53" "- 1074 \<le> e"
  shows "rd (of_int m * pow2 e) = of_int m * pow2 e"
proof (cases "\<bar>m\<bar> = 2 ^ 53")
  case True
  then have "m = 2 ^ 53 \<or> m = - (2 ^ 53)" by linarith
  then obtain s :: int where s: "m = s * 2 ^ 53" "s = 1 \<or> s = - 1" by auto
  have "of_int m * pow2 e = of_int (s * 2 ^ 52) * pow2 (e + 1)"
    using s by (auto simp add: pow2_Suc)
  moreover have "rd (of_int (s * 2 ^ 52) * pow2 (e + 1)) = of_int (s * 2 ^ 52) * pow2 (e + 1)"
  proof (rule rd_int_grid, rule ulpExp_le)
    show "- 1074 \<le> e + 1" using assms(2) by simp
    have "\<bar>real_of_int (s * 2 ^ 52) * pow2 (e + 1)\<bar> = pow2 52 * pow2 (e + 1)"
      using s(2) pow2_pos [of "e + 1"] by (auto simp add: abs_mult pow2_def)
    also have "\<dots> = pow2 (e + 1 + 52)" using pow2_add [of 52 "e + 1"] by (simp add: add.commute)
    also have "\<dots> < pow2 (e + 1 + 53)" using pow2_Suc [of "e + 1 + 52"] pow2_pos [of "e + 1 + 52"]
      by (simp add: add.assoc)
    finally show "\<bar>real_of_int (s * 2 ^ 52) * pow2 (e + 1)\<bar> < pow2 (e + 1 + 53)" .
  qed
  ultimately show ?thesis by simp
next
  case False
  let ?x = "of_int m * pow2 e :: real"
  from False assms(1) have "\<bar>m\<bar> < 2 ^ 53" by simp
  then have "real_of_int \<bar>m\<bar> < of_int (2 ^ 53)" by (rule of_int_less_iff [THEN iffD2])
  then have "\<bar>real_of_int m\<bar> < pow2 53" by (simp add: pow2_53)
  then have "\<bar>real_of_int m\<bar> * pow2 e < pow2 53 * pow2 e" using pow2_pos [of e] by simp
  then have a: "\<bar>?x\<bar> < pow2 (e + 53)"
    using pow2_pos [of e] pow2_add [of 53 e] by (simp add: abs_mult add.commute)
  with assms(2) have u: "ulpExp ?x \<le> e" by (rule ulpExp_le)
  then show ?thesis by (rule rd_int_grid)
qed

lemma rd_form: "\<exists>m. \<bar>m\<bar> \<le> 2 ^ 53 \<and> rd x = of_int m * pow2 (ulpExp x)"
proof -
  let ?q = "x / pow2 (ulpExp x)"
  have "\<bar>x\<bar> < pow2 53 * pow2 (ulpExp x)"
    using ulpExp_upper [of x] pow2_add [of 53 "ulpExp x"] by (simp add: add.commute)
  moreover have "\<bar>?q\<bar> = \<bar>x\<bar> / pow2 (ulpExp x)" using pow2_pos [of "ulpExp x"] by simp
  ultimately have "\<bar>?q\<bar> < pow2 53" using pow2_pos [of "ulpExp x"]
    by (simp add: divide_less_eq)
  then have "?q < pow2 53" "- pow2 53 < ?q" by (simp_all only: abs_less_iff minus_less_iff)
  then have "?q \<le> of_int (2 ^ 53)" "of_int (- (2 ^ 53)) \<le> ?q"
    unfolding pow2_53 by simp_all
  then have "rne ?q \<le> 2 ^ 53" "- (2 ^ 53) \<le> rne ?q" using rne_le rne_ge by blast+
  then have "\<bar>rne ?q\<bar> \<le> 2 ^ 53" by simp
  then show ?thesis unfolding rd_def by blast
qed

lemma rd_idem: "rd (rd x) = rd x"
proof -
  from rd_form [of x] obtain m where m: "\<bar>m\<bar> \<le> 2 ^ 53" "rd x = of_int m * pow2 (ulpExp x)"
    by blast
  show ?thesis unfolding m(2) using m(1) ulpExp_ge [of x] by (rule rd_repr)
qed

lemma rd_mono_nonneg:
  assumes "0 \<le> x" "x \<le> y"
  shows "rd x \<le> rd y"
proof -
  let ?u = "ulpExp x" and ?v = "ulpExp y"
  have uv: "?u \<le> ?v" using assms by (intro ulpExp_mono) simp
  show ?thesis
  proof (cases "?u = ?v")
    case True
    have "x / pow2 ?v \<le> y / pow2 ?v" using assms(2) pow2_pos [of ?v] by (simp add: divide_right_mono)
    then have "rne (x / pow2 ?v) \<le> rne (y / pow2 ?v)" by (rule rne_mono)
    then have "real_of_int (rne (x / pow2 ?v)) \<le> real_of_int (rne (y / pow2 ?v))" by simp
    then show ?thesis unfolding rd_def True using pow2_pos [of ?v]
      by (simp add: mult_right_mono)
  next
    case False
    with uv have lt: "?u + 53 \<le> ?v + 52" by simp
    with ulpExp_ge [of x] have "- 1074 < ?v" by linarith
    from ulpExp_lower [OF this] assms have "pow2 (?v + 52) \<le> y" by simp
    then have "pow2 52 * pow2 ?v \<le> y" using pow2_add [of 52 ?v] by (simp add: add.commute)
    then have "of_int (2 ^ 52) \<le> y / pow2 ?v" unfolding pow2_52 using pow2_pos [of ?v]
      by (simp add: le_divide_eq)
    then have "2 ^ 52 \<le> rne (y / pow2 ?v)" by (rule rne_ge)
    then have "real_of_int (2 ^ 52) \<le> real_of_int (rne (y / pow2 ?v))"
      by (rule of_int_le_iff [THEN iffD2])
    then have "pow2 52 * pow2 ?v \<le> rd y" unfolding rd_def pow2_52 using pow2_pos [of ?v]
      by (intro mult_right_mono) simp_all
    then have 1: "pow2 (?v + 52) \<le> rd y" using pow2_add [of 52 ?v] by (simp add: add.commute)
    have "x < pow2 53 * pow2 ?u" using ulpExp_upper [of x] assms(1) pow2_add [of 53 ?u]
      by (simp add: add.commute)
    then have "x / pow2 ?u \<le> of_int (2 ^ 53)" unfolding pow2_53 using pow2_pos [of ?u]
      by (simp add: divide_le_eq)
    then have "rne (x / pow2 ?u) \<le> 2 ^ 53" by (rule rne_le)
    then have "real_of_int (rne (x / pow2 ?u)) \<le> real_of_int (2 ^ 53)"
      by (rule of_int_le_iff [THEN iffD2])
    then have "rd x \<le> pow2 53 * pow2 ?u" unfolding rd_def pow2_53 using pow2_pos [of ?u]
      by (intro mult_right_mono) simp_all
    then have 2: "rd x \<le> pow2 (?u + 53)" using pow2_add [of 53 ?u] by (simp add: add.commute)
    from pow2_mono [OF lt] 1 2 show ?thesis by linarith
  qed
qed

lemma rd_nonneg: "0 \<le> x \<Longrightarrow> 0 \<le> rd x"
  using rd_mono_nonneg [of 0 x] by (simp add: rd_0)

lemma rd_mono:
  assumes "x \<le> y"
  shows "rd x \<le> rd y"
proof (cases "0 \<le> x")
  case True then show ?thesis using assms by (rule rd_mono_nonneg)
next
  case False
  note nx = this
  show ?thesis
  proof (cases "0 \<le> y")
    case True
    have "0 \<le> rd (- x)" using nx by (intro rd_nonneg) simp
    then have "rd x \<le> 0" by (simp add: rd_minus)
    with rd_nonneg [OF True] show ?thesis by linarith
  next
    case False
    then have "rd (- y) \<le> rd (- x)" using assms by (intro rd_mono_nonneg) simp_all
    then show ?thesis by (simp add: rd_minus)
  qed
qed

lemma rd_1: "rd 1 = 1" using rd_repr [of 1 0] by (simp add: pow2_0)

lemma pow2_1024: "pow2 1024 = 2 ^ 1024" by (simp add: pow2_def)

lemma fl_Num: "fl x = Num g \<Longrightarrow> g = rd x"
  by (simp add: fl_def split: if_splits)

lemma f_add_Num:
  assumes "f_add a b = Num g"
  obtains x y where "a = Num x" "b = Num y" "g = rd (x + y)"
  using assms by (cases a; cases b) (auto dest: fl_Num)

lemma f_sub_Num:
  assumes "f_sub a b = Num g"
  obtains x y where "a = Num x" "b = Num y" "g = rd (x - y)"
  using assms unfolding f_sub_def
  by (cases a; cases b) (auto simp add: f_neg_def dest: fl_Num)

lemma f_mul_Num:
  assumes "f_mul a b = Num g"
  obtains x y where "a = Num x" "b = Num y" "g = rd (x * y)"
  using assms by (cases a; cases b) (auto simp add: signed_def dest: fl_Num split: if_splits)

section \<open>Properties of the PnL accountant\<close>

lemma calculatePnL_valid:
  assumes "calculatePnL t = Inr r"
  shows "\<not> falsyVal (entryPrice t)" "\<not> falsyVal (exitPrice t)" "\<not> falsyVal (tokenAmount t)"
    "\<not> falsyVal (solSpent t)" "\<not> js_le (toNumber (tokenAmount t)) 0"
    "\<not> js_le (toNumber (solSpent t)) 0" "\<not> js_le (toNumber (entryPrice t)) 0"
    "\<not> js_le (toNumber (exitPrice t)) 0" "networkFee t \<noteq> Null"
proof -
  have a: "\<not> (falsyVal (entryPrice t) \<or> falsyVal (exitPrice t) \<or> falsyVal (tokenAmount t) \<or>
               falsyVal (solSpent t))"
    using assms unfolding calculatePnL_def Let_def
    by (cases "falsyVal (entryPrice t) \<or> falsyVal (exitPrice t) \<or> falsyVal (tokenAmount t) \<or>
               falsyVal (solSpent t)") simp_all
  have b: "\<not> (js_le (toNumber (tokenAmount t)) 0 \<or> js_le (toNumber (solSpent t)) 0 \<or>
               js_le (toNumber (entryPrice t)) 0 \<or> js_le (toNumber (exitPrice t)) 0)"
    using assms a unfolding calculatePnL_def Let_def
    by (cases "js_le (toNumber (tokenAmount t)) 0 \<or> js_le (toNumber (solSpent t)) 0 \<or>
               js_le (toNumber (entryPrice t)) 0 \<or> js_le (toNumber (exitPrice t)) 0") simp_all
  have c: "withDefault (networkFee t) (dbl 0.000005) \<noteq> Null"
    using assms a b unfolding calculatePnL_def Let_def
    by (cases "withDefault (networkFee t) (dbl 0.000005) = Null") simp_all
  from a show "\<not> falsyVal (entryPrice t)" "\<not> falsyVal (exitPrice t)"
    "\<not> falsyVal (tokenAmount t)" "\<not> falsyVal (solSpent t)" by simp_all
  from b show "\<not> js_le (toNumber (tokenAmount t)) 0"
    "\<not> js_le (toNumber (solSpent t)) 0" "\<not> js_le (toNumber (entryPrice t)) 0"
    "\<not> js_le (toNumber (exitPrice t)) 0" by simp_all
  from c show "networkFee t \<noteq> Null" by (auto simp add: withDefault_def)
qed

lemma calculatePnL_accepts:
  assumes "\<not> falsyVal (entryPrice t)" "\<not> falsyVal (exitPrice t)" "\<not> falsyVal (tokenAmount t)"
    "\<not> falsyVal (solSpent t)" "\<not> js_le (toNumber (tokenAmount t)) 0"
    "\<not> js_le (toNumber (solSpent t)) 0" "\<not> js_le (toNumber (entryPrice t)) 0"
    "\<not> js_le (toNumber (exitPrice t)) 0" "networkFee t \<noteq> Null"
  shows "\<exists>r. calculatePnL t = Inr r"
proof -
  have "withDefault (networkFee t) (dbl 0.000005) \<noteq> Null"
    using assms(9) by (cases "networkFee t") (simp_all add: withDefault_def)
  then show ?thesis using assms unfolding calculatePnL_def Let_def by simp
qed

lemma calculatePnL_fields:
  assumes "calculatePnL t = Inr r"
  shows "bd_grossValue r = f_mul (toNumber (tokenAmount t)) (toNumber (exitPrice t))"
    and "bd_sellFeePercent r = snd (feeTotals (withDefault (executor t) ''pumpportal''))"
    and "bd_valueAfterSellFee r =
           f_sub (bd_grossValue r) (f_mul (bd_grossValue r) (bd_sellFeePercent r))"
    and "bd_valueAfterSlippage r =
           (if js_gt (f_abs (toNumber (withDefault (slippage t) (Num 0)))) (rd 0.0001)
            then f_sub (bd_valueAfterSellFee r)
                   (f_mul (bd_valueAfterSellFee r)
                      (f_abs (toNumber (withDefault (slippage t) (Num 0)))))
            else bd_valueAfterSellFee r)"
    and "bd_netReceived r =
           f_sub (bd_valueAfterSlippage r)
             (f_add (toNumber (withDefault (networkFee t) (dbl 0.000005)))
                    (toNumber (withDefault (priorityFee t) (Num 0))))"
    and "pnlPercent r =
           toFixedN 2 (f_mul (f_div (f_sub (bd_netReceived r) (toNumber (solSpent t)))
                                (toNumber (solSpent t))) (Num 100))"
proof -
  note v = calculatePnL_valid [OF assms]
  have n: "withDefault (networkFee t) (dbl 0.000005) \<noteq> Null"
    using v(9) by (cases "networkFee t") (simp_all add: withDefault_def)
  have r: "Inr r = calculatePnL t" using assms by simp
  from v n show "bd_grossValue r = f_mul (toNumber (tokenAmount t)) (toNumber (exitPrice t))"
    using r unfolding calculatePnL_def Let_def by simp
  from v n show "bd_sellFeePercent r = snd (feeTotals (withDefault (executor t) ''pumpportal''))"
    using r unfolding calculatePnL_def Let_def by simp
  from v n show "bd_valueAfterSellFee r =
           f_sub (bd_grossValue r) (f_mul (bd_grossValue r) (bd_sellFeePercent r))"
    using r unfolding calculatePnL_def Let_def by simp
  from v n show "bd_valueAfterSlippage r =
           (if js_gt (f_abs (toNumber (withDefault (slippage t) (Num 0)))) (rd 0.0001)
            then f_sub (bd_valueAfterSellFee r)
                   (f_mul (bd_valueAfterSellFee r)
                      (f_abs (toNumber (withDefault (slippage t) (Num 0)))))
            else bd_valueAfterSellFee r)"
    using r unfolding calculatePnL_def Let_def by simp
  from v n show "bd_netReceived r =
           f_sub (bd_valueAfterSlippage r)
             (f_add (toNumber (withDefault (networkFee t) (dbl 0.000005)))
                    (toNumber (withDefault (priorityFee t) (Num 0))))"
    using r unfolding calculatePnL_def Let_def by simp
  from v n show "pnlPercent r =
           toFixedN 2 (f_mul (f_div (f_sub (bd_netReceived r) (toNumber (solSpent t)))
                                (toNumber (solSpent t))) (Num 100))"
    using r unfolding calculatePnL_def Let_def by simp
qed

text \<open>The sell-side fee rate is a double between 0 and 1.\<close>

lemma rd_le_1: "0 \<le> x \<Longrightarrow> x \<le> 1 \<Longrightarrow> 0 \<le> rd x \<and> rd x \<le> 1"
  using rd_mono [of x 1] rd_nonneg [of x] by (simp add: rd_1)

lemma feeTotals_range: "\<exists>f. snd (feeTotals ex) = Num f \<and> 0 \<le> f \<and> f \<le> 1"
  using rd_le_1 [of "0.0175"] rd_le_1 [of "0.003"] rd_le_1 [of "0.01"]
  by (simp add: feeTotals_def dbl_def)

text \<open>
  The three deductions on finite values: each result is a double that does not exceed
  the value it is taken from.
\<close>

lemma gross_nonneg:
  assumes "\<not> js_le a 0" "\<not> js_le b 0" "f_mul a b = Num g"
  shows "0 \<le> g \<and> rd g = g"
proof -
  from assms(3) obtain x y where xy: "a = Num x" "b = Num y" "g = rd (x * y)"
    by (rule f_mul_Num)
  with assms(1,2) have "0 < x" "0 < y" by (simp_all add: js_le_def)
  then have "0 \<le> x * y" by simp
  from rd_nonneg [OF this] xy(3) show ?thesis by (simp add: rd_idem)
qed

lemma fee_step:
  assumes "0 \<le> g" "rd g = g" "0 \<le> f" "f \<le> 1" "f_sub (Num g) (f_mul (Num g) (Num f)) = Num a"
  shows "0 \<le> a \<and> a \<le> g \<and> rd a = a"
proof -
  from assms(5) obtain x s where s: "Num g = Num x" "f_mul (Num g) (Num f) = Num s"
    "a = rd (x - s)" by (rule f_sub_Num)
  then have x: "x = g" by simp
  from s(2) have sv: "s = rd (g * f)" by (auto dest: fl_Num)
  have "0 \<le> g * f" using assms(1,3) by simp
  then have s0: "0 \<le> s" unfolding sv by (rule rd_nonneg)
  have "g * f \<le> g" using assms(1,4) by (simp add: mult_left_le)
  from rd_mono [OF this] have sg: "s \<le> g" unfolding sv assms(2) .
  have "rd (g - s) \<le> rd g" using s0 by (intro rd_mono) simp
  moreover have "0 \<le> rd (g - s)" using sg by (intro rd_nonneg) simp
  ultimately show ?thesis using s(3) x assms(2) by (simp add: rd_idem)
qed

lemma slip_step:
  assumes "0 \<le> a" "rd a = a" "f_sub (Num a) (f_mul (Num a) (f_abs k)) = Num b"
  shows "b \<le> a \<and> rd b = b"
proof -
  from assms(3) obtain x s where s: "Num a = Num x" "f_mul (Num a) (f_abs k) = Num s"
    "b = rd (x - s)" by (rule f_sub_Num)
  from s(2) obtain x' y where y: "Num a = Num x'" "f_abs k = Num y" "s = rd (x' * y)"
    by (rule f_mul_Num)
  from y(2) have "0 \<le> y" by (cases k) (auto simp add: f_abs_def)
  then have "0 \<le> a * y" using assms(1) by simp
  then have "0 \<le> s" using y(1,3) rd_nonneg by simp
  then have "rd (a - s) \<le> rd a" by (intro rd_mono) simp
  then show ?thesis using s(1,3) assms(2) by (simp add: rd_idem)
qed

lemma net_step:
  assumes "rd b = b" "0 \<le> n" "0 \<le> p" "f_sub (Num b) (f_add (Num n) (Num p)) = Num c"
  shows "c \<le> b"
proof -
  from assms(4) obtain x s where s: "Num b = Num x" "f_add (Num n) (Num p) = Num s"
    "c = rd (x - s)" by (rule f_sub_Num)
  from s(2) have "s = rd (n + p)" by (auto dest: fl_Num)
  moreover have "0 \<le> n + p" using assms(2,3) by simp
  ultimately have "0 \<le> s" using rd_nonneg by simp
  then have "rd (b - s) \<le> rd b" by (intro rd_mono) simp
  then show ?thesis using s(1,3) assms(1) by simp
qed

text \<open>The roundings met on the example trade and its variants.\<close>

lemma pnl_rd_1: "rd (1 / 10000) = 7378697629483821 / 73786976294838206464"
  using rd_eval [of "- 66" "1 / 10000"] by (simp add: pow2_def rne_def)

lemma pnl_rd_2: "rd (3 / 20000) = 5534023222112865 / 36893488147419103232"
  using rd_eval [of "- 65" "3 / 20000"] by (simp add: pow2_def rne_def)

lemma pnl_rd_3: "rd (7 / 400) = 1261007895663739 / 72057594037927936"
  using rd_eval [of "- 58" "7 / 400"] by (simp add: pow2_def rne_def)

lemma pnl_rd_4: "rd (1 / 200000) = 5902958103587057 / 1180591620717411303424"
  using rd_eval [of "- 70" "1 / 200000"] by (simp add: pow2_def rne_def)

lemma pnl_rd_5: "rd (86469112845513515625 / 576460752303423488) = 150"
  using rd_eval [of "- 45" "86469112845513515625 / 576460752303423488"] by (simp add: pow2_def rne_def)

lemma pnl_rd_6: "rd (94575592174780425 / 36028797018963968) = 5910974510923777 / 2251799813685248"
  using rd_eval [of "- 51" "94575592174780425 / 36028797018963968"] by (simp add: pow2_def rne_def)

lemma pnl_rd_7: "rd (331858997541863423 / 2251799813685248) = 1179 / 8"
  using rd_eval [of "- 45" "331858997541863423 / 2251799813685248"] by (simp add: pow2_def rne_def)

lemma pnl_rd_8: "rd (5902958103587057 / 1180591620717411303424) = 5902958103587057 / 1180591620717411303424"
  using rd_eval [of "- 70" "5902958103587057 / 1180591620717411303424"] by (simp add: pow2_def rne_def)

lemma pnl_rd_9: "rd (173989684200270387255055 / 1180591620717411303424) = 1296324165167439 / 8796093022208"
  using rd_eval [of "- 45" "173989684200270387255055 / 1180591620717411303424"] by (simp add: pow2_def rne_def)

lemma pnl_rd_10: "rd (416714862946639 / 8796093022208) = 416714862946639 / 8796093022208"
  using rd_eval [of "- 47" "416714862946639 / 8796093022208"] by (simp add: pow2_def rne_def)

lemma pnl_rd_11: "rd (416714862946639 / 879609302220800) = 8534320393147167 / 18014398509481984"
  using rd_eval [of "- 54" "416714862946639 / 879609302220800"] by (simp add: pow2_def rne_def)

lemma pnl_rd_12: "rd (213358009828679175 / 4503599627370496) = 416714862946639 / 8796093022208"
  using rd_eval [of "- 47" "213358009828679175 / 4503599627370496"] by (simp add: pow2_def rne_def)

lemma pnl_rd_13: "rd (4737 / 100) = 6666734823391887 / 140737488355328"
  using rd_eval [of "- 47" "4737 / 100"] by (simp add: pow2_def rne_def)

lemma pnl_rd_14: "rd (29474999 / 200000) = 1296324165167439 / 8796093022208"
  using rd_eval [of "- 45" "29474999 / 200000"] by (simp add: pow2_def rne_def)

lemma pnl_rd_15: "rd (1 / 50) = 5764607523034235 / 288230376151711744"
  using rd_eval [of "- 58" "1 / 50"] by (simp add: pow2_def rne_def)

lemma pnl_rd_16: "rd (6796472269657363065 / 2305843009213693952) = 6637179950837269 / 2251799813685248"
  using rd_eval [of "- 51" "6796472269657363065 / 2305843009213693952"] by (simp add: pow2_def rne_def)

lemma pnl_rd_17: "rd (325221817591026155 / 2251799813685248) = 635198862482473 / 4398046511104"
  using rd_eval [of "- 45" "325221817591026155 / 2251799813685248"] by (simp add: pow2_def rne_def)

lemma pnl_rd_18: "rd (170509890398205828175631 / 1180591620717411303424) = 1270397680984481 / 8796093022208"
  using rd_eval [of "- 45" "170509890398205828175631 / 1180591620717411303424"] by (simp add: pow2_def rne_def)

lemma pnl_rd_19: "rd (390788378763681 / 8796093022208) = 390788378763681 / 8796093022208"
  using rd_eval [of "- 47" "390788378763681 / 8796093022208"] by (simp add: pow2_def rne_def)

lemma pnl_rd_20: "rd (390788378763681 / 879609302220800) = 8003345997080187 / 18014398509481984"
  using rd_eval [of "- 54" "390788378763681 / 879609302220800"] by (simp add: pow2_def rne_def)

lemma pnl_rd_21: "rd (200083649927004675 / 4503599627370496) = 390788378763681 / 8796093022208"
  using rd_eval [of "- 47" "200083649927004675 / 4503599627370496"] by (simp add: pow2_def rne_def)

lemma pnl_rd_22: "rd (4443 / 100) = 6252966607627223 / 140737488355328"
  using rd_eval [of "- 47" "4443 / 100"] by (simp add: pow2_def rne_def)

lemma pnl_rd_23: "rd (28885499 / 200000) = 5081590723937923 / 35184372088832"
  using rd_eval [of "- 45" "28885499 / 200000"] by (simp add: pow2_def rne_def)

lemma pnl_rd_24: "rd (1 / 100) = 5764607523034235 / 576460752303423488"
  using rd_eval [of "- 59" "1 / 100"] by (simp add: pow2_def rne_def)

lemma pnl_rd_25: "rd (432345564227567625 / 288230376151711744) = 3 / 2"
  using rd_eval [of "- 52" "432345564227567625 / 288230376151711744"] by (simp add: pow2_def rne_def)

lemma pnl_rd_26: "rd (297 / 2) = 297 / 2"
  using rd_eval [of "- 45" "297 / 2"] by (simp add: pow2_def rne_def)

lemma pnl_rd_27: "rd (175317849773577474971407 / 1180591620717411303424) = 1306219769817423 / 8796093022208"
  using rd_eval [of "- 45" "175317849773577474971407 / 1180591620717411303424"] by (simp add: pow2_def rne_def)

lemma pnl_rd_28: "rd (426610467596623 / 8796093022208) = 426610467596623 / 8796093022208"
  using rd_eval [of "- 47" "426610467596623 / 8796093022208"] by (simp add: pow2_def rne_def)

lemma pnl_rd_29: "rd (426610467596623 / 879609302220800) = 8736982376378839 / 18014398509481984"
  using rd_eval [of "- 54" "426610467596623 / 879609302220800"] by (simp add: pow2_def rne_def)

lemma pnl_rd_30: "rd (218424559409470975 / 4503599627370496) = 426610467596623 / 8796093022208"
  using rd_eval [of "- 47" "218424559409470975 / 4503599627370496"] by (simp add: pow2_def rne_def)

lemma pnl_rd_31: "rd (97 / 2) = 97 / 2"
  using rd_eval [of "- 47" "97 / 2"] by (simp add: pow2_def rne_def)

lemma pnl_rd_32: "rd (29699999 / 200000) = 1306219769817423 / 8796093022208"
  using rd_eval [of "- 45" "29699999 / 200000"] by (simp add: pow2_def rne_def)

lemma pnl_rd_33: "rd (58944103 / 400000) = 324048633186631 / 2199023255552"
  using rd_eval [of "- 45" "58944103 / 400000"] by (simp add: pow2_def rne_def)

lemma pnl_rd_34: "rd (70796586142264197 / 72057594037927936) = 8849573267783025 / 9007199254740992"
  using rd_eval [of "- 53" "70796586142264197 / 72057594037927936"] by (simp add: pow2_def rne_def)

lemma pnl_rd_35: "rd (663717995083726875 / 4503599627370496) = 1179 / 8"
  using rd_eval [of "- 45" "663717995083726875 / 4503599627370496"] by (simp add: pow2_def rne_def)

lemma pnl_rd_36: "rd (379 / 8) = 379 / 8"
  using rd_eval [of "- 47" "379 / 8"] by (simp add: pow2_def rne_def)

lemma pnl_rd_37: "rd (379 / 800) = 4267160646933545 / 9007199254740992"
  using rd_eval [of "- 54" "379 / 800"] by (simp add: pow2_def rne_def)

lemma pnl_rd_38: "rd (106679016173338625 / 2251799813685248) = 379 / 8"
  using rd_eval [of "- 47" "106679016173338625 / 2251799813685248"] by (simp add: pow2_def rne_def)

lemmas pnl_rd = pnl_rd_1 pnl_rd_2 pnl_rd_3 pnl_rd_4 pnl_rd_5 pnl_rd_6 pnl_rd_7 pnl_rd_8 pnl_rd_9 pnl_rd_10 pnl_rd_11 pnl_rd_12 pnl_rd_13 pnl_rd_14 pnl_rd_15 pnl_rd_16 pnl_rd_17 pnl_rd_18 pnl_rd_19 pnl_rd_20 pnl_rd_21 pnl_rd_22 pnl_rd_23 pnl_rd_24 pnl_rd_25 pnl_rd_26 pnl_rd_27 pnl_rd_28 pnl_rd_29 pnl_rd_30 pnl_rd_31 pnl_rd_32 pnl_rd_33 pnl_rd_34 pnl_rd_35 pnl_rd_36 pnl_rd_37 pnl_rd_38

lemmas pnl_eval = exampleTrade_def falsyVal_def toNumber_def withDefault_def
      feeTotals_def dbl_def fl_def js_le_def js_gt_def f_sub_def f_neg_def f_abs_def
      toFixedN_def toFixed_def pow2_1024 rd_0 pnl_rd

lemma calculatePnL_example:
  "map_sum id pnlPercent (calculatePnL exampleTrade) = Inr (dbl 47.37)"
  by (simp add: calculatePnL_def pnl_eval Let_def)

text \<open>
  The basic variant on the same example, with 1.75% passed as the fee of each side: the
  sell fee is the only deduction, and the result is not rounded.
\<close>

lemma calculatePnL_basic_example:
  "map_sum id b_pnlPercent
     (calculatePnL_basic exampleTrade
        (Val \<lparr> buyFee = Val (dbl 0.0175), sellFee = Val (dbl 0.0175) \<rparr>)) = Inr (Num 47.375)"
  by (simp add: calculatePnL_basic_def nullish_def pnl_eval Let_def)

text \<open>
  Claim C3, as the code has it, in the double arithmetic of the program. For every trade
  that \<open>calculatePnL\<close> accepts the proceeds are reduced in this order: the gross value is
  quantity times exit price; the sell-side fee of the venue (1.75% for \<^verbatim>\<open>pumpportal\<close> or
  a missing executor, 0.3% for \<^verbatim>\<open>jupiter\<close>, 1% for any other value, \<^verbatim>\<open>null\<close> included) is
  taken off the gross value; slippage is taken off the value after the fee, but only when
  its magnitude exceeds 0.0001, and is skipped otherwise; the network fee (0.000005 when
  missing) plus the priority fee is taken off last; \<open>pnlPercent\<close> is
  \<open>(netReceived - solSpent) / solSpent * 100\<close> rounded to two decimals. On finite values no
  step raises the proceeds (the last one provided the two fixed fees are not negative).
  A trade whose four required fields are positive numbers is accepted unless its network
  fee is \<^verbatim>\<open>null\<close>, for which the function throws. On the example of the specification the
  result is 47.37, the two-decimal rounding of the value that the fee order gives in
  exact arithmetic.
\<close>

theorem calculatePnL_fee_order:
  "(calculatePnL t = Inr r \<longrightarrow>
      bd_grossValue r = f_mul (toNumber (tokenAmount t)) (toNumber (exitPrice t)) \<and>
      bd_sellFeePercent r =
        (if executor t = Undefined \<or> executor t = Val ''pumpportal'' then dbl 0.0175
         else if executor t = Val ''jupiter'' then dbl 0.003 else dbl 0.01) \<and>
      bd_valueAfterSellFee r =
        f_sub (bd_grossValue r) (f_mul (bd_grossValue r) (bd_sellFeePercent r)) \<and>
      bd_valueAfterSlippage r =
        (if js_gt (f_abs (toNumber (withDefault (slippage t) (Num 0)))) (rd 0.0001)
         then f_sub (bd_valueAfterSellFee r)
                (f_mul (bd_valueAfterSellFee r)
                   (f_abs (toNumber (withDefault (slippage t) (Num 0)))))
         else bd_valueAfterSellFee r) \<and>
      bd_netReceived r =
        f_sub (bd_valueAfterSlippage r)
          (f_add (toNumber (withDefault (networkFee t) (dbl 0.000005)))
                 (toNumber (withDefault (priorityFee t) (Num 0)))) \<and>
      pnlPercent r =
        toFixedN 2 (f_mul (f_div (f_sub (bd_netReceived r) (toNumber (solSpent t)))
                             (toNumber (solSpent t))) (Num 100)) \<and>
      (bd_grossValue r = Num g \<and> bd_valueAfterSellFee r = Num a \<longrightarrow> a \<le> g) \<and>
      (bd_valueAfterSellFee r = Num a \<and> bd_valueAfterSlippage r = Num b \<longrightarrow> b \<le> a) \<and>
      (bd_valueAfterSlippage r = Num b \<and> bd_netReceived r = Num c \<and>
       toNumber (withDefault (networkFee t) (dbl 0.000005)) = Num n \<and> 0 \<le> n \<and>
       toNumber (withDefault (priorityFee t) (Num 0)) = Num p \<and> 0 \<le> p \<longrightarrow> c \<le> b)) \<and>
   (\<not> falsyVal (entryPrice t) \<and> \<not> falsyVal (exitPrice t) \<and> \<not> falsyVal (tokenAmount t) \<and>
    \<not> falsyVal (solSpent t) \<and> js_gt (toNumber (entryPrice t)) 0 \<and>
    js_gt (toNumber (exitPrice t)) 0 \<and> js_gt (toNumber (tokenAmount t)) 0 \<and>
    js_gt (toNumber (solSpent t)) 0 \<longrightarrow>
      (networkFee t \<noteq> Null \<longrightarrow> (\<exists>r'. calculatePnL t = Inr r')) \<and>
      (networkFee t = Null \<longrightarrow> calculatePnL t = Inl TypeError)) \<and>
   map_sum id pnlPercent (calculatePnL exampleTrade) = Inr (dbl 47.37) \<and>
   toFixed 2 ((spec_netReceived 1000000 0.00015 0.0175 0 0.000005 0 - 100) / 100 * 100) = 47.37"
proof (intro conjI impI)
  assume c: "calculatePnL t = Inr r"
  note f = calculatePnL_fields [OF c]
  note v = calculatePnL_valid [OF c]
  show "bd_grossValue r = f_mul (toNumber (tokenAmount t)) (toNumber (exitPrice t))"
    by (rule f(1))
  show "bd_sellFeePercent r =
        (if executor t = Undefined \<or> executor t = Val ''pumpportal'' then dbl 0.0175
         else if executor t = Val ''jupiter'' then dbl 0.003 else dbl 0.01)"
    using f(2) by (cases "executor t") (simp_all add: feeTotals_def withDefault_def)
  show "bd_valueAfterSellFee r =
        f_sub (bd_grossValue r) (f_mul (bd_grossValue r) (bd_sellFeePercent r))"
    by (rule f(3))
  show "bd_valueAfterSlippage r =
        (if js_gt (f_abs (toNumber (withDefault (slippage t) (Num 0)))) (rd 0.0001)
         then f_sub (bd_valueAfterSellFee r)
                (f_mul (bd_valueAfterSellFee r)
                   (f_abs (toNumber (withDefault (slippage t) (Num 0)))))
         else bd_valueAfterSellFee r)"
    by (rule f(4))
  show "bd_netReceived r =
        f_sub (bd_valueAfterSlippage r)
          (f_add (toNumber (withDefault (networkFee t) (dbl 0.000005)))
                 (toNumber (withDefault (priorityFee t) (Num 0))))"
    by (rule f(5))
  show "pnlPercent r =
        toFixedN 2 (f_mul (f_div (f_sub (bd_netReceived r) (toNumber (solSpent t)))
                             (toNumber (solSpent t))) (Num 100))"
    by (rule f(6))
  from feeTotals_range [of "withDefault (executor t) ''pumpportal''"] f(2)
  obtain fee where fee: "bd_sellFeePercent r = Num fee" "0 \<le> fee" "fee \<le> 1" by auto
  {
    fix g' a'
    assume ga: "bd_grossValue r = Num g'" "bd_valueAfterSellFee r = Num a'"
    from gross_nonneg [OF v(5) v(8)] f(1) ga(1) have g: "0 \<le> g'" "rd g' = g'" by simp_all
    from f(3) ga fee(1) have "f_sub (Num g') (f_mul (Num g') (Num fee)) = Num a'" by simp
    from fee_step [OF g fee(2,3) this] have "0 \<le> a' \<and> a' \<le> g' \<and> rd a' = a'" .
  }
  note step1 = this
  show "a \<le> g" if "bd_grossValue r = Num g \<and> bd_valueAfterSellFee r = Num a"
    using step1 [of g a] that by simp
  have a_ok: "0 \<le> a' \<and> rd a' = a'" if "bd_valueAfterSellFee r = Num a'" for a'
  proof -
    from f(3) that
    have "f_sub (bd_grossValue r) (f_mul (bd_grossValue r) (bd_sellFeePercent r)) = Num a'"
      by simp
    then obtain x where "bd_grossValue r = Num x" by (rule f_sub_Num)
    from step1 [OF this that] show ?thesis by simp
  qed
  {
    fix a' b'
    assume ab: "bd_valueAfterSellFee r = Num a'" "bd_valueAfterSlippage r = Num b'"
    have "b' \<le> a' \<and> rd b' = b'"
    proof (cases "js_gt (f_abs (toNumber (withDefault (slippage t) (Num 0)))) (rd 0.0001)")
      case True
      with f(4) ab have "f_sub (Num a')
          (f_mul (Num a') (f_abs (toNumber (withDefault (slippage t) (Num 0))))) = Num b'"
        by simp
      with a_ok [OF ab(1)] show ?thesis using slip_step by blast
    next
      case False
      with f(4) ab have "b' = a'" by simp
      with a_ok [OF ab(1)] show ?thesis by simp
    qed
  }
  note step2 = this
  show "b \<le> a" if "bd_valueAfterSellFee r = Num a \<and> bd_valueAfterSlippage r = Num b"
    using step2 [of a b] that by simp
  show "c \<le> b"
    if h: "bd_valueAfterSlippage r = Num b \<and> bd_netReceived r = Num c \<and>
       toNumber (withDefault (networkFee t) (dbl 0.000005)) = Num n \<and> 0 \<le> n \<and>
       toNumber (withDefault (priorityFee t) (Num 0)) = Num p \<and> 0 \<le> p"
  proof -
    have "rd b = b"
    proof (cases "js_gt (f_abs (toNumber (withDefault (slippage t) (Num 0)))) (rd 0.0001)")
      case True
      with f(4) h
      have "f_sub (bd_valueAfterSellFee r)
              (f_mul (bd_valueAfterSellFee r)
                 (f_abs (toNumber (withDefault (slippage t) (Num 0))))) = Num b"
        by simp
      then obtain x where "bd_valueAfterSellFee r = Num x" by (rule f_sub_Num)
      from step2 [OF this] h show ?thesis by simp
    next
      case False
      with f(4) h have "bd_valueAfterSellFee r = Num b" by simp
      from a_ok [OF this] show ?thesis by simp
    qed
    moreover from f(5) h have "f_sub (Num b) (f_add (Num n) (Num p)) = Num c" by simp
    ultimately show ?thesis using h net_step by blast
  qed
next
  assume h: "\<not> falsyVal (entryPrice t) \<and> \<not> falsyVal (exitPrice t) \<and> \<not> falsyVal (tokenAmount t) \<and>
    \<not> falsyVal (solSpent t) \<and> js_gt (toNumber (entryPrice t)) 0 \<and>
    js_gt (toNumber (exitPrice t)) 0 \<and> js_gt (toNumber (tokenAmount t)) 0 \<and>
    js_gt (toNumber (solSpent t)) 0"
  have gt: "js_gt x 0 \<Longrightarrow> \<not> js_le x 0" for x
    by (cases x) (simp_all add: js_gt_def js_le_def)
  show "\<exists>r'. calculatePnL t = Inr r'" if "networkFee t \<noteq> Null"
    using h that gt by (intro calculatePnL_accepts) simp_all
  show "calculatePnL t = Inl TypeError" if "networkFee t = Null"
    using h that gt unfolding calculatePnL_def Let_def by (simp add: withDefault_def)
next
  show "map_sum id pnlPercent (calculatePnL exampleTrade) = Inr (dbl 47.37)"
    by (rule calculatePnL_example)
  show "toFixed 2 ((spec_netReceived 1000000 0.00015 0.0175 0 0.000005 0 - 100) / 100 * 100) = 47.37"
    by (simp add: spec_netReceived_def toFixed_def)
qed

text \<open>
  The theorem at the example trade with 2% slippage, where every step is taken, with the
  figures of the breakdown and of the result; with the executor \<^verbatim>\<open>null\<close>, charged 1%; and
  with the network fee \<^verbatim>\<open>null\<close>.
\<close>

theorem calculatePnL_fee_order_witness:
  "bd_grossValue (projr (calculatePnL (exampleTrade \<lparr> slippage := Val (dbl 0.02) \<rparr>))) = Num 150 \<and>
   bd_valueAfterSellFee (projr (calculatePnL (exampleTrade \<lparr> slippage := Val (dbl 0.02) \<rparr>))) =
     Num 147.375 \<and>
   bd_valueAfterSlippage (projr (calculatePnL (exampleTrade \<lparr> slippage := Val (dbl 0.02) \<rparr>))) =
     Num (635198862482473 / 2 ^ 42) \<and>
   bd_netReceived (projr (calculatePnL (exampleTrade \<lparr> slippage := Val (dbl 0.02) \<rparr>))) =
     Num (1270397680984481 / 2 ^ 43) \<and>
   (1270397680984481 / 2 ^ 43 :: real) \<le> 635198862482473 / 2 ^ 42 \<and>
   (635198862482473 / 2 ^ 42 :: real) \<le> 147.375 \<and> (147.375 :: real) \<le> 150 \<and>
   pnlPercent (projr (calculatePnL (exampleTrade \<lparr> slippage := Val (dbl 0.02) \<rparr>))) = dbl 44.43 \<and>
   bd_sellFeePercent (projr (calculatePnL (exampleTrade \<lparr> executor := Null \<rparr>))) = dbl 0.01 \<and>
   pnlPercent (projr (calculatePnL (exampleTrade \<lparr> executor := Null \<rparr>))) = dbl 48.5 \<and>
   calculatePnL (exampleTrade \<lparr> networkFee := Null \<rparr>) = Inl TypeError"
proof -
  let ?t = "exampleTrade \<lparr> slippage := Val (dbl 0.02) \<rparr>"
  let ?u = "exampleTrade \<lparr> executor := Null \<rparr>"
  let ?w = "exampleTrade \<lparr> networkFee := Null \<rparr>"
  let ?a = "147.375 :: real"
  let ?b = "635198862482473 / 2 ^ 42 :: real"
  let ?c = "1270397680984481 / 2 ^ 43 :: real"
  let ?n = "rd 0.000005"
  have ok: "\<not> falsyVal (entryPrice x) \<and> \<not> falsyVal (exitPrice x) \<and> \<not> falsyVal (tokenAmount x) \<and>
    \<not> falsyVal (solSpent x) \<and> js_gt (toNumber (entryPrice x)) 0 \<and>
    js_gt (toNumber (exitPrice x)) 0 \<and> js_gt (toNumber (tokenAmount x)) 0 \<and>
    js_gt (toNumber (solSpent x)) 0" if "x = ?t \<or> x = ?u \<or> x = ?w" for x
    using that by (auto simp add: pnl_eval)
  have nn: "networkFee ?t \<noteq> Null" "networkFee ?u \<noteq> Null" "networkFee ?w = Null"
    by (simp_all add: exampleTrade_def)
  from calculatePnL_fee_order [of ?t] ok [of ?t] nn(1)
  obtain r where r: "calculatePnL ?t = Inr r" by blast
  note T = calculatePnL_fee_order [of ?t r 150 ?a ?b ?c ?n 0]
  from T r have "bd_grossValue r = f_mul (toNumber (tokenAmount ?t)) (toNumber (exitPrice ?t))"
    by blast
  then have 1: "bd_grossValue r = Num 150" by (simp add: pnl_eval)
  from T r have "bd_sellFeePercent r =
        (if executor ?t = Undefined \<or> executor ?t = Val ''pumpportal'' then dbl 0.0175
         else if executor ?t = Val ''jupiter'' then dbl 0.003 else dbl 0.01)"
    by blast
  then have 2: "bd_sellFeePercent r = dbl 0.0175" by (simp add: exampleTrade_def)
  from T r have "bd_valueAfterSellFee r =
        f_sub (bd_grossValue r) (f_mul (bd_grossValue r) (bd_sellFeePercent r))"
    by blast
  then have 3: "bd_valueAfterSellFee r = Num ?a" unfolding 1 2 by (simp add: pnl_eval)
  from T r have "bd_valueAfterSlippage r =
        (if js_gt (f_abs (toNumber (withDefault (slippage ?t) (Num 0)))) (rd 0.0001)
         then f_sub (bd_valueAfterSellFee r)
                (f_mul (bd_valueAfterSellFee r)
                   (f_abs (toNumber (withDefault (slippage ?t) (Num 0)))))
         else bd_valueAfterSellFee r)"
    by blast
  then have 4: "bd_valueAfterSlippage r = Num ?b" unfolding 3 by (simp add: pnl_eval)
  from T r have "bd_netReceived r =
        f_sub (bd_valueAfterSlippage r)
          (f_add (toNumber (withDefault (networkFee ?t) (dbl 0.000005)))
                 (toNumber (withDefault (priorityFee ?t) (Num 0))))"
    by blast
  then have 5: "bd_netReceived r = Num ?c" unfolding 4 by (simp add: pnl_eval)
  from T r have "pnlPercent r =
        toFixedN 2 (f_mul (f_div (f_sub (bd_netReceived r) (toNumber (solSpent ?t)))
                             (toNumber (solSpent ?t))) (Num 100))"
    by blast
  then have 6: "pnlPercent r = dbl 44.43" unfolding 5 by (simp add: pnl_eval)
  from T r 1 3 have 7: "?a \<le> 150" by blast
  from T r 3 4 have 8: "?b \<le> ?a" by blast
  have f: "toNumber (withDefault (networkFee ?t) (dbl 0.000005)) = Num ?n \<and> 0 \<le> ?n \<and>
       toNumber (withDefault (priorityFee ?t) (Num 0)) = Num 0 \<and> (0::real) \<le> 0"
    by (simp add: pnl_eval)
  from T r 4 5 f have 9: "?c \<le> ?b" by blast
  from calculatePnL_fee_order [of ?u] ok [of ?u] nn(2)
  obtain q where q: "calculatePnL ?u = Inr q" by blast
  note U = calculatePnL_fee_order [of ?u q]
  from U q have "bd_sellFeePercent q =
        (if executor ?u = Undefined \<or> executor ?u = Val ''pumpportal'' then dbl 0.0175
         else if executor ?u = Val ''jupiter'' then dbl 0.003 else dbl 0.01)"
    by blast
  then have 10: "bd_sellFeePercent q = dbl 0.01" by (simp add: exampleTrade_def)
  from U q have g: "bd_grossValue q = f_mul (toNumber (tokenAmount ?u)) (toNumber (exitPrice ?u))"
    and a: "bd_valueAfterSellFee q =
        f_sub (bd_grossValue q) (f_mul (bd_grossValue q) (bd_sellFeePercent q))"
    and b: "bd_valueAfterSlippage q =
        (if js_gt (f_abs (toNumber (withDefault (slippage ?u) (Num 0)))) (rd 0.0001)
         then f_sub (bd_valueAfterSellFee q)
                (f_mul (bd_valueAfterSellFee q)
                   (f_abs (toNumber (withDefault (slippage ?u) (Num 0)))))
         else bd_valueAfterSellFee q)"
    and c: "bd_netReceived q =
        f_sub (bd_valueAfterSlippage q)
          (f_add (toNumber (withDefault (networkFee ?u) (dbl 0.000005)))
                 (toNumber (withDefault (priorityFee ?u) (Num 0))))"
    and p: "pnlPercent q =
        toFixedN 2 (f_mul (f_div (f_sub (bd_netReceived q) (toNumber (solSpent ?u)))
                             (toNumber (solSpent ?u))) (Num 100))"
    by blast+
  from g have g': "bd_grossValue q = Num 150" by (simp add: pnl_eval)
  from a have a': "bd_valueAfterSellFee q = Num 148.5" unfolding g' 10 by (simp add: pnl_eval)
  from b have b': "bd_valueAfterSlippage q = Num 148.5" unfolding a' by (simp add: pnl_eval)
  from c have c': "bd_netReceived q = Num (1306219769817423 / 2 ^ 43)" unfolding b'
    by (simp add: pnl_eval)
  from p have 11: "pnlPercent q = dbl 48.5" unfolding c' by (simp add: pnl_eval)
  from calculatePnL_fee_order [of ?w] ok [of ?w] nn(3)
  have 12: "calculatePnL ?w = Inl TypeError" by blast
  have 13: "projr (calculatePnL ?t) = r" "projr (calculatePnL ?u) = q" using r q by simp_all
  show ?thesis unfolding 13 using 1 3 4 5 6 7 8 9 10 11 12 by blast
qed

text \<open>
  The claim as the specification words it fails for a slippage of 0.0001: the fee order
  of the specification leaves 147.3602575 for the example trade, the code 147.374995,
  since it skips a slippage of that size.
\<close>

theorem calculatePnL_fee_order_counterexample:
  "map_sum id bd_netReceived
     (calculatePnL (exampleTrade \<lparr> slippage := Val (dbl 0.0001) \<rparr>)) = Inr (dbl 147.374995) \<and>
   spec_netReceived 1000000 0.00015 0.0175 0.0001 0.000005 0 = 147.3602575 \<and>
   dbl 147.374995 \<noteq> dbl 147.3602575"
  by (simp add: calculatePnL_def pnl_eval spec_netReceived_def Let_def)

section \<open>Properties of the exit decision\<close>








section \<open>Properties of the anti-rebuy guard\<close>

lemma scanTrades_iff:
  "scanTrades cfg now mint w es =
     (\<exists>t. TradeJson t \<in> set es \<and> isRecentMatch cfg now mint w t)"
  by (induction cfg now mint w es rule: scanTrades.induct) auto

lemma scanDays_healthy:
  "\<forall>d \<in> set days. lrange_trades st d = Inr (hist d) \<Longrightarrow>
     scanDays st cfg now mint w days =
       Inr (\<exists>d \<in> set days. scanTrades cfg now mint w (hist d))"
  by (induction days) auto

lemma scanDays_throws:
  "\<forall>d \<in> set ds. \<exists>ts. lrange_trades st d = Inr ts \<and> \<not> scanTrades cfg now mint w ts \<Longrightarrow>
   lrange_trades st i = Inl e \<Longrightarrow>
     scanDays st cfg now mint w (ds @ i # rest) = Inl e"
  by (induction ds) auto

lemma week_split:
  assumes "1 \<le> i" "i \<le> 7"
  shows "[1, 2, 3, 4, 5, 6, 7] = [1..<i] @ i # [Suc i..<8]"
proof -
  have "i = 1 \<or> i = 2 \<or> i = 3 \<or> i = 4 \<or> i = 5 \<or> i = 6 \<or> i = 7"
    using assms by arith
  then show ?thesis by (elim disjE) (simp_all add: upt_rec)
qed

lemma days_upto_7:
  "(\<exists>d \<le> (7::nat). P d) = (P 0 \<or> (\<exists>d \<in> set [1, 2, 3, 4, 5, 6, 7]. P d))"
proof -
  have "{d. d \<le> (7::nat)} = {0} \<union> set [1, 2, 3, 4, 5, 6, 7]" by auto
  then show ?thesis by (metis (no_types, lifting) Un_iff mem_Collect_eq singletonD singletonI)
qed

lemma isRebuySignal_healthy:
  assumes "w \<noteq> []" and "storeAnswers st mint b h hist"
  shows "isRebuySignal st cfg now mint (Some w) =
           ((b \<and> h ''walletSource'' = Some w) \<or>
            (\<exists>d \<le> 7. \<exists>t. TradeJson t \<in> set (hist d) \<and> isRecentMatch cfg now mint w t))"
proof -
  have o: "openFromWallet st mint w = Inr (b \<and> h ''walletSource'' = Some w)"
    using assms(2) by (simp add: openFromWallet_def storeAnswers_def)
  have t: "lrange_trades st 0 = Inr (hist 0)" using assms(2) by (simp add: storeAnswers_def)
  have d: "scanDays st cfg now mint w [1, 2, 3, 4, 5, 6, 7] =
       Inr (\<exists>d \<in> set [1, 2, 3, 4, 5, 6, 7]. scanTrades cfg now mint w (hist d))"
    by (rule scanDays_healthy) (use assms(2) in \<open>simp add: storeAnswers_def\<close>)
  have "isRebuySignal st cfg now mint (Some w) =
          ((b \<and> h ''walletSource'' = Some w) \<or> scanTrades cfg now mint w (hist 0) \<or>
           (\<exists>d \<in> set [1, 2, 3, 4, 5, 6, 7]. scanTrades cfg now mint w (hist d)))"
    using assms(1)
    by (simp add: isRebuySignal_def isRebuySignal_try_def o t d
        del: scanDays.simps One_nat_def set_simps split: bool.splits) blast
  also have "\<dots> = ((b \<and> h ''walletSource'' = Some w) \<or>
            (\<exists>d \<le> 7. scanTrades cfg now mint w (hist d)))"
    unfolding days_upto_7 [where P = "\<lambda>d. scanTrades cfg now mint w (hist d)"] ..
  finally show ?thesis by (simp add: scanTrades_iff)
qed

lemma shouldCopy_rebuy:
  assumes "blockRebuys cfg" and "isRebuySignal st cfg now (s_mint sig) (s_walletAddress sig)"
  shows "\<not> copy (shouldCopy st cfg env now sig)"
    and "dryRun env \<or> minWalletsToBuy cfg \<le> s_upvotes sig \<Longrightarrow>
           shouldCopy st cfg env now sig = reject rebuy_blocked"
  using assms by (auto simp: shouldCopy_def reject_def)

lemma shouldCopy_no_rebuy:
  assumes "\<not> isRebuySignal st cfg now (s_mint sig) (s_walletAddress sig)"
  shows "reason (shouldCopy st cfg env now sig) \<noteq> Some rebuy_blocked"
  using assms
  by (auto simp: shouldCopy_def reject_def split: sum.splits)

text \<open>
  Claim C8. When the store answers the lookups, the rebuy check is true exactly when the
  open position of the mint is sourced from the wallet, or one of the history lists of
  today and of the seven days before holds a record of the same mint and wallet closed
  less than \<open>rebuyWindow\<close> seconds ago; no older list is read. With a window of 300
  seconds and rebuy blocking on, a signal for a pair with a record closed 30 seconds ago
  is never copied, and the reason given is \<open>rebuy_blocked\<close> once the signal has passed
  the check of corroborating wallets that comes first (always in paper mode). When the
  records of the pair were all closed 400 seconds ago and no open position is sourced
  from the wallet, the check is false and the signal is not rejected as a rebuy.
\<close>

theorem rebuy_window_block:
  "(w \<noteq> [] \<and> storeAnswers st mint b h hist \<longrightarrow>
      isRebuySignal st cfg now mint (Some w) =
        ((b \<and> h ''walletSource'' = Some w) \<or>
         (\<exists>d \<le> 7. \<exists>t. TradeJson t \<in> set (hist d) \<and> ct_mint t = Some mint \<and>
            ct_walletSource t = Some w \<and>
            now - orDefault (ct_closedAt t) 0 < rebuyWindow cfg * 1000))) \<and>
   (w \<noteq> [] \<and> storeAnswers st mint b h hist \<and> rebuyWindow cfg = 300 \<and> blockRebuys cfg \<and>
    s_mint sig = mint \<and> s_walletAddress sig = Some w \<and> d \<le> 7 \<and>
    TradeJson \<lparr> ct_mint = Some mint, ct_walletSource = Some w,
                ct_closedAt = Some (now - 30000) \<rparr> \<in> set (hist d) \<longrightarrow>
      \<not> copy (shouldCopy st cfg env now sig) \<and>
      (dryRun env \<or> minWalletsToBuy cfg \<le> s_upvotes sig \<longrightarrow>
         shouldCopy st cfg env now sig = reject rebuy_blocked)) \<and>
   (w \<noteq> [] \<and> storeAnswers st mint b h hist \<and> rebuyWindow cfg = 300 \<and>
    s_mint sig = mint \<and> s_walletAddress sig = Some w \<and>
    \<not> (b \<and> h ''walletSource'' = Some w) \<and>
    (\<forall>d \<le> 7. \<forall>t. TradeJson t \<in> set (hist d) \<and> ct_mint t = Some mint \<and>
        ct_walletSource t = Some w \<longrightarrow> ct_closedAt t = Some (now - 400000)) \<longrightarrow>
      \<not> isRebuySignal st cfg now mint (Some w) \<and>
      reason (shouldCopy st cfg env now sig) \<noteq> Some rebuy_blocked)"
proof (intro conjI impI)
  assume a: "w \<noteq> [] \<and> storeAnswers st mint b h hist"
  then show "isRebuySignal st cfg now mint (Some w) =
        ((b \<and> h ''walletSource'' = Some w) \<or>
         (\<exists>d \<le> 7. \<exists>t. TradeJson t \<in> set (hist d) \<and> ct_mint t = Some mint \<and>
            ct_walletSource t = Some w \<and>
            now - orDefault (ct_closedAt t) 0 < rebuyWindow cfg * 1000))"
    using isRebuySignal_healthy [of w st mint b h hist cfg now]
    by (simp add: isRecentMatch_def)
next
  assume a: "w \<noteq> [] \<and> storeAnswers st mint b h hist \<and> rebuyWindow cfg = 300 \<and> blockRebuys cfg \<and>
    s_mint sig = mint \<and> s_walletAddress sig = Some w \<and> d \<le> 7 \<and>
    TradeJson \<lparr> ct_mint = Some mint, ct_walletSource = Some w,
                ct_closedAt = Some (now - 30000) \<rparr> \<in> set (hist d)"
  let ?t = "\<lparr> ct_mint = Some mint, ct_walletSource = Some w, ct_closedAt = Some (now - 30000) \<rparr>"
  have m: "isRecentMatch cfg now mint w ?t"
    using a by (simp add: isRecentMatch_def orDefault_def)
  have r: "isRebuySignal st cfg now (s_mint sig) (s_walletAddress sig)"
    using a m isRebuySignal_healthy [of w st mint b h hist cfg now] by auto
  from a r show "\<not> copy (shouldCopy st cfg env now sig)"
    using shouldCopy_rebuy(1) by blast
  from a r show "shouldCopy st cfg env now sig = reject rebuy_blocked"
    if "dryRun env \<or> minWalletsToBuy cfg \<le> s_upvotes sig"
    using that shouldCopy_rebuy(2) by blast
next
  assume a: "w \<noteq> [] \<and> storeAnswers st mint b h hist \<and> rebuyWindow cfg = 300 \<and>
    s_mint sig = mint \<and> s_walletAddress sig = Some w \<and>
    \<not> (b \<and> h ''walletSource'' = Some w) \<and>
    (\<forall>d \<le> 7. \<forall>t. TradeJson t \<in> set (hist d) \<and> ct_mint t = Some mint \<and>
        ct_walletSource t = Some w \<longrightarrow> ct_closedAt t = Some (now - 400000))"
  have n: "\<not> isRecentMatch cfg now mint w t" if "d \<le> 7" "TradeJson t \<in> set (hist d)" for d t
  proof
    assume i: "isRecentMatch cfg now mint w t"
    then have "ct_closedAt t = Some (now - 400000)"
      using a that by (simp add: isRecentMatch_def)
    with i a show False by (simp add: isRecentMatch_def orDefault_def)
  qed
  show r: "\<not> isRebuySignal st cfg now mint (Some w)"
    using a n isRebuySignal_healthy [of w st mint b h hist cfg now] by blast
  with a show "reason (shouldCopy st cfg env now sig) \<noteq> Some rebuy_blocked"
    using shouldCopy_no_rebuy [of st cfg now sig env] by simp
qed

text \<open>
  The theorem at the default configuration (window 300 s) in paper mode: a record closed
  at 70 s is a re-buy at 100 s and blocks the signal; a record closed at 0 s does not block
  one at 400 s.
\<close>

theorem rebuy_window_block_witness:
  "isRebuySignal (storeWithClose 70000) defaultConfig 100000 ''X'' (Some ''W'') = True \<and>
   shouldCopy (storeWithClose 70000) defaultConfig paperEnv 100000 signalXW =
     reject rebuy_blocked \<and>
   copy (shouldCopy (storeWithClose 70000) defaultConfig paperEnv 100000 signalXW) = False \<and>
   isRebuySignal (storeWithClose 0) defaultConfig 400000 ''X'' (Some ''W'') = False \<and>
   reason (shouldCopy (storeWithClose 0) defaultConfig paperEnv 400000 signalXW) \<noteq>
     Some rebuy_blocked"
proof -
  have s: "storeAnswers (storeWithClose c) ''X'' False Map.empty (historyWithClose c)" for c
    by (simp add: storeAnswers_def storeWithClose_def emptyStore_def)
  have h0: "''W'' \<noteq> [] \<and>
      storeAnswers (storeWithClose 70000) ''X'' False Map.empty (historyWithClose 70000)"
    using s by simp
  have m: "\<exists>d \<le> 7. \<exists>t. TradeJson t \<in> set (historyWithClose 70000 d) \<and> ct_mint t = Some ''X'' \<and>
            ct_walletSource t = Some ''W'' \<and>
            100000 - orDefault (ct_closedAt t) 0 < rebuyWindow defaultConfig * 1000"
    by (rule exI [of _ 0])
      (simp add: historyWithClose_def closeRecord_def defaultConfig_def orDefault_def)
  have h1: "''W'' \<noteq> [] \<and>
    storeAnswers (storeWithClose 70000) ''X'' False Map.empty (historyWithClose 70000) \<and>
    rebuyWindow defaultConfig = 300 \<and> blockRebuys defaultConfig \<and>
    s_mint signalXW = ''X'' \<and> s_walletAddress signalXW = Some ''W'' \<and> (0::nat) \<le> 7 \<and>
    TradeJson \<lparr> ct_mint = Some ''X'', ct_walletSource = Some ''W'',
                ct_closedAt = Some (100000 - 30000) \<rparr> \<in> set (historyWithClose 70000 0)"
    using s by (simp add: defaultConfig_def signalXW_def historyWithClose_def closeRecord_def)
  have h2: "''W'' \<noteq> [] \<and>
    storeAnswers (storeWithClose 0) ''X'' False Map.empty (historyWithClose 0) \<and>
    rebuyWindow defaultConfig = 300 \<and>
    s_mint signalXW = ''X'' \<and> s_walletAddress signalXW = Some ''W'' \<and>
    \<not> (False \<and> Map.empty ''walletSource'' = Some ''W'') \<and>
    (\<forall>d \<le> 7. \<forall>t. TradeJson t \<in> set (historyWithClose 0 d) \<and> ct_mint t = Some ''X'' \<and>
        ct_walletSource t = Some ''W'' \<longrightarrow> ct_closedAt t = Some (400000 - 400000))"
    using s by (simp add: defaultConfig_def signalXW_def historyWithClose_def closeRecord_def)
  have e: "dryRun paperEnv" by (simp add: paperEnv_def)
  note t1 = rebuy_window_block [of "''W''" "storeWithClose 70000" "''X''" False Map.empty
      "historyWithClose 70000" defaultConfig 100000 signalXW 0 paperEnv]
  from t1 h0 m
  have 0: "isRebuySignal (storeWithClose 70000) defaultConfig 100000 ''X'' (Some ''W'') = True"
    by blast
  from t1 h1 e
  have 1: "shouldCopy (storeWithClose 70000) defaultConfig paperEnv 100000 signalXW =
             reject rebuy_blocked \<and>
           copy (shouldCopy (storeWithClose 70000) defaultConfig paperEnv 100000 signalXW) = False"
    by blast
  from rebuy_window_block [of "''W''" "storeWithClose 0" "''X''" False Map.empty
      "historyWithClose 0" defaultConfig 400000 signalXW 0 paperEnv] h2
  have 2: "isRebuySignal (storeWithClose 0) defaultConfig 400000 ''X'' (Some ''W'') = False \<and>
   reason (shouldCopy (storeWithClose 0) defaultConfig paperEnv 400000 signalXW) \<noteq>
     Some rebuy_blocked"
    by blast
  from 0 1 2 show ?thesis by blast
qed

text \<open>
  Claim C10. The anti-rebuy guard fails open: \<open>isRebuySignal\<close> is false when the signal
  carries no wallet address (absent or empty), and whenever a store lookup it performs
  throws: the membership test, the read of the position hash, the read of today's
  history, or the read of the history of day \<open>i\<close> (1 to 7) reached after the lists before
  it gave no recent record.
\<close>

theorem isRebuySignal_fails_open:
  "(walletAddress = None \<or> walletAddress = Some [] \<longrightarrow>
      \<not> isRebuySignal st cfg now mint walletAddress) \<and>
   (isRebuySignal_try st cfg now mint walletAddress = Inl e \<longrightarrow>
      \<not> isRebuySignal st cfg now mint walletAddress) \<and>
   (sismember_open_positions st mint = Inl e \<longrightarrow>
      \<not> isRebuySignal st cfg now mint walletAddress) \<and>
   (sismember_open_positions st mint = Inr True \<and> hgetall_position st mint = Inl e \<longrightarrow>
      \<not> isRebuySignal st cfg now mint walletAddress) \<and>
   (walletAddress = Some w \<and> openFromWallet st mint w = Inr False \<and>
    lrange_trades st 0 = Inl e \<longrightarrow>
      \<not> isRebuySignal st cfg now mint walletAddress) \<and>
   (walletAddress = Some w \<and> openFromWallet st mint w = Inr False \<and> 1 \<le> i \<and> i \<le> 7 \<and>
    (\<forall>d < i. \<exists>ts. lrange_trades st d = Inr ts \<and> \<not> scanTrades cfg now mint w ts) \<and>
    lrange_trades st i = Inl e \<longrightarrow>
      \<not> isRebuySignal st cfg now mint walletAddress)"
proof (intro conjI impI)
  show "\<not> isRebuySignal st cfg now mint walletAddress"
    if "walletAddress = None \<or> walletAddress = Some []"
    using that by (auto simp: isRebuySignal_def isRebuySignal_try_def)
  show "\<not> isRebuySignal st cfg now mint walletAddress"
    if "isRebuySignal_try st cfg now mint walletAddress = Inl e"
    using that by (simp add: isRebuySignal_def)
  show "\<not> isRebuySignal st cfg now mint walletAddress"
    if "sismember_open_positions st mint = Inl e"
    using that
    by (simp add: isRebuySignal_def isRebuySignal_try_def openFromWallet_def
        del: scanDays.simps split: option.splits)
  show "\<not> isRebuySignal st cfg now mint walletAddress"
    if "sismember_open_positions st mint = Inr True \<and> hgetall_position st mint = Inl e"
    using that
    by (simp add: isRebuySignal_def isRebuySignal_try_def openFromWallet_def
        del: scanDays.simps split: option.splits)
  show "\<not> isRebuySignal st cfg now mint walletAddress"
    if "walletAddress = Some w \<and> openFromWallet st mint w = Inr False \<and>
        lrange_trades st 0 = Inl e"
    using that
    by (simp add: isRebuySignal_def isRebuySignal_try_def del: scanDays.simps)
  show "\<not> isRebuySignal st cfg now mint walletAddress"
    if a: "walletAddress = Some w \<and> openFromWallet st mint w = Inr False \<and> 1 \<le> i \<and> i \<le> 7 \<and>
        (\<forall>d < i. \<exists>ts. lrange_trades st d = Inr ts \<and> \<not> scanTrades cfg now mint w ts) \<and>
        lrange_trades st i = Inl e"
  proof -
    from a obtain ts where t: "lrange_trades st 0 = Inr ts" "\<not> scanTrades cfg now mint w ts"
      by (metis less_eq_Suc_le One_nat_def)
    have "scanDays st cfg now mint w ([1..<i] @ i # [Suc i..<8]) = Inl e"
      by (rule scanDays_throws) (use a in auto)
    then have "scanDays st cfg now mint w [1, 2, 3, 4, 5, 6, 7] = Inl e"
      using week_split [of i] a by simp
    then show ?thesis
      using a t by (simp add: isRebuySignal_def isRebuySignal_try_def del: scanDays.simps)
  qed
qed

text \<open>
  The theorem at a signal without wallet, at a store whose every command throws, at stores
  whose second and third command throw, and at a store whose lookup of the third day throws.
\<close>

theorem isRebuySignal_fails_open_witness:
  "isRebuySignal emptyStore defaultConfig 0 ''X'' None = False \<and>
   isRebuySignal emptyStore defaultConfig 0 ''X'' (Some []) = False \<and>
   sismember_open_positions brokenStore ''X'' = Inl (RedisError ''ECONNREFUSED'') \<and>
   isRebuySignal brokenStore defaultConfig 0 ''X'' (Some ''W'') = False \<and>
   hgetall_position (brokenStore \<lparr> sismember_open_positions := (\<lambda>m. Inr True) \<rparr>) ''X'' =
     Inl (RedisError ''ECONNREFUSED'') \<and>
   isRebuySignal (brokenStore \<lparr> sismember_open_positions := (\<lambda>m. Inr True) \<rparr>)
     defaultConfig 0 ''X'' (Some ''W'') = False \<and>
   lrange_trades (brokenStore \<lparr> sismember_open_positions := (\<lambda>m. Inr False) \<rparr>) 0 =
     Inl (RedisError ''ECONNREFUSED'') \<and>
   isRebuySignal (brokenStore \<lparr> sismember_open_positions := (\<lambda>m. Inr False) \<rparr>)
     defaultConfig 0 ''X'' (Some ''W'') = False \<and>
   lrange_trades flakyStore 3 = Inl (RedisError ''timeout'') \<and>
   isRebuySignal flakyStore defaultConfig 0 ''X'' (Some ''W'') = False"
proof -
  note t = isRebuySignal_fails_open
  let ?e = "RedisError ''ECONNREFUSED''"
  let ?s1 = "brokenStore \<lparr> sismember_open_positions := (\<lambda>m. Inr True) \<rparr>"
  let ?s2 = "brokenStore \<lparr> sismember_open_positions := (\<lambda>m. Inr False) \<rparr>"
  have 1: "isRebuySignal emptyStore defaultConfig 0 ''X'' None = False"
    using t [of None emptyStore defaultConfig 0 "''X''"] by blast
  have 2: "isRebuySignal emptyStore defaultConfig 0 ''X'' (Some []) = False"
    using t [of "Some []" emptyStore defaultConfig 0 "''X''"] by blast
  have b: "sismember_open_positions brokenStore ''X'' = Inl ?e"
    by (simp add: brokenStore_def)
  have 3: "isRebuySignal brokenStore defaultConfig 0 ''X'' (Some ''W'') = False"
    using t [of "Some ''W''" brokenStore defaultConfig 0 "''X''" ?e] b by blast
  have h: "sismember_open_positions ?s1 ''X'' = Inr True \<and> hgetall_position ?s1 ''X'' = Inl ?e"
    by (simp add: brokenStore_def)
  have 4: "isRebuySignal ?s1 defaultConfig 0 ''X'' (Some ''W'') = False"
    using t [of "Some ''W''" ?s1 defaultConfig 0 "''X''" ?e] h by blast
  have l: "Some ''W'' = Some ''W'' \<and> openFromWallet ?s2 ''X'' ''W'' = Inr False \<and>
           lrange_trades ?s2 0 = Inl ?e"
    by (simp add: brokenStore_def openFromWallet_def)
  have 5: "isRebuySignal ?s2 defaultConfig 0 ''X'' (Some ''W'') = False"
    using t [of "Some ''W''" ?s2 defaultConfig 0 "''X''" ?e "''W''"] l by blast
  have f: "Some ''W'' = Some ''W'' \<and> openFromWallet flakyStore ''X'' ''W'' = Inr False \<and>
      (1::nat) \<le> 3 \<and> (3::nat) \<le> 7 \<and>
      (\<forall>d < 3. \<exists>ts. lrange_trades flakyStore d = Inr ts \<and>
         \<not> scanTrades defaultConfig 0 ''X'' ''W'' ts) \<and>
      lrange_trades flakyStore 3 = Inl (RedisError ''timeout'')"
    by (simp add: flakyStore_def emptyStore_def openFromWallet_def)
  have 6: "isRebuySignal flakyStore defaultConfig 0 ''X'' (Some ''W'') = False"
    using t [of "Some ''W''" flakyStore defaultConfig 0 "''X''" "RedisError ''timeout''" "''W''" 3] f
    by blast
  from 1 2 b 3 h 4 l 5 f 6 show ?thesis by blast
qed

section \<open>Properties of price resolution\<close>

lemma readCurve_live: "readCurve liveCurveAccount =
   Inr \<lparr>virtualTokenReserves = 1000000000000, virtualSolReserves = 30000000000,
        realTokenReserves = 500000000000000, realSolReserves = 5000000000,
        tokenTotalSupply = 1000000000000000, complete = False\<rparr>"
  by (simp add: readCurve_def liveCurveAccount_def readBigUInt64LE_def readUInt8_def andThen_def
     OFF_VIRTUAL_TOKEN_RESERVES_def OFF_VIRTUAL_SOL_RESERVES_def OFF_REAL_TOKEN_RESERVES_def
     OFF_REAL_SOL_RESERVES_def OFF_TOKEN_TOTAL_SUPPLY_def OFF_COMPLETE_def)


lemma readCurve_drift: "readCurve driftCurveAccount =
   Inr \<lparr>virtualTokenReserves = 1072000000000000, virtualSolReserves = 30000000007,
        realTokenReserves = 793100000000000, realSolReserves = 1,
        tokenTotalSupply = 1000000000000000, complete = False\<rparr>"
  by (simp add: readCurve_def driftCurveAccount_def readBigUInt64LE_def readUInt8_def andThen_def
     OFF_VIRTUAL_TOKEN_RESERVES_def OFF_VIRTUAL_SOL_RESERVES_def OFF_REAL_TOKEN_RESERVES_def
     OFF_REAL_SOL_RESERVES_def OFF_TOKEN_TOTAL_SUPPLY_def OFF_COMPLETE_def)

lemma disc_live: "take 8 liveCurveAccount = BONDING_CURVE_DISCRIMINATOR"
  by (simp add: liveCurveAccount_def BONDING_CURVE_DISCRIMINATOR_def)

lemma disc_drift: "take 8 driftCurveAccount = BONDING_CURVE_DISCRIMINATOR"
  by (simp add: driftCurveAccount_def BONDING_CURVE_DISCRIMINATOR_def)

text \<open>The reserves read from an account are below \<open>2^64\<close>.\<close>

lemma le_nat_bound: "le_nat bs < 256 ^ length bs"
proof (induction bs)
  case Nil
  show ?case by simp
next
  case (Cons b bs)
  have "unat b < 256" using unsigned_less [of b, where 'a = nat] by simp
  with Cons show ?case by simp
qed

lemma readBigUInt64LE_bound:
  assumes "readBigUInt64LE data off = Inr n"
  shows "n < 2 ^ 64"
proof -
  from assms have l: "off + 8 \<le> length data" and n: "n = le_nat (take 8 (drop off data))"
    by (auto simp add: readBigUInt64LE_def split: if_splits)
  from l have "length (take 8 (drop off data)) = 8" by simp
  with le_nat_bound [of "take 8 (drop off data)"] n have "n < 256 ^ 8" by simp
  then show ?thesis by simp
qed

lemma readCurve_bounds:
  assumes "readCurve data = Inr c"
  shows "virtualTokenReserves c < 2 ^ 64" "virtualSolReserves c < 2 ^ 64"
proof -
  from assms obtain vtr vsr where
    v: "readBigUInt64LE data OFF_VIRTUAL_TOKEN_RESERVES = Inr vtr"
       "readBigUInt64LE data OFF_VIRTUAL_SOL_RESERVES = Inr vsr"
       "virtualTokenReserves c = vtr" "virtualSolReserves c = vsr"
    by (auto simp add: readCurve_def andThen_def split: sum.splits)
  from readBigUInt64LE_bound [OF v(1)] v(3) show "virtualTokenReserves c < 2 ^ 64" by simp
  from readBigUInt64LE_bound [OF v(2)] v(4) show "virtualSolReserves c < 2 ^ 64" by simp
qed

text \<open>A quotient of doubles in the range of the reserves does not underflow to zero.\<close>

lemma rd_pow2: "- 1074 \<le> e \<Longrightarrow> rd (pow2 e) = pow2 e"
  using rd_repr [of 1 e] by simp

lemma rd_quotient_pos:
  assumes "pow2 i \<le> a" "0 < b" "b \<le> pow2 j" "- 1074 \<le> i - j"
  shows "0 < rd (a / b)"
proof -
  have "pow2 (i - j) * b \<le> pow2 (i - j) * pow2 j"
    using assms(3) pow2_pos [of "i - j"] by simp
  also have "\<dots> = pow2 i" using pow2_add [of "i - j" j] by simp
  finally have "pow2 (i - j) * b \<le> a" using assms(1) by simp
  then have "pow2 (i - j) \<le> a / b" using assms(2) by (simp add: le_divide_eq)
  from rd_mono [OF this] have "pow2 (i - j) \<le> rd (a / b)" using rd_pow2 [OF assms(4)] by simp
  with pow2_pos [of "i - j"] show ?thesis by linarith
qed

lemma rd_nat_ge: "0 < n \<Longrightarrow> 1 \<le> rd (real n)"
proof -
  assume "0 < n"
  then have "(1::real) \<le> real n" by simp
  from rd_mono [OF this] show ?thesis by (simp add: rd_1)
qed

lemma rd_nat_le: "n < 2 ^ k \<Longrightarrow> rd (real n) \<le> pow2 (int k)"
proof -
  assume "n < 2 ^ k"
  then have "real n \<le> real (2 ^ k)" by (intro of_nat_mono) simp
  then have "real n \<le> pow2 (int k)" by (simp add: pow2_nat)
  from rd_mono [OF this] show ?thesis by (simp add: rd_pow2)
qed

lemma raw_price_pos:
  assumes "0 < vs" "0 < vt" "vt < 2 ^ 64"
  shows "0 < rd (rd (real (vs * 1000000)) / rd (real (vt * 1000000000)))"
proof -
  have "vt * 1000000000 < 2 ^ 64 * 2 ^ 30" using assms(3)
    by (intro mult_strict_mono) simp_all
  then have d: "vt * 1000000000 < 2 ^ 94" by simp
  have n: "0 < vs * 1000000" "0 < vt * 1000000000" using assms by simp_all
  note a = rd_nat_ge [OF n(1)]
  note b = rd_nat_ge [OF n(2)] rd_nat_le [OF d]
  have "pow2 0 \<le> rd (real (vs * 1000000))" using a by (simp only: pow2_0)
  moreover have "0 < rd (real (vt * 1000000000))" using b(1) by linarith
  ultimately show ?thesis using b(2) by (rule rd_quotient_pos) simp
qed

lemma pump_price_pos:
  assumes "0 < vs" "0 < vt" "vt < 2 ^ 64"
  shows "0 < rd (rd (rd (real vs) / 1000000000) / rd (rd (real vt) / 10 ^ 6))"
proof -
  note a = rd_nat_ge [OF assms(1)]
  note b = rd_nat_ge [OF assms(2)] rd_nat_le [OF assms(3)]
  have "pow2 (- 30) \<le> 1 / 1000000000" by (simp add: pow2_def)
  also have "\<dots> \<le> rd (real vs) / 1000000000" using a by (simp add: divide_right_mono)
  finally have "rd (pow2 (- 30)) \<le> rd (rd (real vs) / 1000000000)" by (rule rd_mono)
  then have 1: "pow2 (- 30) \<le> rd (rd (real vs) / 1000000000)" by (simp add: rd_pow2)
  have "pow2 (- 20) \<le> 1 / 10 ^ 6" by (simp add: pow2_def)
  also have "\<dots> \<le> rd (real vt) / 10 ^ 6" using b(1) by (simp add: divide_right_mono)
  finally have "rd (pow2 (- 20)) \<le> rd (rd (real vt) / 10 ^ 6)" by (rule rd_mono)
  then have 2: "0 < rd (rd (real vt) / 10 ^ 6)" using pow2_pos [of "- 20"] by (simp add: rd_pow2)
  have "rd (real vt) / 10 ^ 6 \<le> rd (real vt)" using b(1) by (simp add: divide_le_eq)
  with b(2) have "rd (real vt) / 10 ^ 6 \<le> pow2 64" by simp
  from rd_mono [OF this] have 3: "rd (rd (real vt) / 10 ^ 6) \<le> pow2 64" by (simp add: rd_pow2)
  from 1 2 3 show ?thesis by (rule rd_quotient_pos) simp
qed

lemma raw_general:
  assumes "take 8 data = BONDING_CURVE_DISCRIMINATOR" "readCurve data = Inr c" "\<not> complete c"
    "0 < virtualTokenReserves c" "0 < virtualSolReserves c"
  shows "rawGetPrice (Inr (Some data)) =
     Some \<lparr> cp_price = Some (rd (rd (real (virtualSolReserves c * 1000000)) /
                                 rd (real (virtualTokenReserves c * 1000000000)))),
            cp_bondingProgress = bondingProgressOf (realTokenReserves c),
            cp_graduated = False, cp_reserves = c \<rparr>"
  using assms raw_price_pos [OF assms(5,4) readCurve_bounds(1) [OF assms(2)]]
  by (simp add: rawGetPrice_def rawGetPrice_try_def andThen_def Let_def TOKEN_DECIMALS_def
      SOL_DECIMALS_def not_le)


lemma pump_general:
  assumes "readCurve data = Inr c" "0 < virtualTokenReserves c" "0 < virtualSolReserves c"
  shows "getPumpFunPrice (Inr (Some data)) =
     Some \<lparr> cp_price = Some (rd (rd (rd (real (virtualSolReserves c)) / 1000000000) /
                                 rd (rd (real (virtualTokenReserves c)) / 10 ^ 6))),
            cp_bondingProgress = bondingProgressOf (realTokenReserves c),
            cp_graduated = complete c, cp_reserves = c \<rparr>"
  using assms
  by (simp add: getPumpFunPrice_def getPumpFunPrice_try_def andThen_def Let_def)

lemma price_rd_1: "rd 30000000000 = 30000000000"
  using rd_eval [of "- 18" "30000000000"] by (simp add: pow2_def rne_def)

lemma price_rd_2: "rd 30 = 30"
  using rd_eval [of "- 48" "30"] by (simp add: pow2_def rne_def)

lemma price_rd_3: "rd 1000000000000 = 1000000000000"
  using rd_eval [of "- 13" "1000000000000"] by (simp add: pow2_def rne_def)

lemma price_rd_4: "rd 1000000 = 1000000"
  using rd_eval [of "- 33" "1000000"] by (simp add: pow2_def rne_def)

lemma price_rd_5: "rd (3 / 100000) = 8854437155380585 / 295147905179352825856"
  using rd_eval [of "- 68" "3 / 100000"] by (simp add: pow2_def rne_def)

lemma price_rd_6: "rd 30000000000000000 = 30000000000000000"
  using rd_eval [of "2" "30000000000000000"] by (simp add: pow2_def rne_def)

lemma price_rd_7: "rd 1000000000000000000000 = 1000000000000000000000"
  using rd_eval [of "17" "1000000000000000000000"] by (simp add: pow2_def rne_def)

lemma price_rd_8: "rd 30000000007 = 30000000007"
  using rd_eval [of "- 18" "30000000007"] by (simp add: pow2_def rne_def)

lemma price_rd_9: "rd (30000000007 / 1000000000) = 8444249303290005 / 281474976710656"
  using rd_eval [of "- 48" "30000000007 / 1000000000"] by (simp add: pow2_def rne_def)

lemma price_rd_10: "rd 1072000000000000 = 1072000000000000"
  using rd_eval [of "- 3" "1072000000000000"] by (simp add: pow2_def rne_def)

lemma price_rd_11: "rd 1072000000 = 1072000000"
  using rd_eval [of "- 23" "1072000000"] by (simp add: pow2_def rne_def)

lemma price_rd_12: "rd (1688849860658001 / 60348235006764646400000) = 8457969822038563 / 302231454903657293676544"
  using rd_eval [of "- 78" "1688849860658001 / 60348235006764646400000"] by (simp add: pow2_def rne_def)

lemma price_rd_13: "rd 30000000007000000 = 30000000007000000"
  using rd_eval [of "2" "30000000007000000"] by (simp add: pow2_def rne_def)

lemma price_rd_14: "rd 1072000000000000000000000 = 1072000000000000033554432"
  using rd_eval [of "27" "1072000000000000000000000"] by (simp add: pow2_def rne_def)

lemma price_rd_15: "rd (468750000109375 / 16750000000000000524288) = 4228984911019281 / 151115727451828646838272"
  using rd_eval [of "- 78" "468750000109375 / 16750000000000000524288"] by (simp add: pow2_def rne_def)

lemma price_rd_16: "rd (30000000007 / 1072000000000000000) = 4228984911019281 / 151115727451828646838272"
  using rd_eval [of "- 78" "30000000007 / 1072000000000000000"] by (simp add: pow2_def rne_def)

lemmas price_rd = price_rd_1 price_rd_2 price_rd_3 price_rd_4 price_rd_5 price_rd_6 price_rd_7 price_rd_8 price_rd_9 price_rd_10 price_rd_11 price_rd_12 price_rd_13 price_rd_14 price_rd_15 price_rd_16




lemma getPrice_cases:
  "snd (snd (getPrice ps net k ff now)) = [] \<or>
   getPrice ps net k ff now = querySources ps net k now \<or>
   getPrice ps net k ff now = querySources (resetFailedAttempts ps k) net k now"
  by (simp add: getPrice_def Let_def split: option.splits)

lemma querySources_live:
  assumes "getPumpFunPrice (getAccountInfo net) = Some p" "cp_price p = Some v" "v \<noteq> 0" "\<not> cp_graduated p"
  shows "fst (querySources ps net k now) =
           \<lparr> q_mint = k, q_price = Some v, q_source = ''pump.fun'',
              q_bondingProgress = Some (cp_bondingProgress p), q_graduated = Some False,
              q_ts = now, q_error = None, q_stale = False \<rparr>"
  using assms by (simp add: querySources_def succeed_def falsy_def)

lemma getPrice_fresh:
  "failedAttempts ps k = None \<Longrightarrow> priceCache ps k = None \<Longrightarrow>
     getPrice ps net k ff now = querySources ps net k now"
  by (simp add: getPrice_def)

lemma getPrice_calls:
  "snd (snd (getPrice ps net k ff now)) \<noteq> [] \<Longrightarrow>
     getPrice ps net k ff now = querySources ps net k now \<or>
     getPrice ps net k ff now = querySources (resetFailedAttempts ps k) net k now"
  using getPrice_cases [of ps net k ff now] by blast

lemma live_sources:
  "querySources ps (liveCurveNetwork t) k now =
     succeed ps k \<lparr> q_mint = k, q_price = Some (rd (30 / 1000000)), q_source = ''pump.fun'',
              q_bondingProgress = Some (bondingProgressOf 500000000000000),
              q_graduated = Some False, q_ts = now, q_error = None, q_stale = False \<rparr>
       [RpcGetAccountInfo]"
  using pump_general [OF readCurve_live]
  by (simp add: querySources_def liveCurveNetwork_def deadNetwork_def falsy_def price_rd)

lemma drift_sources:
  "querySources ps (driftCurveNetwork t) k now =
     succeed ps k \<lparr> q_mint = k, q_price = Some (8457969822038563 / 2 ^ 78),
              q_source = ''pump.fun'',
              q_bondingProgress = Some (bondingProgressOf 793100000000000),
              q_graduated = Some False, q_ts = now, q_error = None, q_stale = False \<rparr>
       [RpcGetAccountInfo]"
  using pump_general [OF readCurve_drift]
  by (simp add: querySources_def driftCurveNetwork_def deadNetwork_def falsy_def price_rd)

text \<open>
  Claim C4, as the code has it. For every bonding-curve account whose fields read virtual
  token reserves 1000000000000 and virtual SOL reserves 30000000000 with the completion
  flag clear, the raw reader (given the discriminator) and the reader of the price service
  return the double \<open>30 / 1000000\<close>, not graduated, and a call of \<open>getPrice\<close> that reads the
  account returns a quote of source \<^verbatim>\<open>pump.fun\<close> with that price and \<open>graduated\<close> false.
  For every live account with positive reserves, the raw reader scales in integer
  arithmetic: its price is the quotient of the doubles next to the two integer products
  \<open>virtualSolReserves * 10^6\<close> and \<open>virtualTokenReserves * 10^9\<close>. The reader of the price
  service, and with it \<open>getPrice\<close>, scales in double arithmetic: it converts each reserve
  to a double, divides the one by \<open>10^9\<close> and the other by \<open>10^6\<close>, and divides the two
  rounded quotients.
\<close>

theorem curve_price_example:
  "(readCurve data = Inr c \<and> virtualTokenReserves c = 1000000000000 \<and>
    virtualSolReserves c = 30000000000 \<and> \<not> complete c \<longrightarrow>
      (take 8 data = BONDING_CURVE_DISCRIMINATOR \<longrightarrow>
         map_option cp_price (rawGetPrice (Inr (Some data))) = Some (Some (rd (30 / 1000000))) \<and>
         map_option cp_graduated (rawGetPrice (Inr (Some data))) = Some False) \<and>
      map_option cp_price (getPumpFunPrice (Inr (Some data))) = Some (Some (rd (30 / 1000000))) \<and>
      map_option cp_graduated (getPumpFunPrice (Inr (Some data))) = Some False \<and>
      (getAccountInfo net = Inr (Some data) \<and>
       RpcGetAccountInfo \<in> set (snd (snd (getPrice ps net k ff now))) \<longrightarrow>
         q_price (fst (getPrice ps net k ff now)) = Some (rd (30 / 1000000)) \<and>
         q_graduated (fst (getPrice ps net k ff now)) = Some False \<and>
         q_source (fst (getPrice ps net k ff now)) = ''pump.fun'')) \<and>
   (readCurve data = Inr c \<and> \<not> complete c \<and>
    0 < virtualTokenReserves c \<and> 0 < virtualSolReserves c \<longrightarrow>
      (take 8 data = BONDING_CURVE_DISCRIMINATOR \<longrightarrow>
         map_option cp_price (rawGetPrice (Inr (Some data))) =
           Some (Some (rd (rd (real (virtualSolReserves c * TOKEN_DECIMALS)) /
                           rd (real (virtualTokenReserves c * SOL_DECIMALS))))) \<and>
         map_option cp_graduated (rawGetPrice (Inr (Some data))) = Some False) \<and>
      map_option cp_price (getPumpFunPrice (Inr (Some data))) =
        Some (Some (rd (rd (rd (real (virtualSolReserves c)) / 10 ^ 9) /
                        rd (rd (real (virtualTokenReserves c)) / 10 ^ 6)))) \<and>
      map_option cp_graduated (getPumpFunPrice (Inr (Some data))) = Some False \<and>
      (getAccountInfo net = Inr (Some data) \<and>
       RpcGetAccountInfo \<in> set (snd (snd (getPrice ps net k ff now))) \<longrightarrow>
         q_price (fst (getPrice ps net k ff now)) =
           Some (rd (rd (rd (real (virtualSolReserves c)) / 10 ^ 9) /
                     rd (rd (real (virtualTokenReserves c)) / 10 ^ 6))) \<and>
         q_graduated (fst (getPrice ps net k ff now)) = Some False \<and>
         q_source (fst (getPrice ps net k ff now)) = ''pump.fun''))"
proof -
  let ?raw = "rd (rd (real (virtualSolReserves c * TOKEN_DECIMALS)) /
                  rd (real (virtualTokenReserves c * SOL_DECIMALS)))"
  let ?svc = "rd (rd (rd (real (virtualSolReserves c)) / 10 ^ 9) /
                  rd (rd (real (virtualTokenReserves c)) / 10 ^ 6))"
  have general:
    "(take 8 data = BONDING_CURVE_DISCRIMINATOR \<longrightarrow>
         map_option cp_price (rawGetPrice (Inr (Some data))) = Some (Some ?raw) \<and>
         map_option cp_graduated (rawGetPrice (Inr (Some data))) = Some False) \<and>
      map_option cp_price (getPumpFunPrice (Inr (Some data))) = Some (Some ?svc) \<and>
      map_option cp_graduated (getPumpFunPrice (Inr (Some data))) = Some False \<and>
      (getAccountInfo net = Inr (Some data) \<and>
       RpcGetAccountInfo \<in> set (snd (snd (getPrice ps net k ff now))) \<longrightarrow>
         q_price (fst (getPrice ps net k ff now)) = Some ?svc \<and>
         q_graduated (fst (getPrice ps net k ff now)) = Some False \<and>
         q_source (fst (getPrice ps net k ff now)) = ''pump.fun'')"
    if a: "readCurve data = Inr c \<and> \<not> complete c \<and>
           0 < virtualTokenReserves c \<and> 0 < virtualSolReserves c"
  proof (intro conjI impI)
    from a have rc: "readCurve data = Inr c" and pos: "0 < virtualTokenReserves c"
      "0 < virtualSolReserves c" and live: "\<not> complete c" by simp_all
    have p: "getPumpFunPrice (Inr (Some data)) =
       Some \<lparr> cp_price = Some ?svc,
              cp_bondingProgress = bondingProgressOf (realTokenReserves c),
              cp_graduated = False, cp_reserves = c \<rparr>"
      using pump_general [OF rc pos] live by simp
    from p show "map_option cp_price (getPumpFunPrice (Inr (Some data))) = Some (Some ?svc)"
      by simp
    from p show "map_option cp_graduated (getPumpFunPrice (Inr (Some data))) = Some False"
      by simp
    have nz: "?svc \<noteq> 0"
      using pump_price_pos [OF pos(2) pos(1) readCurve_bounds(1) [OF rc]] by simp
    {
      assume d: "take 8 data = BONDING_CURVE_DISCRIMINATOR"
      have r: "rawGetPrice (Inr (Some data)) =
        Some \<lparr> cp_price = Some ?raw,
              cp_bondingProgress = bondingProgressOf (realTokenReserves c),
              cp_graduated = False, cp_reserves = c \<rparr>"
        using raw_general [OF d rc live pos] by (simp add: TOKEN_DECIMALS_def SOL_DECIMALS_def)
      from r show "map_option cp_price (rawGetPrice (Inr (Some data))) = Some (Some ?raw)"
        by simp
      from r show "map_option cp_graduated (rawGetPrice (Inr (Some data))) = Some False"
        by simp
    }
    {
      assume n: "getAccountInfo net = Inr (Some data) \<and>
         RpcGetAccountInfo \<in> set (snd (snd (getPrice ps net k ff now)))"
      then have "snd (snd (getPrice ps net k ff now)) \<noteq> []" by auto
      from getPrice_calls [OF this] obtain ps' where
        g: "getPrice ps net k ff now = querySources ps' net k now" by blast
      have q: "fst (querySources ps' net k now) =
             \<lparr> q_mint = k, q_price = Some ?svc, q_source = ''pump.fun'',
                q_bondingProgress = Some (bondingProgressOf (realTokenReserves c)),
                q_graduated = Some False, q_ts = now, q_error = None, q_stale = False \<rparr>"
        using querySources_live [of net _ ?svc ps' k now] p n nz by simp
      show "q_price (fst (getPrice ps net k ff now)) = Some ?svc"
        using g q by simp
      show "q_graduated (fst (getPrice ps net k ff now)) = Some False"
        using g q by simp
      show "q_source (fst (getPrice ps net k ff now)) = ''pump.fun''"
        using g q by simp
    }
  qed
  have example: "?raw = rd (30 / 1000000) \<and> ?svc = rd (30 / 1000000)"
    if "virtualTokenReserves c = 1000000000000 \<and> virtualSolReserves c = 30000000000"
    using that by (simp add: TOKEN_DECIMALS_def SOL_DECIMALS_def price_rd)
  show ?thesis
  proof (intro conjI impI)
    assume a: "readCurve data = Inr c \<and> virtualTokenReserves c = 1000000000000 \<and>
      virtualSolReserves c = 30000000000 \<and> \<not> complete c"
    then have h: "readCurve data = Inr c \<and> \<not> complete c \<and>
           0 < virtualTokenReserves c \<and> 0 < virtualSolReserves c" by simp
    from a example have e: "?raw = rd (30 / 1000000)" "?svc = rd (30 / 1000000)" by simp_all
    note G = general [OF h, unfolded e]
    from G show "map_option cp_price (getPumpFunPrice (Inr (Some data))) =
       Some (Some (rd (30 / 1000000)))" by blast
    from G show "map_option cp_graduated (getPumpFunPrice (Inr (Some data))) = Some False"
      by blast
    show "map_option cp_price (rawGetPrice (Inr (Some data))) = Some (Some (rd (30 / 1000000)))"
      if "take 8 data = BONDING_CURVE_DISCRIMINATOR" using G that by blast
    show "map_option cp_graduated (rawGetPrice (Inr (Some data))) = Some False"
      if "take 8 data = BONDING_CURVE_DISCRIMINATOR" using G that by blast
    show "q_price (fst (getPrice ps net k ff now)) = Some (rd (30 / 1000000))"
      if "getAccountInfo net = Inr (Some data) \<and>
       RpcGetAccountInfo \<in> set (snd (snd (getPrice ps net k ff now)))" using G that by blast
    show "q_graduated (fst (getPrice ps net k ff now)) = Some False"
      if "getAccountInfo net = Inr (Some data) \<and>
       RpcGetAccountInfo \<in> set (snd (snd (getPrice ps net k ff now)))" using G that by blast
    show "q_source (fst (getPrice ps net k ff now)) = ''pump.fun''"
      if "getAccountInfo net = Inr (Some data) \<and>
       RpcGetAccountInfo \<in> set (snd (snd (getPrice ps net k ff now)))" using G that by blast
  next
    assume h: "readCurve data = Inr c \<and> \<not> complete c \<and>
           0 < virtualTokenReserves c \<and> 0 < virtualSolReserves c"
    note G = general [OF h]
    from G show "map_option cp_price (getPumpFunPrice (Inr (Some data))) = Some (Some ?svc)"
      by blast
    from G show "map_option cp_graduated (getPumpFunPrice (Inr (Some data))) = Some False"
      by blast
    show "map_option cp_price (rawGetPrice (Inr (Some data))) = Some (Some ?raw)"
      if "take 8 data = BONDING_CURVE_DISCRIMINATOR" using G that by blast
    show "map_option cp_graduated (rawGetPrice (Inr (Some data))) = Some False"
      if "take 8 data = BONDING_CURVE_DISCRIMINATOR" using G that by blast
    show "q_price (fst (getPrice ps net k ff now)) = Some ?svc"
      if "getAccountInfo net = Inr (Some data) \<and>
       RpcGetAccountInfo \<in> set (snd (snd (getPrice ps net k ff now)))" using G that by blast
    show "q_graduated (fst (getPrice ps net k ff now)) = Some False"
      if "getAccountInfo net = Inr (Some data) \<and>
       RpcGetAccountInfo \<in> set (snd (snd (getPrice ps net k ff now)))" using G that by blast
    show "q_source (fst (getPrice ps net k ff now)) = ''pump.fun''"
      if "getAccountInfo net = Inr (Some data) \<and>
       RpcGetAccountInfo \<in> set (snd (snd (getPrice ps net k ff now)))" using G that by blast
  qed
qed

text \<open>
  The theorem at the account \<open>liveCurveAccount\<close> and at the account \<open>driftCurveAccount\<close>,
  each read by a fresh price service.
\<close>

theorem curve_price_example_witness:
  "map_option cp_price (rawGetPrice (Inr (Some liveCurveAccount))) =
     Some (Some (rd (30 / 1000000))) \<and>
   map_option cp_graduated (rawGetPrice (Inr (Some liveCurveAccount))) = Some False \<and>
   map_option cp_price (getPumpFunPrice (Inr (Some liveCurveAccount))) =
     Some (Some (rd (30 / 1000000))) \<and>
   map_option cp_graduated (getPumpFunPrice (Inr (Some liveCurveAccount))) = Some False \<and>
   q_price (fst (getPrice newPriceService (liveCurveNetwork 0) ''M'' False 0)) =
     Some (rd (30 / 1000000)) \<and>
   q_graduated (fst (getPrice newPriceService (liveCurveNetwork 0) ''M'' False 0)) = Some False \<and>
   q_source (fst (getPrice newPriceService (liveCurveNetwork 0) ''M'' False 0)) = ''pump.fun'' \<and>
   rd (30 / 1000000) = 8854437155380585 / 2 ^ 68 \<and>
   map_option cp_price (rawGetPrice (Inr (Some driftCurveAccount))) =
     Some (Some (4228984911019281 / 2 ^ 77)) \<and>
   q_price (fst (getPrice newPriceService (driftCurveNetwork 0) ''M'' False 0)) =
     Some (8457969822038563 / 2 ^ 78) \<and>
   q_graduated (fst (getPrice newPriceService (driftCurveNetwork 0) ''M'' False 0)) = Some False"
proof -
  let ?c = "\<lparr>virtualTokenReserves = 1000000000000, virtualSolReserves = 30000000000,
        realTokenReserves = 500000000000000, realSolReserves = 5000000000,
        tokenTotalSupply = 1000000000000000, complete = False\<rparr>"
  let ?d = "\<lparr>virtualTokenReserves = 1072000000000000, virtualSolReserves = 30000000007,
        realTokenReserves = 793100000000000, realSolReserves = 1,
        tokenTotalSupply = 1000000000000000, complete = False\<rparr>"
  have h: "readCurve liveCurveAccount = Inr ?c \<and> virtualTokenReserves ?c = 1000000000000 \<and>
    virtualSolReserves ?c = 30000000000 \<and> \<not> complete ?c"
    using readCurve_live by simp
  have n: "getAccountInfo (liveCurveNetwork 0) = Inr (Some liveCurveAccount)"
    by (simp add: liveCurveNetwork_def deadNetwork_def)
  have "getPrice newPriceService (liveCurveNetwork 0) ''M'' False 0 =
          querySources newPriceService (liveCurveNetwork 0) ''M'' 0"
    by (rule getPrice_fresh) (simp_all add: newPriceService_def)
  then have r: "RpcGetAccountInfo \<in>
      set (snd (snd (getPrice newPriceService (liveCurveNetwork 0) ''M'' False 0)))"
    by (simp add: live_sources succeed_def)
  note t = curve_price_example [of liveCurveAccount ?c "liveCurveNetwork 0" newPriceService
      "''M''" False 0]
  from t h n r disc_live
  have 1: "map_option cp_price (rawGetPrice (Inr (Some liveCurveAccount))) =
     Some (Some (rd (30 / 1000000))) \<and>
   map_option cp_graduated (rawGetPrice (Inr (Some liveCurveAccount))) = Some False \<and>
   map_option cp_price (getPumpFunPrice (Inr (Some liveCurveAccount))) =
     Some (Some (rd (30 / 1000000))) \<and>
   map_option cp_graduated (getPumpFunPrice (Inr (Some liveCurveAccount))) = Some False \<and>
   q_price (fst (getPrice newPriceService (liveCurveNetwork 0) ''M'' False 0)) =
     Some (rd (30 / 1000000)) \<and>
   q_graduated (fst (getPrice newPriceService (liveCurveNetwork 0) ''M'' False 0)) = Some False \<and>
   q_source (fst (getPrice newPriceService (liveCurveNetwork 0) ''M'' False 0)) = ''pump.fun''"
    by blast
  have 2: "rd (30 / 1000000) = 8854437155380585 / 2 ^ 68" by (simp add: price_rd)
  have h': "readCurve driftCurveAccount = Inr ?d \<and> \<not> complete ?d \<and>
    0 < virtualTokenReserves ?d \<and> 0 < virtualSolReserves ?d"
    using readCurve_drift by simp
  have n': "getAccountInfo (driftCurveNetwork 0) = Inr (Some driftCurveAccount)"
    by (simp add: driftCurveNetwork_def deadNetwork_def)
  have "getPrice newPriceService (driftCurveNetwork 0) ''M'' False 0 =
          querySources newPriceService (driftCurveNetwork 0) ''M'' 0"
    by (rule getPrice_fresh) (simp_all add: newPriceService_def)
  then have r': "RpcGetAccountInfo \<in>
      set (snd (snd (getPrice newPriceService (driftCurveNetwork 0) ''M'' False 0)))"
    by (simp add: drift_sources succeed_def)
  note u = curve_price_example [of driftCurveAccount ?d "driftCurveNetwork 0" newPriceService
      "''M''" False 0]
  from u h' n' r' disc_drift
  have "map_option cp_price (rawGetPrice (Inr (Some driftCurveAccount))) =
           Some (Some (rd (rd (real (virtualSolReserves ?d * TOKEN_DECIMALS)) /
                           rd (real (virtualTokenReserves ?d * SOL_DECIMALS))))) \<and>
     q_price (fst (getPrice newPriceService (driftCurveNetwork 0) ''M'' False 0)) =
           Some (rd (rd (rd (real (virtualSolReserves ?d)) / 10 ^ 9) /
                     rd (rd (real (virtualTokenReserves ?d)) / 10 ^ 6))) \<and>
     q_graduated (fst (getPrice newPriceService (driftCurveNetwork 0) ''M'' False 0)) = Some False"
    by blast
  then have 3: "map_option cp_price (rawGetPrice (Inr (Some driftCurveAccount))) =
     Some (Some (4228984911019281 / 2 ^ 77)) \<and>
   q_price (fst (getPrice newPriceService (driftCurveNetwork 0) ''M'' False 0)) =
     Some (8457969822038563 / 2 ^ 78) \<and>
   q_graduated (fst (getPrice newPriceService (driftCurveNetwork 0) ''M'' False 0)) = Some False"
    by (simp add: TOKEN_DECIMALS_def SOL_DECIMALS_def price_rd)
  from 1 2 3 show ?thesis by blast
qed

text \<open>
  The claim as worded fails: for virtual reserves of 30000000007 lamports and
  1072000000000000 token units the price that \<open>getPrice\<close> returns is neither the price of
  the raw reader, which divides the doubles next to the two integer-scaled reserves, nor
  the double next to their exact quotient.
\<close>

theorem curve_price_scaling_counterexample:
  "q_price (fst (getPrice newPriceService (driftCurveNetwork 0) ''M'' False 0)) =
     Some (8457969822038563 / 2 ^ 78) \<and>
   rd (rd (real (30000000007 * TOKEN_DECIMALS)) / rd (real (1072000000000000 * SOL_DECIMALS))) =
     4228984911019281 / 2 ^ 77 \<and>
   map_option cp_price (rawGetPrice (Inr (Some driftCurveAccount))) =
     Some (Some (4228984911019281 / 2 ^ 77)) \<and>
   q_price (fst (getPrice newPriceService (driftCurveNetwork 0) ''M'' False 0)) \<noteq>
     Some (rd (rd (real (30000000007 * TOKEN_DECIMALS)) /
               rd (real (1072000000000000 * SOL_DECIMALS)))) \<and>
   q_price (fst (getPrice newPriceService (driftCurveNetwork 0) ''M'' False 0)) \<noteq>
     Some (rd (real (30000000007 * TOKEN_DECIMALS) / real (1072000000000000 * SOL_DECIMALS)))"
proof -
  have g: "getPrice newPriceService (driftCurveNetwork 0) ''M'' False 0 =
          querySources newPriceService (driftCurveNetwork 0) ''M'' 0"
    by (rule getPrice_fresh) (simp_all add: newPriceService_def)
  have r: "rawGetPrice (Inr (Some driftCurveAccount)) =
     Some \<lparr> cp_price = Some (4228984911019281 / 2 ^ 77),
            cp_bondingProgress = bondingProgressOf 793100000000000,
            cp_graduated = False,
            cp_reserves = \<lparr>virtualTokenReserves = 1072000000000000,
              virtualSolReserves = 30000000007, realTokenReserves = 793100000000000,
              realSolReserves = 1, tokenTotalSupply = 1000000000000000, complete = False\<rparr> \<rparr>"
    using raw_general [OF disc_drift readCurve_drift] by (simp add: price_rd)
  show ?thesis
    by (simp add: g r drift_sources succeed_def TOKEN_DECIMALS_def SOL_DECIMALS_def price_rd)
qed


lemma pump_absent: "getPumpFunPrice (Inr None) = None"
  by (simp add: getPumpFunPrice_def getPumpFunPrice_try_def andThen_def)




lemma dead_sources:
  "querySources ps (deadNetwork t) k now =
     (case priceCache ps k of Some c \<Rightarrow> c \<lparr> q_stale := True \<rparr> | None \<Rightarrow> noneQuote k now,
      recordFailedAttempt ps k t,
      [RpcGetAccountInfo, JupiterQuote, DexScreenerTokens])"
  by (simp add: querySources_def deadNetwork_def pump_absent getPriceForGraduated_def
      getPriceFromDexScreener_def falsy_def recordFailedAttempt_def Let_def)

lemma afterSuccess_eq:
  "priceCache afterSuccess ''M'' = Some \<lparr> q_mint = ''M'', q_price = Some (rd (30 / 1000000)), q_source = ''pump.fun'',
              q_bondingProgress = Some (bondingProgressOf 500000000000000),
              q_graduated = Some False, q_ts = 0, q_error = None, q_stale = False \<rparr>"
  "failedAttempts afterSuccess ''M'' = None"
  by (simp_all add: afterSuccess_def getPrice_fresh newPriceService_def live_sources succeed_def
     resetFailedAttempts_def)

lemma getPrice_miss:
  assumes "case failedAttempts ps k of None \<Rightarrow> True
           | Some f \<Rightarrow> \<not> now - lastAttempt f > failedAttemptsResetMs \<and> \<not> count f \<ge> maxFailedAttempts"
    and "case priceCache ps k of None \<Rightarrow> True | Some c \<Rightarrow> \<not> now - q_ts c < cacheMs"
  shows "getPrice ps net k False now = querySources ps net k now"
  using assms
  by (cases "failedAttempts ps k"; cases "priceCache ps k") (simp_all add: getPrice_def Let_def)

lemma three_misses:
  assumes "failedAttempts ps ''M'' = None"
    and "case priceCache ps ''M'' of None \<Rightarrow> True | Some c \<Rightarrow> \<not> t1 - q_ts c < cacheMs"
    and "t1 \<le> t2" "t2 \<le> t3" "t3 - t1 \<le> 60000"
  shows "failedAttempts (afterThreeMisses ps t1 t2 t3) ''M'' = Some \<lparr> count = 3, lastAttempt = t3 \<rparr>"
    and "priceCache (afterThreeMisses ps t1 t2 t3) = priceCache ps"
proof -
  let ?ps1 = "recordFailedAttempt ps ''M'' t1"
  let ?ps2 = "recordFailedAttempt ?ps1 ''M'' t2"
  let ?ps3 = "recordFailedAttempt ?ps2 ''M'' t3"
  have c: "priceCache (recordFailedAttempt p k t) = priceCache p" for p k t
    by (simp add: recordFailedAttempt_def Let_def)
  have 1: "getPrice ps (deadNetwork t1) ''M'' False t1 = querySources ps (deadNetwork t1) ''M'' t1"
    using assms by (intro getPrice_miss) simp_all
  have f1: "failedAttempts ?ps1 ''M'' = Some \<lparr> count = 1, lastAttempt = t1 \<rparr>"
    using assms(1) by (simp add: recordFailedAttempt_def orDefault_def)
  have 2: "getPrice ?ps1 (deadNetwork t2) ''M'' False t2 = querySources ?ps1 (deadNetwork t2) ''M'' t2"
    using assms f1 by (intro getPrice_miss) (auto simp: c failedAttemptsResetMs_def maxFailedAttempts_def cacheMs_def split: option.splits)
  have f2: "failedAttempts ?ps2 ''M'' = Some \<lparr> count = 2, lastAttempt = t2 \<rparr>"
    using f1 by (simp add: recordFailedAttempt_def orDefault_def)
  have 3: "getPrice ?ps2 (deadNetwork t3) ''M'' False t3 = querySources ?ps2 (deadNetwork t3) ''M'' t3"
    using assms f2 by (intro getPrice_miss) (auto simp: c failedAttemptsResetMs_def maxFailedAttempts_def cacheMs_def split: option.splits)
  have f3: "failedAttempts ?ps3 ''M'' = Some \<lparr> count = 3, lastAttempt = t3 \<rparr>"
    using f2 by (simp add: recordFailedAttempt_def orDefault_def)
  have e: "afterThreeMisses ps t1 t2 t3 = ?ps3"
    by (simp add: afterThreeMisses_def 1 2 3 dead_sources Let_def)
  show "failedAttempts (afterThreeMisses ps t1 t2 t3) ''M'' = Some \<lparr> count = 3, lastAttempt = t3 \<rparr>"
    using e f3 by simp
  show "priceCache (afterThreeMisses ps t1 t2 t3) = priceCache ps"
    using e c by simp
qed






lemma querySources_success_resets:
  assumes "q_price (fst (querySources ps net k now)) \<noteq> None"
    and "\<not> q_stale (fst (querySources ps net k now))"
  shows "failedAttempts (fst (snd (querySources ps net k now))) k = None"
  using assms
  by (auto simp: querySources_def succeed_def resetFailedAttempts_def Let_def noneQuote_def
      split: option.splits if_splits)

text \<open>
  Claim C6. When the failure entry of an instrument counts at least 3 failures, the last
  one less than 60 seconds before \<open>now\<close>, and no quote is cached, a call without
  \<open>forceFresh\<close> makes no network call, leaves the state as it is and returns the quote
  \<open>skipped\<close> with no price. When the last failure is more than 60 seconds old, such a call
  drops the entry first and goes on as if there were none. A call that queried the
  sources and returns a price that is not a stale cached one leaves no failure entry
  for the instrument.
\<close>

theorem failure_backoff:
  "(\<not> ff \<and> failedAttempts ps k = Some f \<and> 3 \<le> count f \<and> now - lastAttempt f < 60000 \<and>
    priceCache ps k = None \<longrightarrow>
      getPrice ps net k ff now = (skippedQuote k now, ps, []) \<and>
      q_price (skippedQuote k now) = None \<and> q_source (skippedQuote k now) = ''skipped'') \<and>
   (\<not> ff \<and> failedAttempts ps k = Some f \<and> now - lastAttempt f > 60000 \<longrightarrow>
      getPrice ps net k ff now = getPrice (resetFailedAttempts ps k) net k ff now \<and>
      failedAttempts (resetFailedAttempts ps k) k = None) \<and>
   (snd (snd (getPrice ps net k ff now)) \<noteq> [] \<and>
    q_price (fst (getPrice ps net k ff now)) \<noteq> None \<and>
    \<not> q_stale (fst (getPrice ps net k ff now)) \<longrightarrow>
      failedAttempts (fst (snd (getPrice ps net k ff now))) k = None)"
proof (intro conjI impI)
  assume a: "\<not> ff \<and> failedAttempts ps k = Some f \<and> 3 \<le> count f \<and> now - lastAttempt f < 60000 \<and>
    priceCache ps k = None"
  then show "getPrice ps net k ff now = (skippedQuote k now, ps, [])"
    by (simp add: getPrice_def failedAttemptsResetMs_def maxFailedAttempts_def)
  show "q_price (skippedQuote k now) = None" by (simp add: skippedQuote_def)
  show "q_source (skippedQuote k now) = ''skipped''" by (simp add: skippedQuote_def)
next
  assume a: "\<not> ff \<and> failedAttempts ps k = Some f \<and> now - lastAttempt f > 60000"
  show r: "failedAttempts (resetFailedAttempts ps k) k = None"
    by (simp add: resetFailedAttempts_def)
  have c: "priceCache (resetFailedAttempts ps k) = priceCache ps"
    by (simp add: resetFailedAttempts_def)
  have i: "resetFailedAttempts (resetFailedAttempts ps k) k = resetFailedAttempts ps k"
    by (simp add: resetFailedAttempts_def)
  show "getPrice ps net k ff now = getPrice (resetFailedAttempts ps k) net k ff now"
    using a r c by (simp add: getPrice_def failedAttemptsResetMs_def Let_def)
next
  assume a: "snd (snd (getPrice ps net k ff now)) \<noteq> [] \<and>
    q_price (fst (getPrice ps net k ff now)) \<noteq> None \<and>
    \<not> q_stale (fst (getPrice ps net k ff now))"
  from getPrice_calls [of ps net k ff now] a obtain ps' where
    g: "getPrice ps net k ff now = querySources ps' net k now" by blast
  with a querySources_success_resets [of ps' net k now]
  show "failedAttempts (fst (snd (getPrice ps net k ff now))) k = None" by simp
qed

text \<open>
  The theorem after three resolutions at 1 s, 2 s and 3 s in which every source misses:
  the call at 4 s is skipped, and the call at 70 s clears the entry, finds the live curve
  and leaves no entry behind.
\<close>

theorem failure_backoff_witness:
  "failedAttempts (afterThreeMisses newPriceService 1000 2000 3000) ''M'' =
     Some \<lparr> count = 3, lastAttempt = 3000 \<rparr> \<and>
   getPrice (afterThreeMisses newPriceService 1000 2000 3000) (liveCurveNetwork 4000) ''M''
       False 4000 =
     (skippedQuote ''M'' 4000, afterThreeMisses newPriceService 1000 2000 3000, []) \<and>
   getPrice (afterThreeMisses newPriceService 1000 2000 3000) (liveCurveNetwork 70000) ''M''
       False 70000 =
     getPrice (resetFailedAttempts (afterThreeMisses newPriceService 1000 2000 3000) ''M'')
       (liveCurveNetwork 70000) ''M'' False 70000 \<and>
   failedAttempts
     (fst (snd (getPrice (afterThreeMisses newPriceService 1000 2000 3000)
                  (liveCurveNetwork 70000) ''M'' False 70000))) ''M'' = None"
proof -
  let ?ps = "afterThreeMisses newPriceService 1000 2000 3000"
  let ?f = "\<lparr> count = 3, lastAttempt = 3000 \<rparr>"
  have f: "failedAttempts ?ps ''M'' = Some ?f"
    by (rule three_misses) (simp_all add: newPriceService_def)
  have c: "priceCache ?ps ''M'' = None"
    using three_misses(2) [of newPriceService 1000 2000 3000]
    by (simp add: newPriceService_def)
  have h1: "\<not> False \<and> failedAttempts ?ps ''M'' = Some ?f \<and> 3 \<le> count ?f \<and>
      4000 - lastAttempt ?f < 60000 \<and> priceCache ?ps ''M'' = None"
    using f c by simp
  from failure_backoff [of False ?ps "''M''" ?f 4000 "liveCurveNetwork 4000"] h1
  have 1: "getPrice ?ps (liveCurveNetwork 4000) ''M'' False 4000 = (skippedQuote ''M'' 4000, ?ps, [])"
    by blast
  have h2: "\<not> False \<and> failedAttempts ?ps ''M'' = Some ?f \<and> 70000 - lastAttempt ?f > 60000"
    using f by simp
  from failure_backoff [of False ?ps "''M''" ?f 70000 "liveCurveNetwork 70000"] h2
  have 2: "getPrice ?ps (liveCurveNetwork 70000) ''M'' False 70000 =
           getPrice (resetFailedAttempts ?ps ''M'') (liveCurveNetwork 70000) ''M'' False 70000"
    by blast
  have g: "getPrice ?ps (liveCurveNetwork 70000) ''M'' False 70000 =
        querySources (resetFailedAttempts ?ps ''M'') (liveCurveNetwork 70000) ''M'' 70000"
    using f c by (simp add: getPrice_def failedAttemptsResetMs_def resetFailedAttempts_def)
  have h3: "snd (snd (getPrice ?ps (liveCurveNetwork 70000) ''M'' False 70000)) \<noteq> [] \<and>
    q_price (fst (getPrice ?ps (liveCurveNetwork 70000) ''M'' False 70000)) \<noteq> None \<and>
    \<not> q_stale (fst (getPrice ?ps (liveCurveNetwork 70000) ''M'' False 70000))"
    by (simp add: g live_sources succeed_def)
  from failure_backoff [of False ?ps "''M''" _ 70000 "liveCurveNetwork 70000"] h3
  have 3: "failedAttempts (fst (snd (getPrice ?ps (liveCurveNetwork 70000) ''M'' False 70000))) ''M'' = None"
    by blast
  from f 1 2 3 show ?thesis by blast
qed

text \<open>
  Claim C7 at a failing input. After a resolution from the live curve at time 0 and three
  resolutions at 10 s, 11 s and 12 s in which every source misses, the call at 13 s takes
  the failure-backoff path: it makes no network call and returns the quote cached at
  time 0, 13 seconds old, with \<open>stale\<close> unset. The path taken when all sources fail (the
  call at 10 s) does mark the same quote stale.
\<close>

theorem backoff_returns_unmarked_cache:
  "failedAttempts (afterThreeMisses afterSuccess 10000 11000 12000) ''M'' =
     Some \<lparr> count = 3, lastAttempt = 12000 \<rparr> \<and>
   snd (snd (getPrice (afterThreeMisses afterSuccess 10000 11000 12000) (deadNetwork 13000)
               ''M'' False 13000)) = [] \<and>
   q_ts (fst (getPrice (afterThreeMisses afterSuccess 10000 11000 12000) (deadNetwork 13000)
               ''M'' False 13000)) = 0 \<and>
   cacheMs \<le> 13000 - 0 \<and>
   q_stale (fst (getPrice (afterThreeMisses afterSuccess 10000 11000 12000) (deadNetwork 13000)
               ''M'' False 13000)) = False \<and>
   q_stale (fst (getPrice afterSuccess (deadNetwork 10000) ''M'' False 10000)) = True"
proof -
  let ?ps = "afterThreeMisses afterSuccess 10000 11000 12000"
  have f: "failedAttempts ?ps ''M'' = Some \<lparr> count = 3, lastAttempt = 12000 \<rparr>"
    by (rule three_misses) (simp_all add: afterSuccess_eq cacheMs_def)
  have c: "priceCache ?ps = priceCache afterSuccess"
    by (rule three_misses) (simp_all add: afterSuccess_eq cacheMs_def)
  have g: "getPrice ?ps (deadNetwork 13000) ''M'' False 13000 =
     (\<lparr> q_mint = ''M'', q_price = Some (rd (30 / 1000000)), q_source = ''pump.fun'',
              q_bondingProgress = Some (bondingProgressOf 500000000000000),
              q_graduated = Some False, q_ts = 0, q_error = None, q_stale = False \<rparr>, ?ps, [])"
    using f c afterSuccess_eq
    by (simp add: getPrice_def failedAttemptsResetMs_def maxFailedAttempts_def)
  have s: "getPrice afterSuccess (deadNetwork 10000) ''M'' False 10000 =
        querySources afterSuccess (deadNetwork 10000) ''M'' 10000"
    by (rule getPrice_miss) (simp_all add: afterSuccess_eq cacheMs_def)
  show ?thesis
    by (simp add: f g s dead_sources afterSuccess_eq cacheMs_def)
qed

section \<open>Properties of the execution client\<close>

text \<open>
  The Local API variant verifies the balances: a live buy that reports success received
  tokens, and a live sell that reports success sold tokens and received SOL.
\<close>

lemma buyToken_verified:
  assumes "success (buyToken False w rnd net mint sol)"
  shows "\<exists>v. tokensReceived (buyToken False w rnd net mint sol) = Some v \<and> 0 < v"
  using assms
  by (auto simp: buyToken_def andThen_def failure_def Let_def split: sum.splits if_splits)

lemma sellToken_verified:
  assumes "success (sellToken False w rnd net mint amt)"
  shows "\<exists>v s. tokensSold (sellToken False w rnd net mint amt) = Some (Tokens v) \<and> 0 < v \<and>
           solReceived (sellToken False w rnd net mint amt) = Some s \<and> 0 < s"
  using assms
  by (auto simp: sellToken_def andThen_def failure_def Let_def split: sum.splits if_splits)

text \<open>The Local variant rejects the transaction without movement.\<close>

lemma idle_details: "failed (getTxDetails ''W'' (getTransaction idleNetwork))"
  by (simp add: idleNetwork_def idleTransaction_def getTxDetails_def parseTx_def
      walletIndexOf_def balanceAt_def amountOf_def orDefault_def failedDetails_def Let_def)

text \<open>
  Claim C1 at a failing input. The endpoint answers 200 with a signature and the
  transaction found on chain moves neither the token balances nor the lamports of the
  signer. The Lightning API variant of \<open>buyToken\<close> reports success with
  \<open>tokensReceived\<close> 0, and of \<open>sellToken\<close> success with \<open>solReceived\<close> 0; it does the
  same when the transaction is not found at all. The Local API variant finds the
  transaction without movement failed and reports no success.
\<close>

theorem lightning_success_without_movement:
  "success (buyToken_lightning ''W'' idleNetwork ''X'' 0.1) = True \<and>
   tokensReceived (buyToken_lightning ''W'' idleNetwork ''X'' 0.1) = Some 0 \<and>
   success (sellToken_lightning ''W'' idleNetwork ''X'' (Tokens 1000)) = True \<and>
   solReceived (sellToken_lightning ''W'' idleNetwork ''X'' (Tokens 1000)) = Some 0 \<and>
   success (buyToken_lightning ''W'' (idleNetwork \<lparr> getTransaction := Inr None \<rparr>)
              ''X'' 0.1) = True \<and>
   tokensReceived (buyToken_lightning ''W'' (idleNetwork \<lparr> getTransaction := Inr None \<rparr>)
              ''X'' 0.1) = Some 0 \<and>
   failed (getTxDetails ''W'' (getTransaction idleNetwork)) = True \<and>
   success (buyToken False ''W'' drawsLow idleNetwork ''X'' 0.1) = False"
proof -
  have n: "getTxDetails_lightning ''W'' (Inr None) =
             Some \<lparr> lt_tokensReceived = None, lt_solReceived = None \<rparr>"
    by (simp add: getTxDetails_lightning_def parseTx_lightning_def)
  have pn: "post_trade (idleNetwork \<lparr> getTransaction := Inr None \<rparr>) =
             Inr \<lparr> status = 200, hasData = True, dataSignature = Some ''sig'' \<rparr>"
    by (simp add: idleNetwork_def)
  have 7: "success (buyToken_lightning ''W'' (idleNetwork \<lparr> getTransaction := Inr None \<rparr>)
              ''X'' 0.1) = True"
    by (simp add: buyToken_lightning_def andThen_def pn Let_def)
  have 8: "tokensReceived (buyToken_lightning ''W''
              (idleNetwork \<lparr> getTransaction := Inr None \<rparr>) ''X'' 0.1) = Some 0"
    by (simp add: buyToken_lightning_def andThen_def pn n Let_def orZero_def orDefault_def)
  have d: "getTxDetails_lightning ''W'' (getTransaction idleNetwork) =
             Some \<lparr> lt_tokensReceived = Some 0, lt_solReceived = Some 0 \<rparr>"
    by (simp add: idleNetwork_def idleTransaction_def getTxDetails_lightning_def
        parseTx_lightning_def firstAmount_def orDefault_def Let_def)
  have p: "post_trade idleNetwork =
             Inr \<lparr> status = 200, hasData = True, dataSignature = Some ''sig'' \<rparr>"
    by (simp add: idleNetwork_def)
  have 1: "success (buyToken_lightning ''W'' idleNetwork ''X'' 0.1) = True"
    by (simp add: buyToken_lightning_def andThen_def p Let_def)
  have 2: "tokensReceived (buyToken_lightning ''W'' idleNetwork ''X'' 0.1) = Some 0"
    by (simp add: buyToken_lightning_def andThen_def p d Let_def orZero_def orDefault_def)
  have 3: "success (sellToken_lightning ''W'' idleNetwork ''X'' (Tokens 1000)) = True"
    by (simp add: sellToken_lightning_def andThen_def p Let_def)
  have 4: "solReceived (sellToken_lightning ''W'' idleNetwork ''X'' (Tokens 1000)) = Some 0"
    by (simp add: sellToken_lightning_def andThen_def p d Let_def orZero_def orDefault_def)
  have 6: "success (buyToken False ''W'' drawsLow idleNetwork ''X'' 0.1) = False"
    using idle_details
    by (simp add: buyToken_def andThen_def p failure_def Let_def idleNetwork_def)
  from 1 2 3 4 7 8 idle_details 6 show ?thesis by simp
qed

text \<open>The success flag and the amount of the Lightning buy, from the theorem.\<close>

theorem lightning_success_without_movement_witness:
  "success (buyToken_lightning ''W'' idleNetwork ''X'' 0.1) = True \<and>
   tokensReceived (buyToken_lightning ''W'' idleNetwork ''X'' 0.1) = Some 0"
  using lightning_success_without_movement by blast

text \<open>The roundings met in the dry run of a buy of 0.1 SOL and a sell of 1000 tokens.\<close>

lemma dry_rd_1: "rd (1 / 1000000) = 4722366482869645 / 4722366482869645213696"
  using rd_eval [of "- 72" "1 / 1000000"] by (simp add: pow2_def rne_def)

lemma dry_rd_2: "rd (1 / 10) = 3602879701896397 / 36028797018963968"
  using rd_eval [of "- 56" "1 / 10"] by (simp add: pow2_def rne_def)

lemma dry_rd_3: "rd (472236648286964547584 / 4722366482869645) = 6871947673600001 / 68719476736"
  using rd_eval [of "- 36" "472236648286964547584 / 4722366482869645"] by (simp add: pow2_def rne_def)

lemma dry_rd_4: "rd (590295810358705625 / 590295810358705651712) = 1152921504606847 / 1152921504606846976"
  using rd_eval [of "- 62" "590295810358705625 / 590295810358705651712"] by (simp add: pow2_def rne_def)

lemma dry_rd_5: "rd 8 = 8"
  using rd_eval [of "- 49" "8"] by (simp add: pow2_def rne_def)

lemmas dry_rd = dry_rd_1 dry_rd_2 dry_rd_3 dry_rd_4 dry_rd_5

lemma fakeSignature_last: "fakeSignature rnd = fakeSigLoop 87 rnd @ pickChar (rnd 87)"
proof -
  have "(88::nat) = Suc 87" by simp
  then show ?thesis by (simp only: fakeSignature_def fakeSigLoop.simps)
qed

lemma pickChar_draws: "pickChar (drawsLow i) = ''a''" "pickChar (drawsMid i) = ''2''"
  by (simp_all add: pickChar_def drawsLow_def drawsMid_def hexChars_def Let_def rd_0 dry_rd)

text \<open>
  A draw is a double that is at least 0 and less than 1: sixteen times a draw is a double
  again, so every draw picks one of the sixteen characters.
\<close>

lemma rd_scale16:
  assumes "rd r = r"
  shows "rd (r * 16) = r * 16"
proof -
  from rd_form [of r] assms obtain m where
    m: "\<bar>m\<bar> \<le> 2 ^ 53" "r = of_int m * pow2 (ulpExp r)" by auto
  have "pow2 (ulpExp r + 4) = pow2 (ulpExp r) * 16"
    using pow2_add [of "ulpExp r" 4] by (simp add: pow2_def)
  then have "r * 16 = of_int m * pow2 (ulpExp r + 4)" using m(2) by simp
  moreover have "rd (of_int m * pow2 (ulpExp r + 4)) = of_int m * pow2 (ulpExp r + 4)"
    using m(1) ulpExp_ge [of r] by (intro rd_repr) simp_all
  ultimately show ?thesis by simp
qed

lemma pickChar_single:
  assumes "rd r = r" "0 \<le> r" "r < 1"
  shows "\<exists>c \<in> set hexChars. pickChar r = [c]"
proof -
  have s: "rd (r * 16) = r * 16" using assms(1) by (rule rd_scale16)
  have f: "0 \<le> \<lfloor>r * 16\<rfloor>" "\<lfloor>r * 16\<rfloor> < 16"
    using assms(2,3) by (simp_all add: floor_less_iff)
  then have p: "pickChar r = [hexChars ! nat \<lfloor>r * 16\<rfloor>]"
    by (simp add: pickChar_def s Let_def)
  have "length hexChars = 16" by (simp add: hexChars_def)
  with f have "nat \<lfloor>r * 16\<rfloor> < length hexChars" by linarith
  then have "hexChars ! nat \<lfloor>r * 16\<rfloor> \<in> set hexChars" by (rule nth_mem)
  with p show ?thesis by blast
qed

lemma fakeSigLoop_chars:
  assumes "\<forall>i<n. rd (rnd i) = rnd i \<and> 0 \<le> rnd i \<and> rnd i < 1"
  shows "length (fakeSigLoop n rnd) = n \<and> set (fakeSigLoop n rnd) \<subseteq> set hexChars"
  using assms
proof (induction n)
  case 0
  show ?case by simp
next
  case (Suc n)
  from Suc.prems have "rd (rnd n) = rnd n" "0 \<le> rnd n" "rnd n < 1" by simp_all
  from pickChar_single [OF this] obtain c where "c \<in> set hexChars" "pickChar (rnd n) = [c]"
    by blast
  moreover from Suc have "length (fakeSigLoop n rnd) = n \<and> set (fakeSigLoop n rnd) \<subseteq> set hexChars"
    by simp
  ultimately show ?case by simp
qed

lemma fakeSigLoop_eq:
  assumes "\<forall>i<n. rd (rnd i) = rnd i \<and> 0 \<le> rnd i \<and> rnd i < 1"
    and "\<forall>i<n. rd (rnd' i) = rnd' i \<and> 0 \<le> rnd' i \<and> rnd' i < 1"
  shows "fakeSigLoop n rnd' = fakeSigLoop n rnd \<longleftrightarrow> (\<forall>i<n. pickChar (rnd' i) = pickChar (rnd i))"
  using assms
proof (induction n)
  case 0
  show ?case by simp
next
  case (Suc n)
  have l: "length (fakeSigLoop n rnd') = length (fakeSigLoop n rnd)"
    using fakeSigLoop_chars [of n rnd] fakeSigLoop_chars [of n rnd'] Suc.prems by simp
  have ih: "fakeSigLoop n rnd' = fakeSigLoop n rnd \<longleftrightarrow>
            (\<forall>i<n. pickChar (rnd' i) = pickChar (rnd i))"
    using Suc by simp
  have "fakeSigLoop (Suc n) rnd' = fakeSigLoop (Suc n) rnd \<longleftrightarrow>
        fakeSigLoop n rnd' = fakeSigLoop n rnd \<and> pickChar (rnd' n) = pickChar (rnd n)"
    using l by simp
  also have "\<dots> \<longleftrightarrow> (\<forall>i<Suc n. pickChar (rnd' i) = pickChar (rnd i))"
    unfolding ih by (auto simp add: less_Suc_eq)
  finally show ?case .
qed

lemma liveCalls_first: "liveCalls net \<noteq> []"
  by (simp add: liveCalls_def)

text \<open>
  Claim C9, as the code has it. In dry-run mode \<open>buyToken\<close> and \<open>sellToken\<close> are the
  simulations and issue no request, where the live path issues at least one. A buy
  succeeds with \<open>tokensReceived = solAmount / 0.000001\<close>, a sell with the amount asked as
  \<open>tokensSold\<close> and \<open>solReceived = amount * 0.000001\<close> (0 for a percentage), in double
  arithmetic. Two calls with the same arguments agree on every field but the signature
  and the time stamp. The time stamp is the clock. The signature is made of the 88 random
  draws: it has 88 characters of \<^verbatim>\<open>abcdef0123456789\<close>, and two calls return the same
  signature exactly when each of their draws picks the same character.
\<close>

theorem dry_run_synthetic:
  "buyToken_run True w rnd net mint sol = (simulateBuy rnd (clock net) mint sol, []) \<and>
   sellToken_run True w rnd net mint amt = (simulateSell rnd (clock net) mint amt, []) \<and>
   fst (buyToken_run dry w rnd net mint sol) = buyToken dry w rnd net mint sol \<and>
   fst (sellToken_run dry w rnd net mint amt) = sellToken dry w rnd net mint amt \<and>
   snd (buyToken_run False w rnd net mint sol) \<noteq> [] \<and>
   snd (sellToken_run False w rnd net mint amt) \<noteq> [] \<and>
   success (buyToken True w rnd net mint sol) = True \<and>
   simulated (buyToken True w rnd net mint sol) = True \<and>
   er_solSpent (buyToken True w rnd net mint sol) = Some sol \<and>
   (\<bar>sol\<bar> \<le> 10 ^ 300 \<longrightarrow>
      tokensReceived (buyToken True w rnd net mint sol) = Some (rd (sol / rd 0.000001))) \<and>
   signature (buyToken True w rnd net mint sol) = Some (fakeSignature rnd) \<and>
   timestamp (buyToken True w rnd net mint sol) = Some (clock net) \<and>
   success (sellToken True w rnd net mint amt) = True \<and>
   simulated (sellToken True w rnd net mint amt) = True \<and>
   tokensSold (sellToken True w rnd net mint amt) = Some amt \<and>
   solReceived (sellToken True w rnd net mint (Tokens n)) = Some (rd (n * rd 0.000001)) \<and>
   solReceived (sellToken True w rnd net mint (Percent p)) = Some 0 \<and>
   signature (sellToken True w rnd net mint amt) = Some (fakeSignature rnd) \<and>
   timestamp (sellToken True w rnd net mint amt) = Some (clock net) \<and>
   (buyToken True w' rnd' net' mint sol) \<lparr> signature := None, timestamp := None \<rparr> =
     (buyToken True w rnd net mint sol) \<lparr> signature := None, timestamp := None \<rparr> \<and>
   (sellToken True w' rnd' net' mint amt) \<lparr> signature := None, timestamp := None \<rparr> =
     (sellToken True w rnd net mint amt) \<lparr> signature := None, timestamp := None \<rparr> \<and>
   ((\<forall>i<88. rd (rnd i) = rnd i \<and> 0 \<le> rnd i \<and> rnd i < 1) \<longrightarrow>
      length (fakeSignature rnd) = 88 \<and> set (fakeSignature rnd) \<subseteq> set hexChars) \<and>
   ((\<forall>i<88. rd (rnd i) = rnd i \<and> 0 \<le> rnd i \<and> rnd i < 1) \<and>
    (\<forall>i<88. rd (rnd' i) = rnd' i \<and> 0 \<le> rnd' i \<and> rnd' i < 1) \<longrightarrow>
      (signature (buyToken True w' rnd' net' mint sol) =
         signature (buyToken True w rnd net mint sol) \<longleftrightarrow>
       (\<forall>i<88. pickChar (rnd' i) = pickChar (rnd i))))"
proof -
  have sig: "signature (buyToken True w' rnd' net' mint sol) =
         signature (buyToken True w rnd net mint sol) \<longleftrightarrow>
       (\<forall>i<88. pickChar (rnd' i) = pickChar (rnd i))"
    if "(\<forall>i<88. rd (rnd i) = rnd i \<and> 0 \<le> rnd i \<and> rnd i < 1) \<and>
        (\<forall>i<88. rd (rnd' i) = rnd' i \<and> 0 \<le> rnd' i \<and> rnd' i < 1)"
    using fakeSigLoop_eq [of 88 rnd rnd'] that
    by (simp add: buyToken_def simulateBuy_def fakeSignature_def Let_def)
  have len: "length (fakeSignature rnd) = 88 \<and> set (fakeSignature rnd) \<subseteq> set hexChars"
    if "\<forall>i<88. rd (rnd i) = rnd i \<and> 0 \<le> rnd i \<and> rnd i < 1"
    using fakeSigLoop_chars [of 88 rnd] that by (simp add: fakeSignature_def)
  have rest: "buyToken_run True w rnd net mint sol = (simulateBuy rnd (clock net) mint sol, []) \<and>
   sellToken_run True w rnd net mint amt = (simulateSell rnd (clock net) mint amt, []) \<and>
   fst (buyToken_run dry w rnd net mint sol) = buyToken dry w rnd net mint sol \<and>
   fst (sellToken_run dry w rnd net mint amt) = sellToken dry w rnd net mint amt \<and>
   snd (buyToken_run False w rnd net mint sol) \<noteq> [] \<and>
   snd (sellToken_run False w rnd net mint amt) \<noteq> [] \<and>
   success (buyToken True w rnd net mint sol) = True \<and>
   simulated (buyToken True w rnd net mint sol) = True \<and>
   er_solSpent (buyToken True w rnd net mint sol) = Some sol \<and>
   tokensReceived (buyToken True w rnd net mint sol) = Some (rd (sol / rd 0.000001)) \<and>
   signature (buyToken True w rnd net mint sol) = Some (fakeSignature rnd) \<and>
   timestamp (buyToken True w rnd net mint sol) = Some (clock net) \<and>
   success (sellToken True w rnd net mint amt) = True \<and>
   simulated (sellToken True w rnd net mint amt) = True \<and>
   tokensSold (sellToken True w rnd net mint amt) = Some amt \<and>
   solReceived (sellToken True w rnd net mint (Tokens n)) = Some (rd (n * rd 0.000001)) \<and>
   solReceived (sellToken True w rnd net mint (Percent p)) = Some 0 \<and>
   signature (sellToken True w rnd net mint amt) = Some (fakeSignature rnd) \<and>
   timestamp (sellToken True w rnd net mint amt) = Some (clock net) \<and>
   (buyToken True w' rnd' net' mint sol) \<lparr> signature := None, timestamp := None \<rparr> =
     (buyToken True w rnd net mint sol) \<lparr> signature := None, timestamp := None \<rparr> \<and>
   (sellToken True w' rnd' net' mint amt) \<lparr> signature := None, timestamp := None \<rparr> =
     (sellToken True w rnd net mint amt) \<lparr> signature := None, timestamp := None \<rparr>"
    by (cases amt; cases dry)
       (simp_all add: buyToken_run_def sellToken_run_def buyToken_def sellToken_def
          simulateBuy_def simulateSell_def liveCalls_first Let_def)
  from rest sig len show ?thesis by blast
qed

text \<open>
  The theorem at a buy of the double 0.1 SOL and a sell of 1000 tokens, under two runs of
  draws and two networks.
\<close>

theorem dry_run_synthetic_witness:
  "buyToken_run True ''W'' drawsLow idleNetwork ''X'' (rd 0.1) =
     (simulateBuy drawsLow (clock idleNetwork) ''X'' (rd 0.1), []) \<and>
   snd (buyToken_run False ''W'' drawsLow idleNetwork ''X'' (rd 0.1)) \<noteq> [] \<and>
   tokensReceived (buyToken True ''W'' drawsLow idleNetwork ''X'' (rd 0.1)) =
     Some (6871947673600001 / 2 ^ 36) \<and>
   solReceived (sellToken True ''W'' drawsLow idleNetwork ''X'' (Tokens 1000)) =
     Some (1152921504606847 / 2 ^ 60) \<and>
   (buyToken True ''V'' drawsMid (idleNetwork \<lparr> getTransaction := Inr None \<rparr>) ''X'' (rd 0.1))
       \<lparr> signature := None, timestamp := None \<rparr> =
     (buyToken True ''W'' drawsLow idleNetwork ''X'' (rd 0.1))
       \<lparr> signature := None, timestamp := None \<rparr> \<and>
   length (fakeSignature drawsLow) = 88 \<and>
   signature (buyToken True ''V'' drawsLow (idleNetwork \<lparr> getTransaction := Inr None \<rparr>)
                ''X'' (rd 0.1)) =
     signature (buyToken True ''W'' drawsLow idleNetwork ''X'' (rd 0.1)) \<and>
   signature (buyToken True ''W'' drawsMid idleNetwork ''X'' (rd 0.1)) \<noteq>
     signature (buyToken True ''W'' drawsLow idleNetwork ''X'' (rd 0.1))"
proof -
  let ?n = "idleNetwork \<lparr> getTransaction := Inr None \<rparr>"
  have half: "rd (1 / 2) = 1 / 2" using rd_repr [of 1 "- 1"] by (simp add: pow2_def)
  have lo: "\<forall>i<88. rd (drawsLow i) = drawsLow i \<and> 0 \<le> drawsLow i \<and> drawsLow i < 1"
    by (simp add: drawsLow_def rd_0)
  have mid: "\<forall>i<88. rd (drawsMid i) = drawsMid i \<and> 0 \<le> drawsMid i \<and> drawsMid i < 1"
    by (simp add: drawsMid_def half)
  have small: "\<bar>rd 0.1\<bar> \<le> 10 ^ 300" by (simp add: dry_rd)
  note t = dry_run_synthetic [of "''W''" drawsLow idleNetwork "''X''" "rd 0.1" "Tokens 1000"
      False 1000 "''p''" "''V''" drawsMid ?n]
  from t have 1: "buyToken_run True ''W'' drawsLow idleNetwork ''X'' (rd 0.1) =
     (simulateBuy drawsLow (clock idleNetwork) ''X'' (rd 0.1), [])" by blast
  from t have 2: "snd (buyToken_run False ''W'' drawsLow idleNetwork ''X'' (rd 0.1)) \<noteq> []"
    by blast
  from t small
  have "tokensReceived (buyToken True ''W'' drawsLow idleNetwork ''X'' (rd 0.1)) =
          Some (rd (rd 0.1 / rd 0.000001))" by blast
  then have 3: "tokensReceived (buyToken True ''W'' drawsLow idleNetwork ''X'' (rd 0.1)) =
     Some (6871947673600001 / 2 ^ 36)" by (simp add: dry_rd)
  from t have "solReceived (sellToken True ''W'' drawsLow idleNetwork ''X'' (Tokens 1000)) =
     Some (rd (1000 * rd 0.000001))" by blast
  then have 4: "solReceived (sellToken True ''W'' drawsLow idleNetwork ''X'' (Tokens 1000)) =
     Some (1152921504606847 / 2 ^ 60)" by (simp add: dry_rd)
  from t have 5: "(buyToken True ''V'' drawsMid ?n ''X'' (rd 0.1))
       \<lparr> signature := None, timestamp := None \<rparr> =
     (buyToken True ''W'' drawsLow idleNetwork ''X'' (rd 0.1))
       \<lparr> signature := None, timestamp := None \<rparr>" by blast
  from t lo have 6: "length (fakeSignature drawsLow) = 88" by blast
  note u = dry_run_synthetic [of "''W''" drawsLow idleNetwork "''X''" "rd 0.1" "Tokens 1000"
      False 1000 "''p''" "''V''" drawsLow ?n]
  from u lo have 7: "signature (buyToken True ''V'' drawsLow ?n ''X'' (rd 0.1)) =
     signature (buyToken True ''W'' drawsLow idleNetwork ''X'' (rd 0.1))" by blast
  note v = dry_run_synthetic [of "''W''" drawsLow idleNetwork "''X''" "rd 0.1" "Tokens 1000"
      False 1000 "''p''" "''W''" drawsMid idleNetwork]
  have "pickChar (drawsMid 0) \<noteq> pickChar (drawsLow 0)" by (simp add: pickChar_draws)
  moreover have "(0::nat) < 88" by simp
  ultimately have "\<not> (\<forall>i<88. pickChar (drawsMid i) = pickChar (drawsLow i))" by blast
  with v lo mid have 8: "signature (buyToken True ''W'' drawsMid idleNetwork ''X'' (rd 0.1)) \<noteq>
     signature (buyToken True ''W'' drawsLow idleNetwork ''X'' (rd 0.1))" by blast
  from 1 2 3 4 5 6 7 8 show ?thesis by blast
qed

text \<open>
  The claim as worded fails: two dry-run buys with the same arguments whose random draws
  differ return different signatures.
\<close>

theorem dry_run_signature_counterexample:
  "signature (buyToken True ''W'' drawsLow idleNetwork ''X'' (rd 0.1)) \<noteq>
   signature (buyToken True ''W'' drawsMid idleNetwork ''X'' (rd 0.1))"
  by (simp add: buyToken_def simulateBuy_def fakeSignature_last pickChar_draws Let_def)

end
